theory Spec2Isabelle
  imports Main "HOL-Library.Word" "HOL-Library.Sublist" "HOL-Library.Signed_Division"
begin

section \<open>The module ingestion pipeline of pkgsite (package fetch)\<close>

text \<open>
  A shallow embedding of \<^verbatim>\<open>internal/fetch/fetch.go\<close>: \<^verbatim>\<open>FetchModule\<close>,
  \<^verbatim>\<open>fetchModule\<close>, \<^verbatim>\<open>GetInfo\<close>, \<^verbatim>\<open>getZipSize\<close>, \<^verbatim>\<open>getGoModPath\<close>,
  \<^verbatim>\<open>processZipFile\<close>, \<^verbatim>\<open>processGoModFile\<close> and \<^verbatim>\<open>extractDeprecatedComment\<close>.
  Go strings are byte sequences (\<open>string\<close>), \<^verbatim>\<open>int64\<close> and \<^verbatim>\<open>uint64\<close> are 64-bit
  words, an \<^verbatim>\<open>error\<close> is a value (\<open>None\<close> is \<^verbatim>\<open>nil\<close>), and a function returning
  several results returns a tuple. The proxy, the standard-library archive, the load
  shedder, the license detector and the \<^verbatim>\<open>modfile\<close> parser are collaborators whose
  results are parameters of the model (the record \<open>deps\<close>).
\<close>

subsection \<open>Errors\<close>

text \<open>
  The sentinel errors that the package names: those of \<^verbatim>\<open>derrors\<close> and the two that
  \<^verbatim>\<open>fetch.go\<close> declares itself (\<^verbatim>\<open>ErrModuleContainsNoPackages\<close>, \<^verbatim>\<open>errMalformedZip\<close>).
\<close>

datatype sentinel =
    NotFound
  | Excluded
  | DBModuleInsertInvalid
  | AlternativeModule
  | BadModule
  | ModuleTooLarge
  | SheddingLoad
  | HasIncompletePackages
  | ErrModuleContainsNoPackages
  | errMalformedZip

text \<open>
  An error is a sentinel, or the result of \<^verbatim>\<open>fmt.Errorf\<close>: the format string, its
  operands that are not wrapped, and the operand of \<^verbatim>\<open>%w\<close> when there is one. The
  message is kept unrendered; \<open>Txt e\<close> stands for the text of the error \<open>e\<close>
  (\<^verbatim>\<open>err.Error()\<close>, or \<^verbatim>\<open>err\<close> under \<^verbatim>\<open>%v\<close>), which does not belong to the chain.
\<close>

datatype fmt_arg = Str string | Strs "string list" | Num int | Txt error
and error =
    Sentinel sentinel
  | Errorf string "fmt_arg list" "error option"

text \<open>\<^verbatim>\<open>errors.Is\<close>: follows the chain of \<^verbatim>\<open>%w\<close> operands.\<close>

fun errors_Is :: "error \<Rightarrow> sentinel \<Rightarrow> bool" where
  "errors_Is (Sentinel t) s = (t = s)"
| "errors_Is (Errorf f as None) s = False"
| "errors_Is (Errorf f as (Some e)) s = errors_Is e s"

text \<open>
  \<^verbatim>\<open>derrors.Wrap(&err, format, args...)\<close>: when the error is not nil it becomes
  \<^verbatim>\<open>fmt.Errorf("%s: %w", fmt.Sprintf(format, args...), err)\<close>; nil stays nil.
\<close>

definition derrors_Wrap :: "error option \<Rightarrow> string \<Rightarrow> fmt_arg list \<Rightarrow> error option" where
  "derrors_Wrap errp format args =
     (case errp of
        None \<Rightarrow> None
      | Some err \<Rightarrow> Some (Errorf ''%s: %w'' (Str format # args) (Some err)))"

text \<open>
  Modelled from the spec: \<^verbatim>\<open>derrors.ToStatus\<close> and its table of codes, which are not
  under the sources. Section 7: each status class maps to a distinct, stable status code.
  The table is a parameter: an error has the code of the first entry of the table whose
  sentinel it wraps, and an error of no class is an internal error
  (\<^verbatim>\<open>http.StatusInternalServerError\<close>).
\<close>

type_synonym code_table = "(sentinel \<times> int) list"

definition StatusOK :: int where
  "StatusOK = 200"

definition StatusInternalServerError :: int where
  "StatusInternalServerError = 500"

definition ToStatus :: "code_table \<Rightarrow> error \<Rightarrow> int" where
  "ToStatus table err =
     (case find (\<lambda>e. errors_Is err (fst e)) table of
        Some e \<Rightarrow> snd e
      | None \<Rightarrow> StatusInternalServerError)"

subsection \<open>Strings\<close>

text \<open>\<^verbatim>\<open>strings.HasPrefix\<close>, \<^verbatim>\<open>strings.HasSuffix\<close> and \<^verbatim>\<open>strings.TrimPrefix\<close>.\<close>

definition HasPrefix :: "string \<Rightarrow> string \<Rightarrow> bool" where
  "HasPrefix s p = (length p \<le> length s \<and> take (length p) s = p)"

definition HasSuffix :: "string \<Rightarrow> string \<Rightarrow> bool" where
  "HasSuffix s p = (length p \<le> length s \<and> drop (length s - length p) s = p)"

definition TrimPrefix :: "string \<Rightarrow> string \<Rightarrow> string" where
  "TrimPrefix s p = (if HasPrefix s p then drop (length p) s else s)"

text \<open>
  The UTF-8 encodings of the code points for which \<^verbatim>\<open>unicode.IsSpace\<close> holds: tab to
  carriage return, space, U+0085, U+00A0, U+1680, U+2000 to U+200A, U+2028, U+2029,
  U+202F, U+205F and U+3000.
\<close>

definition spaceRunes :: "string list" where
  "spaceRunes =
     [[CHR 0x09], [CHR 0x0A], [CHR 0x0B], [CHR 0x0C], [CHR 0x0D], [CHR 0x20],
      [CHR 0xC2, CHR 0x85], [CHR 0xC2, CHR 0xA0],
      [CHR 0xE1, CHR 0x9A, CHR 0x80],
      [CHR 0xE2, CHR 0x80, CHR 0x80], [CHR 0xE2, CHR 0x80, CHR 0x81],
      [CHR 0xE2, CHR 0x80, CHR 0x82], [CHR 0xE2, CHR 0x80, CHR 0x83],
      [CHR 0xE2, CHR 0x80, CHR 0x84], [CHR 0xE2, CHR 0x80, CHR 0x85],
      [CHR 0xE2, CHR 0x80, CHR 0x86], [CHR 0xE2, CHR 0x80, CHR 0x87],
      [CHR 0xE2, CHR 0x80, CHR 0x88], [CHR 0xE2, CHR 0x80, CHR 0x89],
      [CHR 0xE2, CHR 0x80, CHR 0x8A],
      [CHR 0xE2, CHR 0x80, CHR 0xA8], [CHR 0xE2, CHR 0x80, CHR 0xA9],
      [CHR 0xE2, CHR 0x80, CHR 0xAF],
      [CHR 0xE2, CHR 0x81, CHR 0x9F],
      [CHR 0xE3, CHR 0x80, CHR 0x80]]"

text \<open>The number of bytes of the space at the start (at the end) of a string; 0 when there is none.\<close>

definition leadingSpace :: "string \<Rightarrow> nat" where
  "leadingSpace s = (case find (HasPrefix s) spaceRunes of Some r \<Rightarrow> length r | None \<Rightarrow> 0)"

definition trailingSpace :: "string \<Rightarrow> nat" where
  "trailingSpace s = (case find (HasSuffix s) spaceRunes of Some r \<Rightarrow> length r | None \<Rightarrow> 0)"

text \<open>
  \<^verbatim>\<open>strings.TrimSpace\<close>: the spaces at the start are dropped one code point at a time,
  then those at the end.
\<close>

function TrimLeftSpace :: "string \<Rightarrow> string" where
  "TrimLeftSpace s =
     (if leadingSpace s = 0 then s else TrimLeftSpace (drop (leadingSpace s) s))"
  by pat_completeness auto
termination
proof (relation "measure length")
  show "wf (measure length)" by simp
next
  fix s :: string
  assume nz: "leadingSpace s \<noteq> 0"
  then obtain r where r: "find (HasPrefix s) spaceRunes = Some r"
    by (auto simp: leadingSpace_def split: option.splits)
  then have "HasPrefix s r"
    by (auto simp: find_Some_iff)
  then have "length r \<le> length s"
    by (simp add: HasPrefix_def)
  with r nz have "0 < leadingSpace s \<and> leadingSpace s \<le> length s"
    by (simp add: leadingSpace_def)
  then have "length s - leadingSpace s < length s"
    by arith
  then show "(drop (leadingSpace s) s, s) \<in> measure length"
    by simp
qed

function TrimRightSpace :: "string \<Rightarrow> string" where
  "TrimRightSpace s =
     (if trailingSpace s = 0 then s
      else TrimRightSpace (take (length s - trailingSpace s) s))"
  by pat_completeness auto
termination
proof (relation "measure length")
  show "wf (measure length)" by simp
next
  fix s :: string
  assume nz: "trailingSpace s \<noteq> 0"
  then obtain r where r: "find (HasSuffix s) spaceRunes = Some r"
    by (auto simp: trailingSpace_def split: option.splits)
  then have "HasSuffix s r"
    by (auto simp: find_Some_iff)
  then have "length r \<le> length s"
    by (simp add: HasSuffix_def)
  with r nz have "0 < trailingSpace s \<and> trailingSpace s \<le> length s"
    by (simp add: trailingSpace_def)
  then have "length s - trailingSpace s < length s"
    by arith
  then show "(take (length s - trailingSpace s) s, s) \<in> measure length"
    by simp
qed

declare TrimLeftSpace.simps [simp del]
declare TrimRightSpace.simps [simp del]

definition TrimSpace :: "string \<Rightarrow> string" where
  "TrimSpace s = TrimRightSpace (TrimLeftSpace s)"

subsection \<open>The deprecation comment of a go.mod file\<close>

text \<open>
  What \<^verbatim>\<open>extractDeprecatedComment\<close> reads of a parsed \<^verbatim>\<open>modfile.File\<close>: the module
  statement, if any (\<^verbatim>\<open>mf.Module\<close> may be nil), and the comments of its syntax line, those
  before it and those at its end.
\<close>

record Comment =
  Token :: string

record ModuleStmt =
  Before :: "Comment list"
  Suffix :: "Comment list"

record modfile_File =
  mf_Module :: "ModuleStmt option"

definition deprecatedPrefix :: string where
  "deprecatedPrefix = ''Deprecated:''"

text \<open>The text of a comment: \<^verbatim>\<open>strings.TrimSpace(strings.TrimPrefix(comment.Token, "//"))\<close>.\<close>

definition commentText :: "Comment \<Rightarrow> string" where
  "commentText comment = TrimSpace (TrimPrefix (Token comment) ''//'')"

text \<open>The loop of \<^verbatim>\<open>extractDeprecatedComment\<close>: it returns at the first comment that matches.\<close>

fun deprecatedLoop :: "Comment list \<Rightarrow> bool \<times> string" where
  "deprecatedLoop [] = (False, [])"
| "deprecatedLoop (comment # rest) =
     (let text = commentText comment in
      if HasPrefix text deprecatedPrefix
      then (True, TrimSpace (drop (length deprecatedPrefix) text))
      else deprecatedLoop rest)"

definition extractDeprecatedComment :: "modfile_File \<Rightarrow> bool \<times> string" where
  "extractDeprecatedComment mf =
     (case mf_Module mf of
        None \<Rightarrow> (False, [])
      | Some m \<Rightarrow> deprecatedLoop (Before m @ Suffix m))"

text \<open>The line comments attached to the module declaration, in the order of the loop.\<close>

definition moduleComments :: "modfile_File \<Rightarrow> Comment list" where
  "moduleComments mf = (case mf_Module mf of None \<Rightarrow> [] | Some m \<Rightarrow> Before m @ Suffix m)"

definition isDeprecation :: "Comment \<Rightarrow> bool" where
  "isDeprecation comment = HasPrefix (commentText comment) deprecatedPrefix"

subsection \<open>Paths\<close>

text \<open>
  \<^verbatim>\<open>path.Clean\<close> and \<^verbatim>\<open>path.Join\<close> of the Go library, on the elements between slashes:
  empty elements and \<^verbatim>\<open>.\<close> are dropped, \<^verbatim>\<open>..\<close> removes the element before it (at the
  start it is kept in a relative path and dropped in a rooted one), and the empty result
  is \<^verbatim>\<open>.\<close>.
\<close>

fun splitSlash :: "string \<Rightarrow> string list" where
  "splitSlash [] = [[]]"
| "splitSlash (c # cs) =
     (if c = CHR ''/'' then [] # splitSlash cs
      else (case splitSlash cs of
              [] \<Rightarrow> [[c]]
            | e # es \<Rightarrow> (c # e) # es))"

fun joinSlash :: "string list \<Rightarrow> string" where
  "joinSlash [] = []"
| "joinSlash [e] = e"
| "joinSlash (e # es) = e @ CHR ''/'' # joinSlash es"

fun cleanLoop :: "bool \<Rightarrow> string list \<Rightarrow> string list \<Rightarrow> string list" where
  "cleanLoop rooted out [] = out"
| "cleanLoop rooted out (c # cs) =
     (if c = [] \<or> c = ''.'' then cleanLoop rooted out cs
      else if c = ''..'' then
        (if out \<noteq> [] \<and> last out \<noteq> ''..'' then cleanLoop rooted (butlast out) cs
         else if rooted then cleanLoop rooted out cs
         else cleanLoop rooted (out @ [''..'']) cs)
      else cleanLoop rooted (out @ [c]) cs)"

definition path_Clean :: "string \<Rightarrow> string" where
  "path_Clean p =
     (if p = [] then ''.''
      else (let rooted = (hd p = CHR ''/'');
                out = cleanLoop rooted [] (splitSlash p);
                s = (if rooted then ''/'' else []) @ joinSlash out
            in if s = [] then ''.'' else s))"

definition path_Join :: "string list \<Rightarrow> string" where
  "path_Join elem =
     (case dropWhile (\<lambda>e. e = []) elem of
        [] \<Rightarrow> []
      | es \<Rightarrow> path_Clean (joinSlash es))"

subsection \<open>The data of a fetch\<close>

type_synonym int64 = "64 word"
type_synonym uint64 = "64 word"

text \<open>A \<^verbatim>\<open>time.Time\<close>; 0 is the zero time.\<close>

type_synonym Time = nat

text \<open>
  A Go function value of type \<^verbatim>\<open>func()\<close>, as \<^verbatim>\<open>FetchResult.Defer\<close> holds one: the
  function literal \<^verbatim>\<open>func() {}\<close> of \<^verbatim>\<open>FetchModule\<close>, or a release function that the
  load shedder handed back (the number names the closure). The field itself may be nil,
  which is \<open>None\<close>.
\<close>

datatype func = NoOp | ReleaseFn nat

record VersionInfo =
  vi_Version :: string
  vi_Time :: Time

record zip_File =
  zf_Name :: string
  zf_UncompressedSize64 :: uint64

record zip_Reader =
  zr_File :: "zip_File list"

type_synonym License = string
type_synonym source_Info = string

record Readme =
  rm_Filepath :: string
  rm_Contents :: string

record goPackage =
  gp_name :: string
  gp_path :: string
  gp_v1path :: string
  gp_isRedistributable :: bool
  gp_imports :: "string list"

record PackageVersionState =
  pvs_PackagePath :: string
  pvs_ModulePath :: string
  pvs_Version :: string
  pvs_Status :: int

text \<open>
  A unit of \<^verbatim>\<open>internal.Module\<close>: a directory of the module, with the package in it when
  there is one.
\<close>

record Unit =
  u_Path :: string
  u_Package :: "goPackage option"

record Module =
  m_ModulePath :: string
  m_Version :: string
  m_CommitTime :: Time
  m_IsRedistributable :: bool
  m_SourceInfo :: "source_Info option"
  m_HasGoMod :: bool
  m_Deprecated :: bool
  m_DeprecationComment :: string
  m_Licenses :: "License list"
  m_Units :: "Unit list"

record FetchResult =
  fr_ModulePath :: string
  fr_RequestedVersion :: string
  fr_ResolvedVersion :: string
  fr_MainVersion :: string
  fr_MasterVersion :: string
  fr_HasGoMod :: bool
  fr_GoModPath :: string
  fr_Status :: int
  fr_Error :: "error option"
  fr_Defer :: "func option"
  fr_Module :: "Module option"
  fr_PackageVersionStates :: "PackageVersionState list"

record FetchInfo =
  fi_ModulePath :: string
  fi_Version :: string
  fi_ZipSize :: uint64
  fi_Finished :: bool
  fi_Status :: int
  fi_Error :: "error option"

subsection \<open>Collaborators\<close>

text \<open>
  What a fetch obtains from outside \<^verbatim>\<open>fetch.go\<close>. The proxy client
  (\<^verbatim>\<open>Info\<close>, \<^verbatim>\<open>ZipSize\<close>, \<^verbatim>\<open>Zip\<close>, \<^verbatim>\<open>Mod\<close>), the package \<^verbatim>\<open>stdlib\<close>, the package
  \<^verbatim>\<open>modfile\<close>, \<^verbatim>\<open>source.ModuleInfo\<close> (its error is only logged, so the model keeps its
  result alone) and the license detector are other packages; \<^verbatim>\<open>zipLoadShedder\<close>,
  \<^verbatim>\<open>maxModuleZipSize\<close>, \<^verbatim>\<open>extractReadmesFromZip\<close>, \<^verbatim>\<open>extractPackagesFromZip\<close> and
  \<^verbatim>\<open>moduleUnits\<close> are declared in other files of the package. The shedder is nil
  (\<open>None\<close>) or a \<^verbatim>\<open>shouldShed\<close> that returns its answer and a release function.
  \<open>codes\<close> is the table of \<open>ToStatus\<close>.
\<close>

record deps =
  proxy_Info :: "string \<Rightarrow> string \<Rightarrow> error + VersionInfo"
  proxy_ZipSize :: "string \<Rightarrow> string \<Rightarrow> error + int64"
  proxy_Zip :: "string \<Rightarrow> string \<Rightarrow> error + zip_Reader"
  proxy_Mod :: "string \<Rightarrow> string \<Rightarrow> error + string"
  stdlib_ZipInfo :: "string \<Rightarrow> error + string"
  stdlib_Zip :: "string \<Rightarrow> error + (zip_Reader \<times> string \<times> Time)"
  stdlib_EstimatedZipSize :: int64
  modfile_ModulePath :: "string \<Rightarrow> string"
  modfile_Parse :: "string \<Rightarrow> error + modfile_File"
  source_ModuleInfo :: "string \<Rightarrow> string \<Rightarrow> source_Info option"
  licenses_AllLicenses :: "string \<Rightarrow> string \<Rightarrow> zip_Reader \<Rightarrow> License list"
  licenses_ModuleIsRedistributable :: "string \<Rightarrow> string \<Rightarrow> zip_Reader \<Rightarrow> bool"
  zipLoadShedder :: "(uint64 \<Rightarrow> bool \<times> func) option"
  maxModuleZipSize :: int64
  extractReadmesFromZip :: "string \<Rightarrow> string \<Rightarrow> zip_Reader \<Rightarrow> error + Readme list"
  extractPackagesFromZip ::
    "string \<Rightarrow> string \<Rightarrow> zip_Reader \<Rightarrow> source_Info option
       \<Rightarrow> error + (goPackage list \<times> PackageVersionState list)"
  moduleUnits :: "string \<Rightarrow> string \<Rightarrow> goPackage list \<Rightarrow> Readme list \<Rightarrow> zip_Reader \<Rightarrow> Unit list"
  codes :: code_table

text \<open>
  \<^verbatim>\<open>stdlib.ModulePath\<close>, the module path of the standard library (the comment of
  \<^verbatim>\<open>GetInfo\<close> and the test of the unit paths give its value), and the mebibyte of the
  messages.
\<close>

definition stdlib_ModulePath :: string where
  "stdlib_ModulePath = ''std''"

definition mib :: int where
  "mib = 1024 * 1024"

text \<open>
  What a fetch does to the outside, in the order in which it does it: the calls of
  \<^verbatim>\<open>fetchModule\<close> to its collaborators, the entries of the table of fetches in progress
  (\<^verbatim>\<open>startFetchInfo\<close>, \<^verbatim>\<open>finishFetchInfo\<close>), and the calls of function values. Calling a
  nil function value panics. Metrics, logs and trace spans are left out.
\<close>

datatype event =
    Ev_GetInfo
  | Ev_getZipSize
  | Ev_shouldShed uint64
  | Ev_startFetchInfo FetchInfo
  | Ev_Zip
  | Ev_getGoModPath
  | Ev_processZipFile
  | Ev_processGoModFile
  | Ev_finishFetchInfo FetchInfo
  | Ev_call func
  | Ev_panic

subsection \<open>The functions of fetch.go\<close>

definition GetInfo :: "deps \<Rightarrow> string \<Rightarrow> string \<Rightarrow> error + VersionInfo" where
  "GetInfo d modulePath requestedVersion =
     (if modulePath = stdlib_ModulePath then
        (case stdlib_ZipInfo d requestedVersion of
           Inl err \<Rightarrow> Inl err
         | Inr resolvedVersion \<Rightarrow> Inr \<lparr>vi_Version = resolvedVersion, vi_Time = 0\<rparr>)
      else proxy_Info d modulePath requestedVersion)"

definition getZipSize :: "deps \<Rightarrow> string \<Rightarrow> string \<Rightarrow> error + int64" where
  "getZipSize d modulePath resolvedVersion =
     (if modulePath = stdlib_ModulePath then Inr (stdlib_EstimatedZipSize d)
      else proxy_ZipSize d modulePath resolvedVersion)"

text \<open>
  \<^verbatim>\<open>getGoModPath\<close> returns the module path of the go.mod file, the bytes of the file
  (\<open>None\<close> is the nil slice) and an error; the path is not empty when the error says
  that the module is an alternative module.
\<close>

definition getGoModPath :: "deps \<Rightarrow> string \<Rightarrow> string \<Rightarrow> string \<times> string option \<times> error option" where
  "getGoModPath d modulePath resolvedVersion =
     (if modulePath = stdlib_ModulePath then (stdlib_ModulePath, None, None)
      else (case proxy_Mod d modulePath resolvedVersion of
              Inl err \<Rightarrow> ([], None, Some err)
            | Inr goModBytes \<Rightarrow>
                (let goModPath = modfile_ModulePath d goModBytes in
                 if goModPath = [] then
                   ([], None,
                    Some (Errorf ''go.mod has no module path: %w'' [] (Some (Sentinel BadModule))))
                 else if goModPath \<noteq> modulePath then
                   (goModPath, Some goModBytes,
                    Some (Errorf ''module path=%s, go.mod path=%s: %w''
                            [Str modulePath, Str goModPath] (Some (Sentinel AlternativeModule))))
                 else (goModPath, Some goModBytes, None))))"

definition moduleVersionDir :: "string \<Rightarrow> string \<Rightarrow> string" where
  "moduleVersionDir modulePath version = modulePath @ ''@'' @ version"

definition zipFile :: "zip_Reader \<Rightarrow> string \<Rightarrow> zip_File option" where
  "zipFile r name = find (\<lambda>f. zf_Name f = name) (zr_File r)"

definition hasGoModFile :: "zip_Reader \<Rightarrow> string \<Rightarrow> string \<Rightarrow> bool" where
  "hasGoModFile zr m v = (zipFile zr (path_Join [moduleVersionDir m v, ''go.mod'']) \<noteq> None)"

text \<open>
  \<^verbatim>\<open>processGoModFile\<close> fills the module with the deprecation of the go.mod file, or
  returns the error of the parser, wrapped by the deferred \<^verbatim>\<open>derrors.Wrap\<close>.
\<close>

definition processGoModFile :: "deps \<Rightarrow> string \<Rightarrow> Module \<Rightarrow> error + Module" where
  "processGoModFile d goModBytes md =
     (case modfile_Parse d goModBytes of
        Inl err \<Rightarrow> Inl (Errorf ''%s: %w'' [Str ''processGoModFile''] (Some err))
      | Inr mf \<Rightarrow>
          (let (deprecated, comment) = extractDeprecatedComment mf in
           Inr (md\<lparr>m_Deprecated := deprecated, m_DeprecationComment := comment\<rparr>)))"

text \<open>
  \<^verbatim>\<open>processZipFile\<close>: the readmes, the licenses, the packages with their states, and the
  module assembled from them. An error of \<^verbatim>\<open>extractPackagesFromZip\<close> that is
  \<^verbatim>\<open>ErrModuleContainsNoPackages\<close> or \<^verbatim>\<open>errMalformedZip\<close> becomes a \<^verbatim>\<open>BadModule\<close> error;
  every error leaves wrapped by the deferred \<^verbatim>\<open>derrors.Wrap\<close>.
\<close>

definition processZipFile ::
  "deps \<Rightarrow> string \<Rightarrow> string \<Rightarrow> Time \<Rightarrow> zip_Reader \<Rightarrow> error + (Module \<times> PackageVersionState list)" where
  "processZipFile d modulePath resolvedVersion commitTime zipReader =
     (let wrap = (\<lambda>err. Errorf ''%s: %w''
                    [Str ''processZipFile(%q, %q)'', Str modulePath, Str resolvedVersion] (Some err));
          sourceInfo = source_ModuleInfo d modulePath resolvedVersion
      in case extractReadmesFromZip d modulePath resolvedVersion zipReader of
           Inl err \<Rightarrow>
             Inl (wrap (Errorf ''extractReadmesFromZip(%q, %q, zipReader): %v''
                          [Str modulePath, Str resolvedVersion, Txt err] None))
         | Inr readmes \<Rightarrow>
             (let allLicenses = licenses_AllLicenses d modulePath resolvedVersion zipReader in
              case extractPackagesFromZip d modulePath resolvedVersion zipReader sourceInfo of
                Inl err \<Rightarrow>
                  (if errors_Is err ErrModuleContainsNoPackages \<or> errors_Is err errMalformedZip
                   then Inl (wrap (Errorf ''%v: %w'' [Txt err] (Some (Sentinel BadModule))))
                   else Inl (wrap (Errorf ''extractPackagesFromZip(%q, %q, zipReader, %v): %v''
                                     [Str modulePath, Str resolvedVersion, Strs allLicenses, Txt err]
                                     None)))
              | Inr (packages, packageVersionStates) \<Rightarrow>
                  Inr (\<lparr>m_ModulePath = modulePath,
                        m_Version = resolvedVersion,
                        m_CommitTime = commitTime,
                        m_IsRedistributable =
                          licenses_ModuleIsRedistributable d modulePath resolvedVersion zipReader,
                        m_SourceInfo = sourceInfo,
                        m_HasGoMod = False,
                        m_Deprecated = False,
                        m_DeprecationComment = [],
                        m_Licenses = allLicenses,
                        m_Units = moduleUnits d modulePath resolvedVersion packages readmes zipReader\<rparr>,
                       packageVersionStates)))"

text \<open>
  \<^verbatim>\<open>fetchModule\<close> updates the result \<^verbatim>\<open>fr\<close> through its pointer and returns the entry of
  the table of fetches in progress (nil before the fetch proceeds) and an error. The
  model returns these two, the updated result and the events. The body is modelled in
  the order of the source, in blocks; each block ends by running the next one, as the
  statements of the function follow one another.

  The block under \<^verbatim>\<open>if zipLoadShedder != nil\<close> is the only one with something after it
  on every path: it yields the error with which \<^verbatim>\<open>fetchModule\<close> returns from inside
  it, if any, and the size of the zip (0 when the block is skipped).
\<close>

definition loadShedBlock ::
  "deps \<Rightarrow> FetchResult \<Rightarrow> error option \<times> int64 \<times> FetchResult \<times> event list" where
  "loadShedBlock d fr =
     (case zipLoadShedder d of
        None \<Rightarrow> (None, 0, fr, [])
      | Some shouldShed \<Rightarrow>
          (case getZipSize d (fr_ModulePath fr) (fr_ResolvedVersion fr) of
             Inl err \<Rightarrow> (Some err, 0, fr, [Ev_getZipSize])
           | Inr zipSize \<Rightarrow>
               (let (shed, deferFunc) = shouldShed zipSize;
                    fr = fr\<lparr>fr_Defer := Some deferFunc\<rparr>;
                    tr = [Ev_getZipSize, Ev_shouldShed zipSize]
                in if shed then
                     (Some (Errorf ''%w: size=%dMi'' [Num (sint zipSize sdiv mib)]
                              (Some (Sentinel SheddingLoad))),
                      zipSize, fr, tr)
                   else if sint (maxModuleZipSize d) < sint zipSize then
                     (Some (Sentinel ModuleTooLarge), zipSize, fr, tr)
                   else (None, zipSize, fr, tr))))"

text \<open>
  From the call of \<^verbatim>\<open>processZipFile\<close> to the end: the module, the go.mod file when its
  bytes are not nil, and the loop over the states of the packages, which sets the status
  of the result when a state is not 200.
\<close>

definition moduleBlock ::
  "deps \<Rightarrow> FetchResult \<Rightarrow> Time \<Rightarrow> zip_Reader \<Rightarrow> string option
     \<Rightarrow> error option \<times> FetchResult \<times> event list" where
  "moduleBlock d fr commitTime zipReader goModBytes =
     (case processZipFile d (fr_ModulePath fr) (fr_ResolvedVersion fr) commitTime zipReader of
        Inl err \<Rightarrow> (Some err, fr, [Ev_processZipFile])
      | Inr (md, pvs) \<Rightarrow>
          (let md = md\<lparr>m_HasGoMod := fr_HasGoMod fr\<rparr>
           in case (case goModBytes of
                      None \<Rightarrow> (Inr md, [Ev_processZipFile])
                    | Some bytes \<Rightarrow>
                        (processGoModFile d bytes md, [Ev_processZipFile, Ev_processGoModFile]))
              of
                (Inl err, tr) \<Rightarrow>
                  (Some (Errorf ''%v: %w'' [Txt err] (Some (Sentinel BadModule))), fr, tr)
              | (Inr md, tr) \<Rightarrow>
                  (let fr = fr\<lparr>fr_Module := Some md\<rparr>;
                       fr = fr\<lparr>fr_PackageVersionStates := pvs\<rparr>;
                       fr = foldl (\<lambda>fr state.
                                     if pvs_Status state \<noteq> StatusOK
                                     then fr\<lparr>fr_Status :=
                                                ToStatus (codes d) (Sentinel HasIncompletePackages)\<rparr>
                                     else fr)
                                  fr (fr_PackageVersionStates fr)
                   in (None, fr, tr))))"

text \<open>
  From \<^verbatim>\<open>fr.HasGoMod\<close> on: whether the zip has a go.mod file, the go.mod path, which is
  written into the result before its error is looked at, and the rest.
\<close>

definition goModBlock ::
  "deps \<Rightarrow> FetchResult \<Rightarrow> Time \<Rightarrow> zip_Reader \<Rightarrow> error option \<times> FetchResult \<times> event list" where
  "goModBlock d fr commitTime zipReader =
     (let fr = fr\<lparr>fr_HasGoMod :=
                   (if fr_ModulePath fr = stdlib_ModulePath then True
                    else hasGoModFile zipReader (fr_ModulePath fr) (fr_ResolvedVersion fr))\<rparr>;
          (goModPath, goModBytes, err) =
            getGoModPath d (fr_ModulePath fr) (fr_ResolvedVersion fr);
          fr = fr\<lparr>fr_GoModPath := goModPath\<rparr>
      in case err of
           Some err \<Rightarrow> (Some err, fr, [Ev_getGoModPath])
         | None \<Rightarrow>
             (let (err, fr, tr) = moduleBlock d fr commitTime zipReader goModBytes
              in (err, fr, Ev_getGoModPath # tr)))"

text \<open>
  From "Proceed with the fetch" on: the entry of the table of fetches in progress, the
  zip (from \<^verbatim>\<open>stdlib.Zip\<close> for the standard library, which also gives the resolved version
  and the commit time, from the proxy otherwise), and the rest.
\<close>

definition proceedBlock ::
  "deps \<Rightarrow> FetchResult \<Rightarrow> Time \<Rightarrow> int64
     \<Rightarrow> FetchInfo option \<times> error option \<times> FetchResult \<times> event list" where
  "proceedBlock d fr commitTime zipSize =
     (let fi = \<lparr>fi_ModulePath = fr_ModulePath fr,
                 fi_Version = fr_ResolvedVersion fr,
                 fi_ZipSize = zipSize,
                 fi_Finished = False, fi_Status = 0, fi_Error = None\<rparr>;
          tr = [Ev_startFetchInfo fi, Ev_Zip]
      in if fr_ModulePath fr = stdlib_ModulePath then
           (case stdlib_Zip d (fr_RequestedVersion fr) of
              Inl err \<Rightarrow> (Some fi, Some err, fr, tr)
            | Inr (zipReader, resolvedVersion, commitTime) \<Rightarrow>
                (let fr = fr\<lparr>fr_ResolvedVersion := resolvedVersion\<rparr>;
                     fi = fi\<lparr>fi_Version := resolvedVersion\<rparr>;
                     (err, fr, tr') = goModBlock d fr commitTime zipReader
                 in (Some fi, err, fr, tr @ tr')))
         else
           (case proxy_Zip d (fr_ModulePath fr) (fr_ResolvedVersion fr) of
              Inl err \<Rightarrow> (Some fi, Some err, fr, tr)
            | Inr zipReader \<Rightarrow>
                (let (err, fr, tr') = goModBlock d fr commitTime zipReader
                 in (Some fi, err, fr, tr @ tr'))))"

definition fetchModule ::
  "deps \<Rightarrow> FetchResult \<Rightarrow> FetchInfo option \<times> error option \<times> FetchResult \<times> event list" where
  "fetchModule d fr =
     (case GetInfo d (fr_ModulePath fr) (fr_RequestedVersion fr) of
        Inl err \<Rightarrow> (None, Some err, fr, [Ev_GetInfo])
      | Inr info \<Rightarrow>
          (let fr = fr\<lparr>fr_ResolvedVersion := vi_Version info\<rparr>;
               commitTime = vi_Time info;
               (returned, zipSize, fr, tr) = loadShedBlock d fr
           in case returned of
                Some err \<Rightarrow> (None, Some err, fr, Ev_GetInfo # tr)
              | None \<Rightarrow>
                  (let (fi, err, fr, tr') = proceedBlock d fr commitTime zipSize
                   in (fi, err, fr, Ev_GetInfo # tr @ tr'))))"

text \<open>
  \<^verbatim>\<open>finishFetchInfo\<close> writes the end of the fetch into the entry of the table.
\<close>

definition finishFetchInfo :: "FetchInfo \<Rightarrow> int \<Rightarrow> error option \<Rightarrow> FetchInfo" where
  "finishFetchInfo fi status err = fi\<lparr>fi_Finished := True, fi_Status := status, fi_Error := err\<rparr>"

text \<open>
  \<^verbatim>\<open>FetchModule\<close>: the result starts with \<^verbatim>\<open>Defer\<close> set to \<^verbatim>\<open>func() {}\<close> and every
  other field at its zero value; the status comes from the error, or is 200 when nothing
  has set it; the deferred \<^verbatim>\<open>derrors.Wrap\<close> wraps the error last.
\<close>

definition FetchModule :: "deps \<Rightarrow> string \<Rightarrow> string \<Rightarrow> FetchResult \<times> event list" where
  "FetchModule d modulePath requestedVersion =
     (let fr = \<lparr>fr_ModulePath = modulePath,
                 fr_RequestedVersion = requestedVersion,
                 fr_ResolvedVersion = [],
                 fr_MainVersion = [],
                 fr_MasterVersion = [],
                 fr_HasGoMod = False,
                 fr_GoModPath = [],
                 fr_Status = 0,
                 fr_Error = None,
                 fr_Defer = Some NoOp,
                 fr_Module = None,
                 fr_PackageVersionStates = []\<rparr>;
          (fi, err, fr, tr) = fetchModule d fr;
          fr = fr\<lparr>fr_Error := err\<rparr>;
          fr = (case err of
                  Some e \<Rightarrow> fr\<lparr>fr_Status := ToStatus (codes d) e\<rparr>
                | None \<Rightarrow> fr);
          fr = (if fr_Status fr = 0 then fr\<lparr>fr_Status := StatusOK\<rparr> else fr);
          tr = (case fi of
                  Some fi \<Rightarrow> tr @ [Ev_finishFetchInfo (finishFetchInfo fi (fr_Status fr) (fr_Error fr))]
                | None \<Rightarrow> tr);
          fr = fr\<lparr>fr_Error := derrors_Wrap (fr_Error fr) ''FetchModule(%q, %q)''
                                 [Str modulePath, Str requestedVersion]\<rparr>
      in (fr, tr))"

text \<open>
  The whole fetch of a caller that does what the comment of \<^verbatim>\<open>FetchModule\<close> requires
  ("Callers of FetchModule must \<^verbatim>\<open>defer fr.Defer()\<close> immediately after the call"): the
  deferred call runs once, when the caller returns, whatever the result is.
\<close>

definition callDefer :: "func option \<Rightarrow> event" where
  "callDefer f = (case f of None \<Rightarrow> Ev_panic | Some g \<Rightarrow> Ev_call g)"

definition wholeFetch :: "deps \<Rightarrow> string \<Rightarrow> string \<Rightarrow> FetchResult \<times> event list" where
  "wholeFetch d modulePath requestedVersion =
     (let (fr, tr) = FetchModule d modulePath requestedVersion
      in (fr, tr @ [callDefer (fr_Defer fr)]))"

subsection \<open>The unit assembler\<close>

text \<open>
  \<^verbatim>\<open>constructFullPath\<close> and \<^verbatim>\<open>samplePackage\<close> of the test of the unit paths: the path of
  a package is the module path joined with the suffix, and the suffix alone for the
  standard library. \<^verbatim>\<open>path.Base\<close> is the last element of a path without its trailing
  slashes. The sample package carries its name and its path; \<^verbatim>\<open>internal.V1Path\<close> and the
  sample licenses, imports and documentation are outside the sources and \<^verbatim>\<open>unitPaths\<close>
  does not read them.
\<close>

definition constructFullPath :: "string \<Rightarrow> string \<Rightarrow> string" where
  "constructFullPath modulePath sfx =
     (if modulePath \<noteq> stdlib_ModulePath then path_Join [modulePath, sfx] else sfx)"

definition path_Base :: "string \<Rightarrow> string" where
  "path_Base p =
     (if p = [] then ''.''
      else (let q = rev (dropWhile (\<lambda>c. c = CHR ''/'') (rev p))
            in if q = [] then ''/'' else last (splitSlash q)))"

definition samplePackage :: "string \<Rightarrow> string \<Rightarrow> goPackage" where
  "samplePackage modulePath sfx =
     (let p = constructFullPath modulePath sfx
      in \<lparr>gp_name = path_Base p, gp_path = p, gp_v1path = p,
          gp_isRedistributable = True, gp_imports = []\<rparr>)"

text \<open>
  Modelled from the spec: \<^verbatim>\<open>unitPaths\<close> and \<^verbatim>\<open>moduleUnits\<close> (the unit assembler), which
  are not under the sources; only their test is. Section 4.5: one unit per package
  import path, plus one for every distinct ancestor directory (including the module
  root) not already represented, without duplicates when a directory is itself a
  package; for the standard library the paths are used directly. Section 3: every
  directory that is an ancestor of a package path, plus the module root, is a unit even
  if it contains no package. The directories of a path are the path and what is left of
  it when elements are dropped from its end; those of a module are the ones beneath its
  root, and all of them for the standard library, whose paths do not start with the
  module path. A unit carries the package of its path, if there is one.
\<close>

definition pathAncestors :: "string \<Rightarrow> string list" where
  "pathAncestors p = map joinSlash (tl (prefixes (splitSlash p)))"

definition inModule :: "string \<Rightarrow> string \<Rightarrow> bool" where
  "inModule modulePath p =
     (modulePath = stdlib_ModulePath \<or> HasPrefix p (modulePath @ ''/''))"

definition unitPaths :: "string \<Rightarrow> goPackage list \<Rightarrow> string list" where
  "unitPaths modulePath packages =
     remdups (modulePath #
              filter (inModule modulePath)
                (concat (map (\<lambda>p. pathAncestors (gp_path p)) packages)))"

definition assembleUnits :: "string \<Rightarrow> goPackage list \<Rightarrow> Unit list" where
  "assembleUnits modulePath packages =
     map (\<lambda>dir. \<lparr>u_Path = dir, u_Package = find (\<lambda>p. gp_path p = dir) packages\<rparr>)
       (unitPaths modulePath packages)"

text \<open>
  A directory \<open>q\<close> is an ancestor of the path \<open>p\<close>: \<open>p\<close> is \<open>q\<close>, a slash and more.
\<close>

definition isAncestorDir :: "string \<Rightarrow> string \<Rightarrow> bool" where
  "isAncestorDir q p = HasPrefix p (q @ ''/'')"

subsection \<open>The package extractor\<close>

text \<open>
  Modelled from the spec: \<^verbatim>\<open>extractPackagesFromZip\<close> (the content extractor), which is
  not under the sources. Section 4.3: the files of the zip are grouped into import paths
  by directory (steps 1 and 2, a parameter here: the import paths with their files); a
  file whose size exceeds the per-file ceiling causes its import path to be marked with
  a too-large state and excluded (step 3); every other import path is loaded into a
  package (steps 4 and 5, a parameter: the package, or the status that is recorded for
  the path when loading fails, section 7); if the resulting package set is empty the
  extraction fails with the contains-no-packages error (step 6). The ceiling and the
  status of a too-large path are parameters (section 9: the ceiling is a policy
  constant; section 8: "600-or-equivalent").
\<close>

record extractor =
  ex_MaxFileSize :: uint64
  ex_tooLarge :: int
  ex_packageDirs :: "string \<Rightarrow> string \<Rightarrow> zip_Reader \<Rightarrow> (string \<times> zip_File list) list"
  ex_loadPackage :: "string \<Rightarrow> zip_File list \<Rightarrow> int + goPackage"

definition hasLargeFile :: "extractor \<Rightarrow> zip_File list \<Rightarrow> bool" where
  "hasLargeFile ex files = list_ex (\<lambda>f. ex_MaxFileSize ex < zf_UncompressedSize64 f) files"

definition extractDir ::
  "extractor \<Rightarrow> string \<Rightarrow> string \<Rightarrow> string \<times> zip_File list
     \<Rightarrow> goPackage option \<times> PackageVersionState" where
  "extractDir ex modulePath version dir =
     (let state = (\<lambda>status. \<lparr>pvs_PackagePath = fst dir, pvs_ModulePath = modulePath,
                              pvs_Version = version, pvs_Status = status\<rparr>)
      in if hasLargeFile ex (snd dir) then (None, state (ex_tooLarge ex))
         else (case ex_loadPackage ex (fst dir) (snd dir) of
                 Inl status \<Rightarrow> (None, state status)
               | Inr pkg \<Rightarrow> (Some pkg, state StatusOK)))"

definition extractPackages ::
  "extractor \<Rightarrow> string \<Rightarrow> string \<Rightarrow> zip_Reader \<Rightarrow> source_Info option
     \<Rightarrow> error + (goPackage list \<times> PackageVersionState list)" where
  "extractPackages ex modulePath version zr sourceInfo =
     (let results = map (extractDir ex modulePath version) (ex_packageDirs ex modulePath version zr);
          packages = List.map_filter fst results
      in if packages = [] then Inl (Sentinel ErrModuleContainsNoPackages)
         else Inr (packages, map snd results))"

text \<open>
  The collaborators of a fetch whose extractor and unit assembler are the ones modelled
  from the spec.
\<close>

definition withExtractor :: "extractor \<Rightarrow> deps \<Rightarrow> deps" where
  "withExtractor ex d =
     d\<lparr>extractPackagesFromZip := extractPackages ex,
       moduleUnits := (\<lambda>modulePath version packages readmes zr. assembleUnits modulePath packages)\<rparr>"

subsection \<open>The store and the caller of the fetch\<close>

text \<open>
  Modelled from the spec: the store and the caller that hands the outcome of a fetch to
  it (\<^verbatim>\<open>worker.FetchAndUpdateState\<close>), which are not under the sources; only the tests of
  the worker and the interface \<^verbatim>\<open>DataSource\<close> are. Section 6: \<^verbatim>\<open>upsertModule\<close> has atomic
  replace semantics keyed by module and version, and \<^verbatim>\<open>getModuleState\<close> reads the state
  of a module version. Section 3: the outcome is the unit of atomicity handed to the
  store, either the whole assembled module is committed or nothing is. Section 4.4: the
  caller persists the go.mod path of a mismatch as diagnostic state before it discards
  the rest of the result. The store keeps one row per unit of a module version and one
  state per module version. Whether the store accepts a module is a parameter (the test
  of the re-fetch expects \<^verbatim>\<open>DBModuleInsertInvalid\<close> for a module that the store rejects).
  The records are read as the interface \<^verbatim>\<open>DataSource\<close> describes: a directory or a
  package by its path, module path and version, and the packages of a module version.
\<close>

record ModuleVersionState =
  mvs_ModulePath :: string
  mvs_Version :: string
  mvs_Status :: int
  mvs_GoModPath :: string

record UnitRow =
  row_ModulePath :: string
  row_Version :: string
  row_Unit :: Unit

record Store =
  st_units :: "UnitRow list"
  st_states :: "ModuleVersionState list"

definition ofModule :: "string \<Rightarrow> string \<Rightarrow> UnitRow \<Rightarrow> bool" where
  "ofModule modulePath version r = (row_ModulePath r = modulePath \<and> row_Version r = version)"

definition moduleRows :: "Module \<Rightarrow> UnitRow list" where
  "moduleRows m =
     map (\<lambda>u. \<lparr>row_ModulePath = m_ModulePath m, row_Version = m_Version m, row_Unit = u\<rparr>)
       (m_Units m)"

definition upsertModule :: "Store \<Rightarrow> Module \<Rightarrow> Store" where
  "upsertModule st m =
     st\<lparr>st_units :=
          filter (\<lambda>r. \<not> ofModule (m_ModulePath m) (m_Version m) r) (st_units st) @ moduleRows m\<rparr>"

definition upsertModuleState :: "Store \<Rightarrow> ModuleVersionState \<Rightarrow> Store" where
  "upsertModuleState st s =
     st\<lparr>st_states :=
          filter (\<lambda>t. \<not> (mvs_ModulePath t = mvs_ModulePath s \<and> mvs_Version t = mvs_Version s))
            (st_states st) @ [s]\<rparr>"

definition getModuleState :: "Store \<Rightarrow> string \<Rightarrow> string \<Rightarrow> ModuleVersionState option" where
  "getModuleState st modulePath version =
     find (\<lambda>t. mvs_ModulePath t = modulePath \<and> mvs_Version t = version) (st_states st)"

definition GetDirectory :: "Store \<Rightarrow> string \<Rightarrow> string \<Rightarrow> string \<Rightarrow> Unit option" where
  "GetDirectory st dirPath modulePath version =
     map_option row_Unit
       (find (\<lambda>r. ofModule modulePath version r \<and> u_Path (row_Unit r) = dirPath) (st_units st))"

definition GetPackage :: "Store \<Rightarrow> string \<Rightarrow> string \<Rightarrow> string \<Rightarrow> goPackage option" where
  "GetPackage st pkgPath modulePath version =
     (case GetDirectory st pkgPath modulePath version of
        None \<Rightarrow> None
      | Some u \<Rightarrow> u_Package u)"

definition unitPackages :: "Unit list \<Rightarrow> goPackage list" where
  "unitPackages us = List.map_filter u_Package us"

definition GetPackagesInModule :: "Store \<Rightarrow> string \<Rightarrow> string \<Rightarrow> goPackage list" where
  "GetPackagesInModule st modulePath version =
     unitPackages (map row_Unit (filter (ofModule modulePath version) (st_units st)))"

text \<open>
  The caller runs the whole fetch, commits the module when the fetch has no error and
  the store accepts the module, and records the state of the module version with the
  status and the go.mod path of the result. It returns the status and the error.
\<close>

definition FetchAndUpdateState ::
  "(Store \<Rightarrow> Module \<Rightarrow> bool) \<Rightarrow> deps \<Rightarrow> Store \<Rightarrow> string \<Rightarrow> string
     \<Rightarrow> int \<times> error option \<times> Store \<times> event list" where
  "FetchAndUpdateState accepts d st modulePath requestedVersion =
     (let (fr, tr) = wholeFetch d modulePath requestedVersion;
          (status, err, st) =
            (case fr_Module fr of
               None \<Rightarrow> (fr_Status fr, fr_Error fr, st)
             | Some m \<Rightarrow>
                 if fr_Error fr \<noteq> None then (fr_Status fr, fr_Error fr, st)
                 else if accepts st m then (fr_Status fr, None, upsertModule st m)
                 else (ToStatus (codes d) (Sentinel DBModuleInsertInvalid),
                       Some (Sentinel DBModuleInsertInvalid), st));
          st = upsertModuleState st
                 \<lparr>mvs_ModulePath = modulePath, mvs_Version = fr_ResolvedVersion fr,
                  mvs_Status = status, mvs_GoModPath = fr_GoModPath fr\<rparr>
      in (status, err, st, tr))"

subsection \<open>Conditions on a fetch\<close>

text \<open>No class of the table has the code 0, which \<^verbatim>\<open>FetchModule\<close> reads as "not set".\<close>

definition codesNonzero :: "code_table \<Rightarrow> bool" where
  "codesNonzero table = list_all (\<lambda>e. snd e \<noteq> 0) table"

text \<open>
  The block of the load shedder lets the fetch proceed: there is no shedder, or the size
  of the zip is known, the shedder does not shed it and it is not above the maximum.
\<close>

definition admitted :: "deps \<Rightarrow> string \<Rightarrow> string \<Rightarrow> bool" where
  "admitted d modulePath version =
     (case zipLoadShedder d of
        None \<Rightarrow> True
      | Some shouldShed \<Rightarrow>
          (case getZipSize d modulePath version of
             Inl err \<Rightarrow> False
           | Inr zipSize \<Rightarrow>
               \<not> fst (shouldShed zipSize) \<and> \<not> sint (maxModuleZipSize d) < sint zipSize))"

text \<open>
  The zip is obtained: \<open>zr\<close> is the zip, \<open>ver\<close> the resolved version and \<open>ct\<close> the commit
  time with which the fetch goes on, for the version information \<open>info\<close> of \<^verbatim>\<open>GetInfo\<close>.
\<close>

definition zipObtained ::
  "deps \<Rightarrow> string \<Rightarrow> string \<Rightarrow> VersionInfo \<Rightarrow> zip_Reader \<Rightarrow> string \<Rightarrow> Time \<Rightarrow> bool" where
  "zipObtained d modulePath requestedVersion info zr ver ct =
     (if modulePath = stdlib_ModulePath
      then stdlib_Zip d requestedVersion = Inr (zr, ver, ct)
      else proxy_Zip d modulePath (vi_Version info) = Inr zr
           \<and> ver = vi_Version info \<and> ct = vi_Time info)"

text \<open>
  The fetch reaches the extraction of the packages: the version is resolved, the fetch
  is admitted, the zip is obtained, the go.mod path is the path of the module
  (\<open>bytes\<close> are the bytes of the go.mod file, nil for the standard library), and the
  readmes are extracted.
\<close>

definition reachesExtraction ::
  "deps \<Rightarrow> string \<Rightarrow> string \<Rightarrow> zip_Reader \<Rightarrow> string \<Rightarrow> Time \<Rightarrow> string option \<Rightarrow> bool" where
  "reachesExtraction d modulePath requestedVersion zr ver ct bytes =
     (\<exists>info goModPath readmes.
        GetInfo d modulePath requestedVersion = Inr info
        \<and> admitted d modulePath (vi_Version info)
        \<and> zipObtained d modulePath requestedVersion info zr ver ct
        \<and> getGoModPath d modulePath ver = (goModPath, bytes, None)
        \<and> extractReadmesFromZip d modulePath ver zr = Inr readmes)"

text \<open>The go.mod file, when there is one, parses.\<close>

definition goModParses :: "deps \<Rightarrow> string option \<Rightarrow> bool" where
  "goModParses d bytes =
     (case bytes of
        None \<Rightarrow> True
      | Some b \<Rightarrow> (case modfile_Parse d b of Inl err \<Rightarrow> False | Inr mf \<Rightarrow> True))"

text \<open>
  Exactly one import path of the module, \<open>big\<close>, has a file above the ceiling: the
  import paths are distinct and \<open>big\<close> is one of them; its files include one above the
  ceiling; every other import path has no such file, loads into a package of that path,
  and is the module path or lies in the module.
\<close>

definition oneTooLarge ::
  "extractor \<Rightarrow> string \<Rightarrow> (string \<times> zip_File list) list \<Rightarrow> string \<Rightarrow> bool" where
  "oneTooLarge ex modulePath dirs big =
     (distinct (map fst dirs) \<and> big \<in> set (map fst dirs)
      \<and> list_all
           (\<lambda>dir. if fst dir = big then hasLargeFile ex (snd dir)
                   else \<not> hasLargeFile ex (snd dir)
                        \<and> (case ex_loadPackage ex (fst dir) (snd dir) of
                              Inl status \<Rightarrow> False
                            | Inr pkg \<Rightarrow> gp_path pkg = fst dir)
                        \<and> (fst dir = modulePath \<or> inModule modulePath (fst dir)))
           dirs)"

text \<open>The calls of function values among the events.\<close>

fun isCall :: "event \<Rightarrow> bool" where
  "isCall (Ev_call f) = True"
| "isCall Ev_panic = True"
| "isCall e = False"

text \<open>
  What the blocks after the load shedder keep of the result \<open>fr\<close>, whatever the path:
  the \<^verbatim>\<open>Defer\<close> field and the identity of the fetch; no function value is called and the
  shedder is not asked; with an error, the status, the module and the states are those of
  \<open>fr\<close>; without one, there is a module and the status is set by the loop over the states.
\<close>

definition restKeeps ::
  "deps \<Rightarrow> FetchResult \<Rightarrow> error option \<Rightarrow> FetchResult \<Rightarrow> event list \<Rightarrow> bool" where
  "restKeeps d fr err fr' tr =
     (fr_Defer fr' = fr_Defer fr
      \<and> fr_ModulePath fr' = fr_ModulePath fr
      \<and> fr_RequestedVersion fr' = fr_RequestedVersion fr
      \<and> list_all (\<lambda>e. \<not> isCall e) tr
      \<and> (\<forall>s. Ev_shouldShed s \<notin> set tr)
      \<and> (case err of
            Some e \<Rightarrow>
              fr_Status fr' = fr_Status fr \<and> fr_Module fr' = fr_Module fr
              \<and> fr_PackageVersionStates fr' = fr_PackageVersionStates fr
          | None \<Rightarrow>
              fr_Module fr' \<noteq> None
              \<and> fr_Status fr' =
                  (if \<exists>s \<in> set (fr_PackageVersionStates fr'). pvs_Status s \<noteq> StatusOK
                   then ToStatus (codes d) (Sentinel HasIncompletePackages)
                   else fr_Status fr)))"

subsection \<open>Sample inputs\<close>

text \<open>
  A table of codes with the families of the specification (200, a degraded 2xx, 4xx,
  503), and collaborators for a module with one package: the proxy answers every
  request, the go.mod file declares the requested path (the stand-in for
  \<^verbatim>\<open>modfile.ModulePath\<close> reads the text after \<^verbatim>\<open>module\<close>) and there is no load shedder.
  The variants change one collaborator each.
\<close>

definition sampleCodes :: code_table where
  "sampleCodes =
     [(NotFound, 404), (Excluded, 403), (HasIncompletePackages, 290),
      (DBModuleInsertInvalid, 480), (BadModule, 490), (AlternativeModule, 491),
      (ModuleTooLarge, 492), (SheddingLoad, 503)]"

definition samplePkg :: "string \<Rightarrow> goPackage" where
  "samplePkg p =
     \<lparr>gp_name = p, gp_path = p, gp_v1path = p, gp_isRedistributable = True, gp_imports = []\<rparr>"

definition sampleState :: "string \<Rightarrow> string \<Rightarrow> string \<Rightarrow> int \<Rightarrow> PackageVersionState" where
  "sampleState m v p c =
     \<lparr>pvs_PackagePath = p, pvs_ModulePath = m, pvs_Version = v, pvs_Status = c\<rparr>"

definition sampleZip :: "string \<Rightarrow> string \<Rightarrow> zip_Reader" where
  "sampleZip m v =
     \<lparr>zr_File = [\<lparr>zf_Name = m @ ''@'' @ v @ ''/go.mod'', zf_UncompressedSize64 = 12\<rparr>,
                 \<lparr>zf_Name = m @ ''@'' @ v @ ''/a/a.go'', zf_UncompressedSize64 = 40\<rparr>]\<rparr>"

definition sampleDeps :: deps where
  "sampleDeps =
     \<lparr>proxy_Info = (\<lambda>m v. Inr \<lparr>vi_Version = v, vi_Time = 1\<rparr>),
      proxy_ZipSize = (\<lambda>m v. Inr 2048),
      proxy_Zip = (\<lambda>m v. Inr (sampleZip m v)),
      proxy_Mod = (\<lambda>m v. Inr (''module '' @ m)),
      stdlib_ZipInfo = (\<lambda>v. Inr v),
      stdlib_Zip = (\<lambda>v. Inr (\<lparr>zr_File = []\<rparr>, v, 1)),
      stdlib_EstimatedZipSize = 1024,
      modfile_ModulePath = (\<lambda>b. drop 7 b),
      modfile_Parse = (\<lambda>b. Inr \<lparr>mf_Module = Some \<lparr>Before = [], Suffix = []\<rparr>\<rparr>),
      source_ModuleInfo = (\<lambda>m v. None),
      licenses_AllLicenses = (\<lambda>m v z. []),
      licenses_ModuleIsRedistributable = (\<lambda>m v z. True),
      zipLoadShedder = None,
      maxModuleZipSize = 4096,
      extractReadmesFromZip = (\<lambda>m v z. Inr []),
      extractPackagesFromZip =
        (\<lambda>m v z si. Inr ([samplePkg (m @ ''/a'')], [sampleState m v (m @ ''/a'') 200])),
      moduleUnits = (\<lambda>m v ps rs z. map (\<lambda>p. \<lparr>u_Path = gp_path p, u_Package = Some p\<rparr>) ps),
      codes = sampleCodes\<rparr>"

text \<open>The extraction gives a second package state, which is not 200.\<close>

definition incompleteDeps :: deps where
  "incompleteDeps =
     sampleDeps\<lparr>extractPackagesFromZip :=
       (\<lambda>m v z si. Inr ([samplePkg (m @ ''/a'')],
                          [sampleState m v (m @ ''/a'') 200, sampleState m v (m @ ''/b'') 600]))\<rparr>"

text \<open>The extraction finds no package.\<close>

definition noPackagesDeps :: deps where
  "noPackagesDeps =
     sampleDeps\<lparr>extractPackagesFromZip :=
       (\<lambda>m v z si. Inl (Sentinel ErrModuleContainsNoPackages))\<rparr>"

text \<open>The go.mod file has its module line, and a line that the parser rejects.\<close>

definition badGoModDeps :: deps where
  "badGoModDeps =
     sampleDeps\<lparr>modfile_Parse := (\<lambda>b. Inl (Errorf ''go.mod:3: unknown directive: %s'' [Str ''x''] None))\<rparr>"

text \<open>The go.mod file declares another module path.\<close>

definition mismatchDeps :: deps where
  "mismatchDeps = sampleDeps\<lparr>proxy_Mod := (\<lambda>m v. Inr ''module other'')\<rparr>"

text \<open>
  A load shedder that sheds every fetch, one that sheds none, and a maximum size below
  the 2048 bytes of the zip.
\<close>

definition sheddingDeps :: deps where
  "sheddingDeps = sampleDeps\<lparr>zipLoadShedder := Some (\<lambda>size. (True, ReleaseFn 7))\<rparr>"

definition admittingDeps :: deps where
  "admittingDeps = sampleDeps\<lparr>zipLoadShedder := Some (\<lambda>size. (False, ReleaseFn 7))\<rparr>"

definition smallMaxDeps :: deps where
  "smallMaxDeps = admittingDeps\<lparr>maxModuleZipSize := 1024\<rparr>"

definition smallMaxNoShedderDeps :: deps where
  "smallMaxNoShedderDeps = sampleDeps\<lparr>maxModuleZipSize := 1024\<rparr>"

definition smallMaxSheddingDeps :: deps where
  "smallMaxSheddingDeps = sheddingDeps\<lparr>maxModuleZipSize := 1024\<rparr>"

text \<open>A parsed go.mod file with two deprecation comments on its module declaration.\<close>

definition sampleGoMod :: modfile_File where
  "sampleGoMod =
     \<lparr>mf_Module =
        Some \<lparr>Before = [\<lparr>Token = ''// a module''\<rparr>, \<lparr>Token = ''//  Deprecated: use v2 ''\<rparr>],
              Suffix = [\<lparr>Token = ''// Deprecated: other''\<rparr>]\<rparr>\<rparr>"

text \<open>
  Collaborators whose parser gives the go.mod file with the two deprecation comments,
  and a module as \<^verbatim>\<open>processZipFile\<close> may hand it to \<^verbatim>\<open>processGoModFile\<close>.
\<close>

definition deprecatedDeps :: deps where
  "deprecatedDeps = sampleDeps\<lparr>modfile_Parse := (\<lambda>b. Inr sampleGoMod)\<rparr>"

definition sampleModule :: Module where
  "sampleModule =
     \<lparr>m_ModulePath = ''m.io/x'', m_Version = ''v1.0.0'', m_CommitTime = 1,
      m_IsRedistributable = True, m_SourceInfo = None, m_HasGoMod = True,
      m_Deprecated = False, m_DeprecationComment = [], m_Licenses = [],
      m_Units = [\<lparr>u_Path = ''m.io/x/a'', u_Package = Some (samplePkg ''m.io/x/a'')\<rparr>]\<rparr>"

text \<open>
  An empty store, a store that accepts every module, and collaborators whose extraction
  gives two packages.
\<close>

definition emptyStore :: Store where
  "emptyStore = \<lparr>st_units = [], st_states = []\<rparr>"

definition acceptAll :: "Store \<Rightarrow> Module \<Rightarrow> bool" where
  "acceptAll st m = True"

definition twoPackagesDeps :: deps where
  "twoPackagesDeps =
     sampleDeps\<lparr>extractPackagesFromZip :=
       (\<lambda>m v z si. Inr ([samplePkg (m @ ''/a''), samplePkg (m @ ''/b'')],
                          [sampleState m v (m @ ''/a'') 200, sampleState m v (m @ ''/b'') 200]))\<rparr>"

text \<open>
  The store after a fetch of the sample module with the packages \<^verbatim>\<open>a\<close> and \<^verbatim>\<open>b\<close>, and
  after a second fetch of the same version that finds the package \<^verbatim>\<open>a\<close> alone.
\<close>

definition storeAfterFirst :: Store where
  "storeAfterFirst =
     fst (snd (snd (FetchAndUpdateState acceptAll twoPackagesDeps emptyStore ''m.io/x'' ''v1.0.0'')))"

definition storeAfterSecond :: Store where
  "storeAfterSecond =
     fst (snd (snd (FetchAndUpdateState acceptAll sampleDeps storeAfterFirst ''m.io/x'' ''v1.0.0'')))"

text \<open>
  An extractor with a ceiling of 1000 bytes and the status 600 for a path that is too
  large, which finds in the zip the directory \<^verbatim>\<open>a\<close> with a file of 40 bytes and the
  directory \<^verbatim>\<open>b\<close> with a file of 5000 bytes, and loads every path into the sample
  package of that path; and one that finds the directory \<^verbatim>\<open>b\<close> alone.
\<close>

definition sampleExtractor :: extractor where
  "sampleExtractor =
     \<lparr>ex_MaxFileSize = 1000,
      ex_tooLarge = 600,
      ex_packageDirs =
        (\<lambda>m v zr. [(m @ ''/a'', [\<lparr>zf_Name = m @ ''@'' @ v @ ''/a/a.go'', zf_UncompressedSize64 = 40\<rparr>]),
                    (m @ ''/b'', [\<lparr>zf_Name = m @ ''@'' @ v @ ''/b/b.go'', zf_UncompressedSize64 = 5000\<rparr>])]),
      ex_loadPackage = (\<lambda>p files. Inr (samplePkg p))\<rparr>"

definition onlyLargeExtractor :: extractor where
  "onlyLargeExtractor =
     sampleExtractor\<lparr>ex_packageDirs :=
       (\<lambda>m v zr. [(m @ ''/b'', [\<lparr>zf_Name = m @ ''@'' @ v @ ''/b/b.go'', zf_UncompressedSize64 = 5000\<rparr>])])\<rparr>"

definition storeAfterLarge :: Store where
  "storeAfterLarge =
     fst (snd (snd (FetchAndUpdateState acceptAll (withExtractor sampleExtractor sampleDeps)
                      emptyStore ''m.io/x'' ''v1.0.0'')))"

section \<open>Properties\<close>

subsection \<open>The blocks of fetchModule\<close>

lemma incomplete_loop:
  "foldl (\<lambda>fr state. if P state then fr\<lparr>fr_Status := c\<rparr> else fr) fr pvs =
     (if \<exists>s \<in> set pvs. P s then fr\<lparr>fr_Status := c\<rparr> else fr)"
  by (induction pvs arbitrary: fr) auto

lemma ToStatus_wrapped [simp]: "ToStatus t (Errorf f as (Some e)) = ToStatus t e"
  by (simp add: ToStatus_def)

lemma ToStatus_nonzero: "codesNonzero t \<Longrightarrow> ToStatus t e \<noteq> 0"
proof (cases "find (\<lambda>x. errors_Is e (fst x)) t")
  case None
  then show ?thesis
    by (simp add: ToStatus_def StatusInternalServerError_def)
next
  case (Some x)
  assume nz: "codesNonzero t"
  from Some have "x \<in> set t"
    by (auto simp: find_Some_iff)
  with nz have "snd x \<noteq> 0"
    by (simp add: codesNonzero_def list_all_iff)
  with Some show ?thesis
    by (simp add: ToStatus_def)
qed

lemma loadShedBlock_None:
  "zipLoadShedder d = None \<Longrightarrow> loadShedBlock d fr = (None, 0, fr, [])"
  by (simp add: loadShedBlock_def)

lemma loadShedBlock_Inl:
  "zipLoadShedder d = Some f \<Longrightarrow>
   getZipSize d (fr_ModulePath fr) (fr_ResolvedVersion fr) = Inl err \<Longrightarrow>
   loadShedBlock d fr = (Some err, 0, fr, [Ev_getZipSize])"
  by (simp add: loadShedBlock_def)

lemma loadShedBlock_Inr:
  "zipLoadShedder d = Some f \<Longrightarrow>
   getZipSize d (fr_ModulePath fr) (fr_ResolvedVersion fr) = Inr zipSize \<Longrightarrow>
   loadShedBlock d fr =
     ((if fst (f zipSize)
       then Some (Errorf ''%w: size=%dMi'' [Num (sint zipSize sdiv mib)]
                    (Some (Sentinel SheddingLoad)))
       else if sint (maxModuleZipSize d) < sint zipSize
       then Some (Sentinel ModuleTooLarge) else None),
      zipSize, fr\<lparr>fr_Defer := Some (snd (f zipSize))\<rparr>,
      [Ev_getZipSize, Ev_shouldShed zipSize])"
  by (simp add: loadShedBlock_def Let_def split: prod.splits)

lemma loadShedBlock_inv:
  assumes "loadShedBlock d fr = (returned, zipSize, fr', tr)"
  shows "(fr' = fr \<and> (\<forall>s. Ev_shouldShed s \<notin> set tr) \<or>
          (\<exists>f. zipLoadShedder d = Some f \<and> fr' = fr\<lparr>fr_Defer := Some (snd (f zipSize))\<rparr>
                \<and> (\<forall>s. Ev_shouldShed s \<in> set tr \<longleftrightarrow> s = zipSize)))
         \<and> list_all (\<lambda>e. \<not> isCall e) tr"
proof (cases "zipLoadShedder d")
  case None
  with assms show ?thesis
    by (auto simp: loadShedBlock_None)
next
  case (Some f)
  show ?thesis
  proof (cases "getZipSize d (fr_ModulePath fr) (fr_ResolvedVersion fr)")
    case (Inl err)
    with assms Some show ?thesis
      by (auto simp: loadShedBlock_Inl)
  next
    case (Inr z)
    with assms Some show ?thesis
      by (auto simp: loadShedBlock_Inr)
  qed
qed


lemma moduleBlock_keeps:
  assumes "moduleBlock d fr ct zr bytes = (err, fr', tr)"
  shows "restKeeps d fr err fr' tr"
  using assms
  by (auto simp: moduleBlock_def restKeeps_def Let_def incomplete_loop
      split: option.splits sum.splits prod.splits if_splits)

lemma goModBlock_keeps:
  assumes "goModBlock d fr ct zr = (err, fr', tr)"
  shows "restKeeps d fr err fr' tr"
  using assms
  by (auto simp: goModBlock_def Let_def restKeeps_def
      split: option.splits prod.splits dest!: moduleBlock_keeps)

lemma proceedBlock_keeps:
  assumes "proceedBlock d fr ct z = (fi, err, fr', tr)"
  shows "restKeeps d fr err fr' tr"
  using assms
  by (auto simp: proceedBlock_def Let_def restKeeps_def
      split: option.splits sum.splits prod.splits if_splits dest!: goModBlock_keeps)

lemma fetchModule_inv:
  assumes "fetchModule d fr = (fi, err, fr', tr)"
  shows "(fr_Defer fr' = fr_Defer fr \<and> (\<forall>s. Ev_shouldShed s \<notin> set tr) \<or>
          (\<exists>f z. zipLoadShedder d = Some f \<and> fr_Defer fr' = Some (snd (f z))
                 \<and> (\<forall>s. Ev_shouldShed s \<in> set tr \<longleftrightarrow> s = z)))
       \<and> list_all (\<lambda>e. \<not> isCall e) tr
       \<and> (err \<noteq> None \<longrightarrow> fr_Status fr' = fr_Status fr \<and> fr_Module fr' = fr_Module fr
              \<and> fr_PackageVersionStates fr' = fr_PackageVersionStates fr)
       \<and> (err = None \<longrightarrow> fr_Module fr' \<noteq> None
              \<and> fr_Status fr' =
                  (if \<exists>s \<in> set (fr_PackageVersionStates fr'). pvs_Status s \<noteq> StatusOK
                   then ToStatus (codes d) (Sentinel HasIncompletePackages)
                   else fr_Status fr))"
proof (cases "GetInfo d (fr_ModulePath fr) (fr_RequestedVersion fr)")
  case (Inl e)
  with assms show ?thesis
    by (auto simp: fetchModule_def)
next
  case (Inr info)
  obtain returned z fr1 tr1
    where ls: "loadShedBlock d (fr\<lparr>fr_ResolvedVersion := vi_Version info\<rparr>) = (returned, z, fr1, tr1)"
    by (cases "loadShedBlock d (fr\<lparr>fr_ResolvedVersion := vi_Version info\<rparr>)") auto
  note inv1 = loadShedBlock_inv [OF ls]
  show ?thesis
  proof (cases returned)
    case (Some e)
    with assms Inr ls inv1 show ?thesis
      by (auto simp: fetchModule_def Let_def)
  next
    case None
    obtain fi2 err2 fr2 tr2
      where pb: "proceedBlock d fr1 (vi_Time info) z = (fi2, err2, fr2, tr2)"
      by (cases "proceedBlock d fr1 (vi_Time info) z") auto
    note inv2 = proceedBlock_keeps [OF pb]
    from assms Inr ls None pb
    have res: "err = err2" "fr' = fr2" "tr = Ev_GetInfo # tr1 @ tr2"
      by (auto simp: fetchModule_def Let_def)
    from inv1 inv2 res show ?thesis
      by (auto simp: restKeeps_def split: option.splits)
  qed
qed

subsection \<open>The result of FetchModule\<close>

text \<open>\<^verbatim>\<open>FetchModule\<close> in terms of what \<^verbatim>\<open>fetchModule\<close> returns for the fresh result.\<close>

lemma FetchModule_fetchModule:
  assumes "fetchModule d
             \<lparr>fr_ModulePath = mp, fr_RequestedVersion = rv, fr_ResolvedVersion = [],
              fr_MainVersion = [], fr_MasterVersion = [], fr_HasGoMod = False,
              fr_GoModPath = [], fr_Status = 0, fr_Error = None, fr_Defer = Some NoOp,
              fr_Module = None, fr_PackageVersionStates = []\<rparr> = (fi, err, fr, tr)"
  shows "FetchModule d mp rv =
           (fr\<lparr>fr_Error := derrors_Wrap err ''FetchModule(%q, %q)'' [Str mp, Str rv],
               fr_Status :=
                 (let c = (case err of Some e \<Rightarrow> ToStatus (codes d) e | None \<Rightarrow> fr_Status fr)
                  in if c = 0 then StatusOK else c)\<rparr>,
            (case fi of
               Some fi \<Rightarrow>
                 tr @ [Ev_finishFetchInfo
                         (finishFetchInfo fi
                            (let c = (case err of Some e \<Rightarrow> ToStatus (codes d) e
                                      | None \<Rightarrow> fr_Status fr)
                             in if c = 0 then StatusOK else c) err)]
             | None \<Rightarrow> tr))"
  using assms
  by (auto simp: FetchModule_def Let_def split: option.splits)

text \<open>
  Claim C10, as amended. For every module path, requested version and behaviour of the
  collaborators, \<^verbatim>\<open>FetchModule\<close> returns a result whose \<^verbatim>\<open>Defer\<close> field is not nil: it
  is the no-op function with which the result starts, or the release function that the
  load shedder handed back. Its \<^verbatim>\<open>Status\<close> is not zero. When no class has the code 0,
  the status is \<^verbatim>\<open>ToStatus\<close> of the error when there is an error; when there is none,
  it is the code of \<^verbatim>\<open>HasIncompletePackages\<close> if the state of some package is not
  200, and 200 otherwise.
\<close>

theorem FetchModule_result_usable:
  "fr_Defer (fst (FetchModule d mp rv)) \<noteq> None
   \<and> (fr_Defer (fst (FetchModule d mp rv)) = Some NoOp
      \<or> (\<exists>f z. zipLoadShedder d = Some f
                \<and> fr_Defer (fst (FetchModule d mp rv)) = Some (snd (f z))))
   \<and> fr_Status (fst (FetchModule d mp rv)) \<noteq> 0
   \<and> (codesNonzero (codes d) \<longrightarrow>
        (\<forall>e. fr_Error (fst (FetchModule d mp rv)) = Some e \<longrightarrow>
              fr_Status (fst (FetchModule d mp rv)) = ToStatus (codes d) e)
        \<and> (fr_Error (fst (FetchModule d mp rv)) = None \<longrightarrow>
              fr_Status (fst (FetchModule d mp rv)) =
                (if \<exists>s \<in> set (fr_PackageVersionStates (fst (FetchModule d mp rv))).
                      pvs_Status s \<noteq> StatusOK
                 then ToStatus (codes d) (Sentinel HasIncompletePackages)
                 else StatusOK)))"
proof -
  define fr0 where "fr0 =
    \<lparr>fr_ModulePath = mp, fr_RequestedVersion = rv, fr_ResolvedVersion = [],
     fr_MainVersion = [], fr_MasterVersion = [], fr_HasGoMod = False,
     fr_GoModPath = [], fr_Status = 0, fr_Error = None, fr_Defer = Some NoOp,
     fr_Module = None, fr_PackageVersionStates = []\<rparr>"
  obtain fi err fr tr where fm: "fetchModule d fr0 = (fi, err, fr, tr)"
    by (cases "fetchModule d fr0") auto
  note inv = fetchModule_inv [OF fm]
  note res = FetchModule_fetchModule [OF fm [unfolded fr0_def]]
  have dfr: "fr_Defer fr = Some NoOp \<or>
               (\<exists>f z. zipLoadShedder d = Some f \<and> fr_Defer fr = Some (snd (f z)))"
    using inv by (auto simp: fr0_def)
  have nz: "fr_Status (fst (FetchModule d mp rv)) \<noteq> 0"
    by (simp add: res Let_def StatusOK_def)
  have st: "fr_Status (fst (FetchModule d mp rv)) = ToStatus (codes d) e"
    if "codesNonzero (codes d)" "fr_Error (fst (FetchModule d mp rv)) = Some e" for e
  proof -
    from that(2) obtain e0 where e0: "err = Some e0"
      and e: "e = Errorf ''%s: %w'' [Str ''FetchModule(%q, %q)'', Str mp, Str rv] (Some e0)"
      by (auto simp: res derrors_Wrap_def split: option.splits)
    from that(1) have "ToStatus (codes d) e0 \<noteq> 0"
      by (rule ToStatus_nonzero)
    with e0 e show ?thesis
      by (simp add: res Let_def)
  qed
  have ok: "fr_Status (fst (FetchModule d mp rv)) =
              (if \<exists>s \<in> set (fr_PackageVersionStates (fst (FetchModule d mp rv))).
                    pvs_Status s \<noteq> StatusOK
               then ToStatus (codes d) (Sentinel HasIncompletePackages)
               else StatusOK)"
    if "codesNonzero (codes d)" "fr_Error (fst (FetchModule d mp rv)) = None"
  proof -
    from that(2) have e0: "err = None"
      by (auto simp: res derrors_Wrap_def split: option.splits)
    from that(1) have "ToStatus (codes d) (Sentinel HasIncompletePackages) \<noteq> 0"
      by (rule ToStatus_nonzero)
    with e0 inv show ?thesis
      by (auto simp: res Let_def fr0_def)
  qed
  from dfr nz st ok show ?thesis
    by (auto simp: res)
qed

text \<open>
  The theorem at the sample module whose second package state is 600: no error, the
  no-op \<^verbatim>\<open>Defer\<close>, and the status 290 of \<^verbatim>\<open>HasIncompletePackages\<close>.
\<close>

theorem FetchModule_result_usable_witness:
  "codesNonzero (codes incompleteDeps)
   \<and> fr_Error (fst (FetchModule incompleteDeps ''m.io/x'' ''v1.0.0'')) = None
   \<and> fr_Defer (fst (FetchModule incompleteDeps ''m.io/x'' ''v1.0.0'')) = Some NoOp
   \<and> fr_Status (fst (FetchModule incompleteDeps ''m.io/x'' ''v1.0.0'')) = 290"
proof -
  have c: "codesNonzero (codes incompleteDeps)"
    by code_simp
  have e: "fr_Error (fst (FetchModule incompleteDeps ''m.io/x'' ''v1.0.0'')) = None"
    by code_simp
  have s: "\<exists>s \<in> set (fr_PackageVersionStates (fst (FetchModule incompleteDeps ''m.io/x'' ''v1.0.0''))).
             pvs_Status s \<noteq> StatusOK"
    by code_simp
  have t: "ToStatus (codes incompleteDeps) (Sentinel HasIncompletePackages) = 290"
    by code_simp
  have n: "zipLoadShedder incompleteDeps = None"
    by code_simp
  from FetchModule_result_usable [of incompleteDeps "''m.io/x''" "''v1.0.0''"] c e s t n
  show ?thesis
    by auto
qed

text \<open>
  Claim C10 as stated says that the status is 200 whenever the error is nil. For the
  sample module with an incomplete package the error is nil and the status is 290.
\<close>

theorem status_without_error_counterexample:
  "fr_Error (fst (FetchModule incompleteDeps ''m.io/x'' ''v1.0.0'')) = None
   \<and> fr_Status (fst (FetchModule incompleteDeps ''m.io/x'' ''v1.0.0'')) = 290"
  by code_simp

subsection \<open>The deprecation comment\<close>

lemma deprecatedLoop_find:
  "deprecatedLoop cs =
     (case find isDeprecation cs of
        None \<Rightarrow> (False, [])
      | Some c \<Rightarrow> (True, TrimSpace (drop (length deprecatedPrefix) (commentText c))))"
  by (induction cs) (simp_all add: isDeprecation_def Let_def)

lemma extractDeprecatedComment_loop:
  "extractDeprecatedComment mf = deprecatedLoop (moduleComments mf)"
  by (simp add: extractDeprecatedComment_def moduleComments_def split: option.splits)

subsection \<open>The fetch along the path to the extraction\<close>

lemma loadShedBlock_admitted:
  assumes "admitted d (fr_ModulePath fr) (fr_ResolvedVersion fr)"
  shows "\<exists>z g tr1. loadShedBlock d fr = (None, z, fr\<lparr>fr_Defer := g\<rparr>, tr1)
           \<and> set tr1 \<subseteq> {Ev_getZipSize, Ev_shouldShed z}"
proof (cases "zipLoadShedder d")
  case None
  then have "loadShedBlock d fr = (None, 0, fr\<lparr>fr_Defer := fr_Defer fr\<rparr>, [])"
    by (simp add: loadShedBlock_None)
  then show ?thesis
    by (intro exI [of _ 0] exI [of _ "fr_Defer fr"] exI [of _ "[]"]) simp
next
  case (Some f)
  with assms obtain z where z: "getZipSize d (fr_ModulePath fr) (fr_ResolvedVersion fr) = Inr z"
    and ok: "\<not> fst (f z)" "\<not> sint (maxModuleZipSize d) < sint z"
    by (auto simp: admitted_def split: sum.splits)
  from Some z ok
  have "loadShedBlock d fr =
          (None, z, fr\<lparr>fr_Defer := Some (snd (f z))\<rparr>, [Ev_getZipSize, Ev_shouldShed z])"
    by (simp add: loadShedBlock_Inr)
  then show ?thesis
    by (intro exI [of _ z] exI [of _ "Some (snd (f z))"]
          exI [of _ "[Ev_getZipSize, Ev_shouldShed z]"]) simp
qed

lemma proceedBlock_zipObtained:
  assumes "zipObtained d (fr_ModulePath fr) (fr_RequestedVersion fr) info zr ver ct"
    and "fr_ResolvedVersion fr = vi_Version info"
  shows "\<exists>fi. proceedBlock d fr (vi_Time info) z =
           (Some fi,
            fst (goModBlock d (fr\<lparr>fr_ResolvedVersion := ver\<rparr>) ct zr),
            fst (snd (goModBlock d (fr\<lparr>fr_ResolvedVersion := ver\<rparr>) ct zr)),
            [Ev_startFetchInfo
               \<lparr>fi_ModulePath = fr_ModulePath fr, fi_Version = fr_ResolvedVersion fr,
                fi_ZipSize = z, fi_Finished = False, fi_Status = 0, fi_Error = None\<rparr>,
             Ev_Zip] @ snd (snd (goModBlock d (fr\<lparr>fr_ResolvedVersion := ver\<rparr>) ct zr)))"
proof (cases "fr_ModulePath fr = stdlib_ModulePath")
  case True
  with assms show ?thesis
    by (simp add: proceedBlock_def zipObtained_def Let_def split_beta)
next
  case False
  with assms have eq: "fr\<lparr>fr_ResolvedVersion := ver\<rparr> = fr"
    by (simp add: zipObtained_def)
  from False assms show ?thesis
    unfolding eq
    by (simp add: proceedBlock_def zipObtained_def Let_def split_beta)
qed

lemma goModBlock_ok:
  assumes "getGoModPath d (fr_ModulePath fr) (fr_ResolvedVersion fr) = (p, bytes, None)"
  shows "\<exists>h. goModBlock d fr ct zr =
           (fst (moduleBlock d (fr\<lparr>fr_HasGoMod := h, fr_GoModPath := p\<rparr>) ct zr bytes),
            fst (snd (moduleBlock d (fr\<lparr>fr_HasGoMod := h, fr_GoModPath := p\<rparr>) ct zr bytes)),
            Ev_getGoModPath #
              snd (snd (moduleBlock d (fr\<lparr>fr_HasGoMod := h, fr_GoModPath := p\<rparr>) ct zr bytes)))"
  using assms
  by (intro exI [of _ "if fr_ModulePath fr = stdlib_ModulePath then True
                        else hasGoModFile zr (fr_ModulePath fr) (fr_ResolvedVersion fr)"])
     (simp add: goModBlock_def Let_def split_beta)

lemma goModBlock_error:
  assumes "getGoModPath d (fr_ModulePath fr) (fr_ResolvedVersion fr) = (p, bytes, Some e)"
  shows "\<exists>h. goModBlock d fr ct zr =
           (Some e, fr\<lparr>fr_HasGoMod := h, fr_GoModPath := p\<rparr>, [Ev_getGoModPath])"
  using assms
  by (intro exI [of _ "if fr_ModulePath fr = stdlib_ModulePath then True
                        else hasGoModFile zr (fr_ModulePath fr) (fr_ResolvedVersion fr)"])
     (simp add: goModBlock_def Let_def split_beta)

lemma fetchModule_to_goModBlock:
  assumes gi: "GetInfo d (fr_ModulePath fr) (fr_RequestedVersion fr) = Inr info"
    and ad: "admitted d (fr_ModulePath fr) (vi_Version info)"
    and zo: "zipObtained d (fr_ModulePath fr) (fr_RequestedVersion fr) info zr ver ct"
  shows "\<exists>fi g tr1. fetchModule d fr =
           (Some fi,
            fst (goModBlock d (fr\<lparr>fr_ResolvedVersion := ver, fr_Defer := g\<rparr>) ct zr),
            fst (snd (goModBlock d (fr\<lparr>fr_ResolvedVersion := ver, fr_Defer := g\<rparr>) ct zr)),
            tr1 @ snd (snd (goModBlock d (fr\<lparr>fr_ResolvedVersion := ver, fr_Defer := g\<rparr>) ct zr)))
           \<and> Ev_processZipFile \<notin> set tr1 \<and> list_all (\<lambda>e. \<not> isCall e) tr1"
proof -
  let ?fr1 = "fr\<lparr>fr_ResolvedVersion := vi_Version info\<rparr>"
  from ad have "admitted d (fr_ModulePath ?fr1) (fr_ResolvedVersion ?fr1)"
    by simp
  from loadShedBlock_admitted [OF this] obtain z g tr1
    where ls: "loadShedBlock d ?fr1 = (None, z, ?fr1\<lparr>fr_Defer := g\<rparr>, tr1)"
      and tr1: "set tr1 \<subseteq> {Ev_getZipSize, Ev_shouldShed z}"
    by blast
  let ?fr2 = "?fr1\<lparr>fr_Defer := g\<rparr>"
  from zo have "zipObtained d (fr_ModulePath ?fr2) (fr_RequestedVersion ?fr2) info zr ver ct"
    by simp
  from proceedBlock_zipObtained [OF this, of z] obtain fi
    where pb: "proceedBlock d ?fr2 (vi_Time info) z =
           (Some fi,
            fst (goModBlock d (?fr2\<lparr>fr_ResolvedVersion := ver\<rparr>) ct zr),
            fst (snd (goModBlock d (?fr2\<lparr>fr_ResolvedVersion := ver\<rparr>) ct zr)),
            [Ev_startFetchInfo
               \<lparr>fi_ModulePath = fr_ModulePath ?fr2, fi_Version = fr_ResolvedVersion ?fr2,
                fi_ZipSize = z, fi_Finished = False, fi_Status = 0, fi_Error = None\<rparr>,
             Ev_Zip] @ snd (snd (goModBlock d (?fr2\<lparr>fr_ResolvedVersion := ver\<rparr>) ct zr)))"
    by auto
  have eq: "?fr2\<lparr>fr_ResolvedVersion := ver\<rparr> = fr\<lparr>fr_ResolvedVersion := ver, fr_Defer := g\<rparr>"
    by simp
  from tr1 have "Ev_processZipFile \<notin> set tr1" "list_all (\<lambda>e. \<not> isCall e) tr1"
    by (auto simp: list_all_iff)
  with gi ls pb show ?thesis
    unfolding eq
    by (intro exI [of _ fi] exI [of _ g]
          exI [of _ "Ev_GetInfo # tr1 @
                 [Ev_startFetchInfo
                    \<lparr>fi_ModulePath = fr_ModulePath fr, fi_Version = vi_Version info,
                     fi_ZipSize = z, fi_Finished = False, fi_Status = 0, fi_Error = None\<rparr>,
                  Ev_Zip]"])
       (simp add: fetchModule_def Let_def)
qed


lemma processZipFile_Inr:
  assumes "extractReadmesFromZip d mp ver zr = Inr readmes"
    and "extractPackagesFromZip d mp ver zr (source_ModuleInfo d mp ver) = Inr (pkgs, pvs)"
  shows "processZipFile d mp ver ct zr =
           Inr (\<lparr>m_ModulePath = mp, m_Version = ver, m_CommitTime = ct,
                 m_IsRedistributable = licenses_ModuleIsRedistributable d mp ver zr,
                 m_SourceInfo = source_ModuleInfo d mp ver,
                 m_HasGoMod = False, m_Deprecated = False, m_DeprecationComment = [],
                 m_Licenses = licenses_AllLicenses d mp ver zr,
                 m_Units = moduleUnits d mp ver pkgs readmes zr\<rparr>, pvs)"
  using assms
  by (simp add: processZipFile_def Let_def)

lemma processZipFile_noPackages:
  assumes "extractReadmesFromZip d mp ver zr = Inr readmes"
    and "extractPackagesFromZip d mp ver zr (source_ModuleInfo d mp ver) = Inl e"
    and "errors_Is e ErrModuleContainsNoPackages"
  shows "processZipFile d mp ver ct zr =
           Inl (Errorf ''%s: %w'' [Str ''processZipFile(%q, %q)'', Str mp, Str ver]
                  (Some (Errorf ''%v: %w'' [Txt e] (Some (Sentinel BadModule)))))"
  using assms
  by (simp add: processZipFile_def Let_def)

lemma moduleBlock_Inl:
  assumes "processZipFile d (fr_ModulePath fr) (fr_ResolvedVersion fr) ct zr = Inl e"
  shows "moduleBlock d fr ct zr bytes = (Some e, fr, [Ev_processZipFile])"
  using assms
  by (simp add: moduleBlock_def)

lemma moduleBlock_Inr:
  assumes "processZipFile d (fr_ModulePath fr) (fr_ResolvedVersion fr) ct zr = Inr (md, pvs)"
    and "goModParses d bytes"
  shows "fst (moduleBlock d fr ct zr bytes) = None
         \<and> fr_PackageVersionStates (fst (snd (moduleBlock d fr ct zr bytes))) = pvs
         \<and> (\<exists>md'. fr_Module (fst (snd (moduleBlock d fr ct zr bytes))) = Some md'
                \<and> m_Units md' = m_Units md)"
proof (cases bytes)
  case None
  with assms show ?thesis
    by (simp add: moduleBlock_def Let_def incomplete_loop)
next
  case (Some b)
  with assms(2) obtain mf where "modfile_Parse d b = Inr mf"
    by (auto simp: goModParses_def split: sum.splits)
  with assms Some show ?thesis
    by (simp add: moduleBlock_def Let_def incomplete_loop processGoModFile_def split_beta)
qed


lemma fetchModule_reaches:
  assumes re: "reachesExtraction d (fr_ModulePath fr) (fr_RequestedVersion fr) zr ver ct bytes"
  shows "\<exists>frB fi tr1.
           fetchModule d fr =
             (Some fi, fst (moduleBlock d frB ct zr bytes),
              fst (snd (moduleBlock d frB ct zr bytes)),
              tr1 @ snd (snd (moduleBlock d frB ct zr bytes)))
           \<and> fr_ModulePath frB = fr_ModulePath fr \<and> fr_ResolvedVersion frB = ver
           \<and> fr_Status frB = fr_Status fr \<and> fr_Module frB = fr_Module fr
           \<and> fr_PackageVersionStates frB = fr_PackageVersionStates fr"
proof -
  from re obtain info p readmes
    where gi: "GetInfo d (fr_ModulePath fr) (fr_RequestedVersion fr) = Inr info"
      and ad: "admitted d (fr_ModulePath fr) (vi_Version info)"
      and zo: "zipObtained d (fr_ModulePath fr) (fr_RequestedVersion fr) info zr ver ct"
      and gm: "getGoModPath d (fr_ModulePath fr) ver = (p, bytes, None)"
    by (auto simp: reachesExtraction_def)
  from fetchModule_to_goModBlock [OF gi ad zo] obtain fi g tr1
    where fm: "fetchModule d fr =
           (Some fi,
            fst (goModBlock d (fr\<lparr>fr_ResolvedVersion := ver, fr_Defer := g\<rparr>) ct zr),
            fst (snd (goModBlock d (fr\<lparr>fr_ResolvedVersion := ver, fr_Defer := g\<rparr>) ct zr)),
            tr1 @ snd (snd (goModBlock d (fr\<lparr>fr_ResolvedVersion := ver, fr_Defer := g\<rparr>) ct zr)))"
    by blast
  let ?frA = "fr\<lparr>fr_ResolvedVersion := ver, fr_Defer := g\<rparr>"
  from gm have "getGoModPath d (fr_ModulePath ?frA) (fr_ResolvedVersion ?frA) = (p, bytes, None)"
    by simp
  from goModBlock_ok [OF this, of ct zr] obtain h
    where gb: "goModBlock d ?frA ct zr =
           (fst (moduleBlock d (?frA\<lparr>fr_HasGoMod := h, fr_GoModPath := p\<rparr>) ct zr bytes),
            fst (snd (moduleBlock d (?frA\<lparr>fr_HasGoMod := h, fr_GoModPath := p\<rparr>) ct zr bytes)),
            Ev_getGoModPath #
              snd (snd (moduleBlock d (?frA\<lparr>fr_HasGoMod := h, fr_GoModPath := p\<rparr>) ct zr bytes)))"
    by blast
  show ?thesis
    by (intro exI [of _ "?frA\<lparr>fr_HasGoMod := h, fr_GoModPath := p\<rparr>"] exI [of _ fi]
          exI [of _ "tr1 @ [Ev_getGoModPath]"])
       (simp add: fm gb)
qed

subsection \<open>The status of a fetch that reaches the extraction\<close>

text \<open>
  Claim C1, as amended. For every fetch that reaches the extraction of the packages
  (and a table without the code 0): when the extraction returns packages and states and
  the go.mod file, if there is one, parses, the fetch has no error, the module is
  assembled, the states are those of the extraction, and the status is 200 if every state
  is 200 and the code of \<^verbatim>\<open>HasIncompletePackages\<close> if some state is not; when the
  extraction reports that the module contains no packages, the fetch fails with a
  \<^verbatim>\<open>BadModule\<close> error, its status is the code of \<^verbatim>\<open>BadModule\<close>, and no module is returned.
\<close>

theorem status_from_package_states:
  assumes "reachesExtraction d mp rv zr ver ct bytes"
    and "codesNonzero (codes d)"
  shows "(\<forall>pkgs pvs.
            extractPackagesFromZip d mp ver zr (source_ModuleInfo d mp ver) = Inr (pkgs, pvs)
            \<and> goModParses d bytes \<longrightarrow>
              fr_Error (fst (FetchModule d mp rv)) = None
              \<and> fr_Module (fst (FetchModule d mp rv)) \<noteq> None
              \<and> fr_PackageVersionStates (fst (FetchModule d mp rv)) = pvs
              \<and> fr_Status (fst (FetchModule d mp rv)) =
                  (if \<forall>s \<in> set pvs. pvs_Status s = StatusOK then StatusOK
                   else ToStatus (codes d) (Sentinel HasIncompletePackages)))
       \<and> (\<forall>e. extractPackagesFromZip d mp ver zr (source_ModuleInfo d mp ver) = Inl e
               \<and> errors_Is e ErrModuleContainsNoPackages \<longrightarrow>
              (\<exists>e'. fr_Error (fst (FetchModule d mp rv)) = Some e' \<and> errors_Is e' BadModule)
              \<and> fr_Status (fst (FetchModule d mp rv)) = ToStatus (codes d) (Sentinel BadModule)
              \<and> fr_Module (fst (FetchModule d mp rv)) = None)"
proof -
  define fr0 where "fr0 =
    \<lparr>fr_ModulePath = mp, fr_RequestedVersion = rv, fr_ResolvedVersion = [],
     fr_MainVersion = [], fr_MasterVersion = [], fr_HasGoMod = False,
     fr_GoModPath = [], fr_Status = 0, fr_Error = None, fr_Defer = Some NoOp,
     fr_Module = None, fr_PackageVersionStates = []\<rparr>"
  from assms(1) have "reachesExtraction d (fr_ModulePath fr0) (fr_RequestedVersion fr0) zr ver ct bytes"
    by (simp add: fr0_def)
  from fetchModule_reaches [OF this] obtain frB fi tr1
    where fm: "fetchModule d fr0 =
             (Some fi, fst (moduleBlock d frB ct zr bytes),
              fst (snd (moduleBlock d frB ct zr bytes)),
              tr1 @ snd (snd (moduleBlock d frB ct zr bytes)))"
      and frB: "fr_ModulePath frB = mp" "fr_ResolvedVersion frB = ver" "fr_Status frB = 0"
        "fr_Module frB = None" "fr_PackageVersionStates frB = []"
    by (auto simp: fr0_def)
  note res = FetchModule_fetchModule [OF fm [unfolded fr0_def]]
  from assms(1) obtain readmes where rd: "extractReadmesFromZip d mp ver zr = Inr readmes"
    by (auto simp: reachesExtraction_def)
  have keeps: "restKeeps d frB (fst (moduleBlock d frB ct zr bytes))
                 (fst (snd (moduleBlock d frB ct zr bytes)))
                 (snd (snd (moduleBlock d frB ct zr bytes)))"
    by (rule moduleBlock_keeps) simp
  have nz: "ToStatus (codes d) x \<noteq> 0" for x
    using assms(2) by (rule ToStatus_nonzero)
  have a: "fr_Error (fst (FetchModule d mp rv)) = None
           \<and> fr_Module (fst (FetchModule d mp rv)) \<noteq> None
           \<and> fr_PackageVersionStates (fst (FetchModule d mp rv)) = pvs
           \<and> fr_Status (fst (FetchModule d mp rv)) =
               (if \<forall>s \<in> set pvs. pvs_Status s = StatusOK then StatusOK
                else ToStatus (codes d) (Sentinel HasIncompletePackages))"
    if ex: "extractPackagesFromZip d mp ver zr (source_ModuleInfo d mp ver) = Inr (pkgs, pvs)"
      and gp: "goModParses d bytes" for pkgs pvs
  proof -
    from processZipFile_Inr [OF rd ex, of ct] frB
    obtain md where "processZipFile d (fr_ModulePath frB) (fr_ResolvedVersion frB) ct zr = Inr (md, pvs)"
      by simp
    from moduleBlock_Inr [OF this gp]
    have m: "fst (moduleBlock d frB ct zr bytes) = None"
      "fr_PackageVersionStates (fst (snd (moduleBlock d frB ct zr bytes))) = pvs"
      by auto
    with keeps frB nz [of "Sentinel HasIncompletePackages"] show ?thesis
      by (auto simp: res restKeeps_def Let_def derrors_Wrap_def)
  qed
  have c: "(\<exists>e'. fr_Error (fst (FetchModule d mp rv)) = Some e' \<and> errors_Is e' BadModule)
           \<and> fr_Status (fst (FetchModule d mp rv)) = ToStatus (codes d) (Sentinel BadModule)
           \<and> fr_Module (fst (FetchModule d mp rv)) = None"
    if ex: "extractPackagesFromZip d mp ver zr (source_ModuleInfo d mp ver) = Inl e"
      and np: "errors_Is e ErrModuleContainsNoPackages" for e
  proof -
    from processZipFile_noPackages [OF rd ex np, of ct] frB
    have "processZipFile d (fr_ModulePath frB) (fr_ResolvedVersion frB) ct zr =
            Inl (Errorf ''%s: %w'' [Str ''processZipFile(%q, %q)'', Str mp, Str ver]
                   (Some (Errorf ''%v: %w'' [Txt e] (Some (Sentinel BadModule)))))"
      by simp
    from moduleBlock_Inl [OF this, of bytes] frB nz [of "Sentinel BadModule"] show ?thesis
      by (simp add: res Let_def derrors_Wrap_def)
  qed
  from a c show ?thesis
    by blast
qed


text \<open>
  The theorem at the sample module: every state 200 gives 200, a state 600 gives the
  degraded code 290, and no packages gives the code 490 of \<^verbatim>\<open>BadModule\<close> and no module.
\<close>

theorem status_from_package_states_witness:
  "reachesExtraction incompleteDeps ''m.io/x'' ''v1.0.0'' (sampleZip ''m.io/x'' ''v1.0.0'')
     ''v1.0.0'' 1 (Some ''module m.io/x'')
   \<and> fr_Status (fst (FetchModule incompleteDeps ''m.io/x'' ''v1.0.0'')) = 290
   \<and> fr_Status (fst (FetchModule sampleDeps ''m.io/x'' ''v1.0.0'')) = 200
   \<and> fr_Status (fst (FetchModule noPackagesDeps ''m.io/x'' ''v1.0.0'')) = 490
   \<and> fr_Module (fst (FetchModule noPackagesDeps ''m.io/x'' ''v1.0.0'')) = None"
proof -
  let ?zr = "sampleZip ''m.io/x'' ''v1.0.0''"
  let ?info = "\<lparr>vi_Version = ''v1.0.0'', vi_Time = 1\<rparr>"
  have r1: "reachesExtraction incompleteDeps ''m.io/x'' ''v1.0.0'' ?zr ''v1.0.0'' 1
              (Some ''module m.io/x'')"
    unfolding reachesExtraction_def
    by (intro exI [of _ ?info] exI [of _ "''m.io/x''"] exI [of _ "[]"]) code_simp
  have r2: "reachesExtraction sampleDeps ''m.io/x'' ''v1.0.0'' ?zr ''v1.0.0'' 1
              (Some ''module m.io/x'')"
    unfolding reachesExtraction_def
    by (intro exI [of _ ?info] exI [of _ "''m.io/x''"] exI [of _ "[]"]) code_simp
  have r3: "reachesExtraction noPackagesDeps ''m.io/x'' ''v1.0.0'' ?zr ''v1.0.0'' 1
              (Some ''module m.io/x'')"
    unfolding reachesExtraction_def
    by (intro exI [of _ ?info] exI [of _ "''m.io/x''"] exI [of _ "[]"]) code_simp
  have c1: "codesNonzero (codes incompleteDeps)" by code_simp
  have c2: "codesNonzero (codes sampleDeps)" by code_simp
  have c3: "codesNonzero (codes noPackagesDeps)" by code_simp
  have e1: "extractPackagesFromZip incompleteDeps ''m.io/x'' ''v1.0.0'' ?zr
              (source_ModuleInfo incompleteDeps ''m.io/x'' ''v1.0.0'') =
            Inr ([samplePkg ''m.io/x/a''],
                 [sampleState ''m.io/x'' ''v1.0.0'' ''m.io/x/a'' 200,
                  sampleState ''m.io/x'' ''v1.0.0'' ''m.io/x/b'' 600])"
    by code_simp
  have e2: "extractPackagesFromZip sampleDeps ''m.io/x'' ''v1.0.0'' ?zr
              (source_ModuleInfo sampleDeps ''m.io/x'' ''v1.0.0'') =
            Inr ([samplePkg ''m.io/x/a''], [sampleState ''m.io/x'' ''v1.0.0'' ''m.io/x/a'' 200])"
    by code_simp
  have e3: "extractPackagesFromZip noPackagesDeps ''m.io/x'' ''v1.0.0'' ?zr
              (source_ModuleInfo noPackagesDeps ''m.io/x'' ''v1.0.0'') =
            Inl (Sentinel ErrModuleContainsNoPackages)"
    by code_simp
  have g1: "goModParses incompleteDeps (Some ''module m.io/x'')" by code_simp
  have g2: "goModParses sampleDeps (Some ''module m.io/x'')" by code_simp
  have t1: "ToStatus (codes incompleteDeps) (Sentinel HasIncompletePackages) = 290" by code_simp
  have t3: "ToStatus (codes noPackagesDeps) (Sentinel BadModule) = 490" by code_simp
  have s1: "fr_Status (fst (FetchModule incompleteDeps ''m.io/x'' ''v1.0.0'')) = 290"
    using status_from_package_states [OF r1 c1] e1 g1 t1
    by (simp add: sampleState_def StatusOK_def)
  have s2: "fr_Status (fst (FetchModule sampleDeps ''m.io/x'' ''v1.0.0'')) = 200"
    using status_from_package_states [OF r2 c2] e2 g2
    by (simp add: sampleState_def StatusOK_def)
  have s3: "fr_Status (fst (FetchModule noPackagesDeps ''m.io/x'' ''v1.0.0'')) = 490
            \<and> fr_Module (fst (FetchModule noPackagesDeps ''m.io/x'' ''v1.0.0'')) = None"
    using status_from_package_states [OF r3 c3] e3 t3
    by simp
  from r1 s1 s2 s3 show ?thesis
    by simp
qed

text \<open>
  Claim C1 as stated holds for every fetch that reaches the extraction. The sample
  module whose go.mod file does not parse reaches it, and the extraction returns one
  package with the state 200; the fetch fails afterwards in \<^verbatim>\<open>processGoModFile\<close>: the
  status is 490, not 200, and the result has neither the module nor the states.
\<close>

theorem status_after_bad_go_mod_counterexample:
  "reachesExtraction badGoModDeps ''m.io/x'' ''v1.0.0'' (sampleZip ''m.io/x'' ''v1.0.0'')
     ''v1.0.0'' 1 (Some ''module m.io/x'')
   \<and> extractPackagesFromZip badGoModDeps ''m.io/x'' ''v1.0.0'' (sampleZip ''m.io/x'' ''v1.0.0'')
        (source_ModuleInfo badGoModDeps ''m.io/x'' ''v1.0.0'') =
      Inr ([samplePkg ''m.io/x/a''], [sampleState ''m.io/x'' ''v1.0.0'' ''m.io/x/a'' 200])
   \<and> fr_Status (fst (FetchModule badGoModDeps ''m.io/x'' ''v1.0.0'')) = 490
   \<and> fr_Module (fst (FetchModule badGoModDeps ''m.io/x'' ''v1.0.0'')) = None
   \<and> fr_PackageVersionStates (fst (FetchModule badGoModDeps ''m.io/x'' ''v1.0.0'')) = []"
proof -
  have "reachesExtraction badGoModDeps ''m.io/x'' ''v1.0.0'' (sampleZip ''m.io/x'' ''v1.0.0'')
          ''v1.0.0'' 1 (Some ''module m.io/x'')"
    unfolding reachesExtraction_def
    by (intro exI [of _ "\<lparr>vi_Version = ''v1.0.0'', vi_Time = 1\<rparr>"] exI [of _ "''m.io/x''"]
          exI [of _ "[]"]) code_simp
  moreover have
    "extractPackagesFromZip badGoModDeps ''m.io/x'' ''v1.0.0'' (sampleZip ''m.io/x'' ''v1.0.0'')
        (source_ModuleInfo badGoModDeps ''m.io/x'' ''v1.0.0'') =
      Inr ([samplePkg ''m.io/x/a''], [sampleState ''m.io/x'' ''v1.0.0'' ''m.io/x/a'' 200])
     \<and> fr_Status (fst (FetchModule badGoModDeps ''m.io/x'' ''v1.0.0'')) = 490
     \<and> fr_Module (fst (FetchModule badGoModDeps ''m.io/x'' ''v1.0.0'')) = None
     \<and> fr_PackageVersionStates (fst (FetchModule badGoModDeps ''m.io/x'' ''v1.0.0'')) = []"
    by code_simp
  ultimately show ?thesis
    by simp
qed

subsection \<open>Load shedding and the maximum size\<close>

text \<open>The fetch when the shedder is asked and \<^verbatim>\<open>fetchModule\<close> returns from inside its block.\<close>

lemma fetchModule_returned:
  assumes gi: "GetInfo d (fr_ModulePath fr) (fr_RequestedVersion fr) = Inr info"
    and sh: "zipLoadShedder d = Some f"
    and zs: "getZipSize d (fr_ModulePath fr) (vi_Version info) = Inr z"
    and rt: "fst (f z) \<or> sint (maxModuleZipSize d) < sint z"
  shows "fetchModule d fr =
           (None,
            Some (if fst (f z)
                  then Errorf ''%w: size=%dMi'' [Num (sint z sdiv mib)] (Some (Sentinel SheddingLoad))
                  else Sentinel ModuleTooLarge),
            fr\<lparr>fr_ResolvedVersion := vi_Version info, fr_Defer := Some (snd (f z))\<rparr>,
            [Ev_GetInfo, Ev_getZipSize, Ev_shouldShed z])"
proof -
  let ?fr1 = "fr\<lparr>fr_ResolvedVersion := vi_Version info\<rparr>"
  from zs have "getZipSize d (fr_ModulePath ?fr1) (fr_ResolvedVersion ?fr1) = Inr z"
    by simp
  from loadShedBlock_Inr [OF sh this] gi rt show ?thesis
    by (auto simp: fetchModule_def Let_def)
qed

lemma filter_isCall_none: "list_all (\<lambda>e. \<not> isCall e) tr \<Longrightarrow> filter isCall tr = []"
  by (induction tr) auto

text \<open>
  Claim C2. For every fetch for which the load shedder answers that it should shed the
  size of the zip (and a table without the code 0), the result has an error that is
  \<^verbatim>\<open>SheddingLoad\<close> and the status of that class, and no module; the whole fetch consists of
  \<^verbatim>\<open>GetInfo\<close>, the size of the zip, the question to the shedder and one call of the release
  function that the shedder handed back: the zip is not downloaded and \<^verbatim>\<open>processZipFile\<close>
  is not called. On every path on which the shedder is asked, whatever the result of the
  fetch, the whole fetch calls the release function handed back exactly once and calls no
  other function value; the shedder is asked only when there is one.
\<close>

theorem shed_fetch_releases_once:
  "(\<forall>info f z.
      GetInfo d mp rv = Inr info \<and> zipLoadShedder d = Some f
      \<and> getZipSize d mp (vi_Version info) = Inr z \<and> fst (f z)
      \<and> codesNonzero (codes d) \<longrightarrow>
        (\<exists>e. fr_Error (fst (wholeFetch d mp rv)) = Some e \<and> errors_Is e SheddingLoad)
        \<and> fr_Status (fst (wholeFetch d mp rv)) = ToStatus (codes d) (Sentinel SheddingLoad)
        \<and> fr_Module (fst (wholeFetch d mp rv)) = None
        \<and> snd (wholeFetch d mp rv) =
            [Ev_GetInfo, Ev_getZipSize, Ev_shouldShed z, Ev_call (snd (f z))])
   \<and> (\<forall>f z. zipLoadShedder d = Some f \<and> Ev_shouldShed z \<in> set (snd (wholeFetch d mp rv)) \<longrightarrow>
        filter isCall (snd (wholeFetch d mp rv)) = [Ev_call (snd (f z))])
   \<and> (\<forall>z. Ev_shouldShed z \<in> set (snd (wholeFetch d mp rv)) \<longrightarrow> zipLoadShedder d \<noteq> None)"
proof -
  define fr0 where "fr0 =
    \<lparr>fr_ModulePath = mp, fr_RequestedVersion = rv, fr_ResolvedVersion = [],
     fr_MainVersion = [], fr_MasterVersion = [], fr_HasGoMod = False,
     fr_GoModPath = [], fr_Status = 0, fr_Error = None, fr_Defer = Some NoOp,
     fr_Module = None, fr_PackageVersionStates = []\<rparr>"
  obtain fi err fr tr where fm: "fetchModule d fr0 = (fi, err, fr, tr)"
    by (cases "fetchModule d fr0") auto
  note inv = fetchModule_inv [OF fm]
  note res = FetchModule_fetchModule [OF fm [unfolded fr0_def]]
  have shed: "(\<exists>e. fr_Error (fst (wholeFetch d mp rv)) = Some e \<and> errors_Is e SheddingLoad)
        \<and> fr_Status (fst (wholeFetch d mp rv)) = ToStatus (codes d) (Sentinel SheddingLoad)
        \<and> fr_Module (fst (wholeFetch d mp rv)) = None
        \<and> snd (wholeFetch d mp rv) =
            [Ev_GetInfo, Ev_getZipSize, Ev_shouldShed z, Ev_call (snd (f z))]"
    if h: "GetInfo d mp rv = Inr info" "zipLoadShedder d = Some f"
      "getZipSize d mp (vi_Version info) = Inr z" "fst (f z)" "codesNonzero (codes d)"
    for info f z
  proof -
    from h have "fetchModule d fr0 =
           (None,
            Some (if fst (f z)
                  then Errorf ''%w: size=%dMi'' [Num (sint z sdiv mib)] (Some (Sentinel SheddingLoad))
                  else Sentinel ModuleTooLarge),
            fr0\<lparr>fr_ResolvedVersion := vi_Version info, fr_Defer := Some (snd (f z))\<rparr>,
            [Ev_GetInfo, Ev_getZipSize, Ev_shouldShed z])"
      by (intro fetchModule_returned) (simp_all add: fr0_def)
    with fm h(4) have r: "fi = None"
      "err = Some (Errorf ''%w: size=%dMi'' [Num (sint z sdiv mib)] (Some (Sentinel SheddingLoad)))"
      "fr = fr0\<lparr>fr_ResolvedVersion := vi_Version info, fr_Defer := Some (snd (f z))\<rparr>"
      "tr = [Ev_GetInfo, Ev_getZipSize, Ev_shouldShed z]"
      by simp_all
    from h(5) have "ToStatus (codes d) (Sentinel SheddingLoad) \<noteq> 0"
      by (rule ToStatus_nonzero)
    with r show ?thesis
      by (simp add: wholeFetch_def res Let_def derrors_Wrap_def callDefer_def fr0_def)
  qed
  have calls: "filter isCall (snd (wholeFetch d mp rv)) = [callDefer (fr_Defer fr)]"
    using inv
    by (auto simp: wholeFetch_def res callDefer_def filter_isCall_none finishFetchInfo_def
        split: option.splits)
  have tr: "Ev_shouldShed z \<in> set (snd (wholeFetch d mp rv)) \<longleftrightarrow> Ev_shouldShed z \<in> set tr" for z
    by (auto simp: wholeFetch_def res callDefer_def split: option.splits)
  have once: "filter isCall (snd (wholeFetch d mp rv)) = [Ev_call (snd (f z))]"
    if "zipLoadShedder d = Some f" "Ev_shouldShed z \<in> set (snd (wholeFetch d mp rv))" for f z
    using that inv calls tr [of z]
    by (auto simp: callDefer_def)
  have asked: "zipLoadShedder d \<noteq> None"
    if "Ev_shouldShed z \<in> set (snd (wholeFetch d mp rv))" for z
    using that inv tr [of z]
    by auto
  from shed once asked show ?thesis
    by blast
qed

text \<open>
  The theorem at the sample module with a shedder that sheds (status 503, four events)
  and with one that admits the fetch, which then succeeds: one call of the release
  function in both.
\<close>

theorem shed_fetch_releases_once_witness:
  "fr_Status (fst (wholeFetch sheddingDeps ''m.io/x'' ''v1.0.0'')) = 503
   \<and> snd (wholeFetch sheddingDeps ''m.io/x'' ''v1.0.0'') =
       [Ev_GetInfo, Ev_getZipSize, Ev_shouldShed 2048, Ev_call (ReleaseFn 7)]
   \<and> filter isCall (snd (wholeFetch admittingDeps ''m.io/x'' ''v1.0.0'')) = [Ev_call (ReleaseFn 7)]"
proof -
  have h: "GetInfo sheddingDeps ''m.io/x'' ''v1.0.0'' = Inr \<lparr>vi_Version = ''v1.0.0'', vi_Time = 1\<rparr>"
    "zipLoadShedder sheddingDeps = Some (\<lambda>size. (True, ReleaseFn 7))"
    "getZipSize sheddingDeps ''m.io/x'' ''v1.0.0'' = Inr 2048"
    "codesNonzero (codes sheddingDeps)"
    "ToStatus (codes sheddingDeps) (Sentinel SheddingLoad) = 503"
    by (simp_all add: sheddingDeps_def sampleDeps_def GetInfo_def getZipSize_def
        stdlib_ModulePath_def codesNonzero_def sampleCodes_def ToStatus_def)
  have a: "zipLoadShedder admittingDeps = Some (\<lambda>size. (False, ReleaseFn 7))"
    by (simp add: admittingDeps_def sampleDeps_def)
  have b: "Ev_shouldShed 2048 \<in> set (snd (wholeFetch admittingDeps ''m.io/x'' ''v1.0.0''))"
    by code_simp
  from shed_fetch_releases_once [of sheddingDeps "''m.io/x''" "''v1.0.0''"] h
  have "fr_Status (fst (wholeFetch sheddingDeps ''m.io/x'' ''v1.0.0'')) = 503
        \<and> snd (wholeFetch sheddingDeps ''m.io/x'' ''v1.0.0'') =
            [Ev_GetInfo, Ev_getZipSize, Ev_shouldShed 2048, Ev_call (ReleaseFn 7)]"
    by simp
  moreover from shed_fetch_releases_once [of admittingDeps "''m.io/x''" "''v1.0.0''",
      THEN conjunct2, THEN conjunct1, rule_format, of "\<lambda>size. (False, ReleaseFn 7)" 2048] a b
  have "filter isCall (snd (wholeFetch admittingDeps ''m.io/x'' ''v1.0.0'')) = [Ev_call (ReleaseFn 7)]"
    by simp
  ultimately show ?thesis
    by simp
qed

text \<open>
  Claim C3, as amended. For every fetch with a load shedder that does not shed it and
  a zip whose size is above \<^verbatim>\<open>maxModuleZipSize\<close> (and a table without the code 0), the
  fetch returns the error \<^verbatim>\<open>ModuleTooLarge\<close> and the status of that class, before the zip
  is downloaded.
\<close>

theorem too_large_when_not_shed:
  assumes "GetInfo d mp rv = Inr info"
    and "zipLoadShedder d = Some f"
    and "getZipSize d mp (vi_Version info) = Inr z"
    and "\<not> fst (f z)"
    and "sint (maxModuleZipSize d) < sint z"
    and "codesNonzero (codes d)"
  shows "fr_Error (fst (FetchModule d mp rv)) =
           Some (Errorf ''%s: %w'' [Str ''FetchModule(%q, %q)'', Str mp, Str rv]
                   (Some (Sentinel ModuleTooLarge)))
         \<and> fr_Status (fst (FetchModule d mp rv)) = ToStatus (codes d) (Sentinel ModuleTooLarge)
         \<and> fr_Module (fst (FetchModule d mp rv)) = None
         \<and> snd (FetchModule d mp rv) = [Ev_GetInfo, Ev_getZipSize, Ev_shouldShed z]"
proof -
  define fr0 where "fr0 =
    \<lparr>fr_ModulePath = mp, fr_RequestedVersion = rv, fr_ResolvedVersion = [],
     fr_MainVersion = [], fr_MasterVersion = [], fr_HasGoMod = False,
     fr_GoModPath = [], fr_Status = 0, fr_Error = None, fr_Defer = Some NoOp,
     fr_Module = None, fr_PackageVersionStates = []\<rparr>"
  from assms have fm: "fetchModule d fr0 =
           (None,
            Some (if fst (f z)
                  then Errorf ''%w: size=%dMi'' [Num (sint z sdiv mib)] (Some (Sentinel SheddingLoad))
                  else Sentinel ModuleTooLarge),
            fr0\<lparr>fr_ResolvedVersion := vi_Version info, fr_Defer := Some (snd (f z))\<rparr>,
            [Ev_GetInfo, Ev_getZipSize, Ev_shouldShed z])"
    by (intro fetchModule_returned) (simp_all add: fr0_def)
  from assms(6) have "ToStatus (codes d) (Sentinel ModuleTooLarge) \<noteq> 0"
    by (rule ToStatus_nonzero)
  with assms(4) show ?thesis
    by (simp add: FetchModule_fetchModule [OF fm [unfolded fr0_def]] Let_def derrors_Wrap_def
        fr0_def)
qed

text \<open>The theorem at the sample module of 2048 bytes with a maximum of 1024 bytes.\<close>

theorem too_large_when_not_shed_witness:
  "fr_Status (fst (FetchModule smallMaxDeps ''m.io/x'' ''v1.0.0'')) = 492
   \<and> snd (FetchModule smallMaxDeps ''m.io/x'' ''v1.0.0'') =
       [Ev_GetInfo, Ev_getZipSize, Ev_shouldShed 2048]"
proof -
  have h: "GetInfo smallMaxDeps ''m.io/x'' ''v1.0.0'' = Inr \<lparr>vi_Version = ''v1.0.0'', vi_Time = 1\<rparr>"
    "zipLoadShedder smallMaxDeps = Some (\<lambda>size. (False, ReleaseFn 7))"
    "getZipSize smallMaxDeps ''m.io/x'' ''v1.0.0'' = Inr 2048"
    "codesNonzero (codes smallMaxDeps)"
    "ToStatus (codes smallMaxDeps) (Sentinel ModuleTooLarge) = 492"
    by (simp_all add: smallMaxDeps_def admittingDeps_def sampleDeps_def GetInfo_def getZipSize_def
        stdlib_ModulePath_def codesNonzero_def sampleCodes_def ToStatus_def)
  have m: "sint (maxModuleZipSize smallMaxDeps) < sint (2048 :: int64)"
    by (simp add: smallMaxDeps_def admittingDeps_def sampleDeps_def)
  from too_large_when_not_shed [of smallMaxDeps "''m.io/x''" "''v1.0.0''"
      "\<lparr>vi_Version = ''v1.0.0'', vi_Time = 1\<rparr>" "\<lambda>size. (False, ReleaseFn 7)" 2048] h m
  show ?thesis
    by simp
qed

text \<open>
  Claim C3 as stated holds whether or not there is a shedder and whatever it answers.
  With a maximum of 1024 bytes and a zip of 2048 bytes: without a shedder the size is
  never looked at and the fetch succeeds with the status 200; with a shedder that sheds,
  the error is \<^verbatim>\<open>SheddingLoad\<close> with the status 503, not \<^verbatim>\<open>ModuleTooLarge\<close>.
\<close>

theorem too_large_without_shedder_counterexample:
  "proxy_ZipSize smallMaxNoShedderDeps ''m.io/x'' ''v1.0.0'' = Inr 2048
   \<and> sint (maxModuleZipSize smallMaxNoShedderDeps) < sint (2048 :: int64)
   \<and> fr_Error (fst (FetchModule smallMaxNoShedderDeps ''m.io/x'' ''v1.0.0'')) = None
   \<and> fr_Status (fst (FetchModule smallMaxNoShedderDeps ''m.io/x'' ''v1.0.0'')) = 200
   \<and> proxy_ZipSize smallMaxSheddingDeps ''m.io/x'' ''v1.0.0'' = Inr 2048
   \<and> sint (maxModuleZipSize smallMaxSheddingDeps) < sint (2048 :: int64)
   \<and> fr_Error (fst (FetchModule smallMaxSheddingDeps ''m.io/x'' ''v1.0.0'')) =
       Some (Errorf ''%s: %w'' [Str ''FetchModule(%q, %q)'', Str ''m.io/x'', Str ''v1.0.0'']
               (Some (Errorf ''%w: size=%dMi'' [Num 0] (Some (Sentinel SheddingLoad)))))
   \<and> fr_Status (fst (FetchModule smallMaxSheddingDeps ''m.io/x'' ''v1.0.0'')) = 503"
  by code_simp

subsection \<open>The unit paths\<close>

text \<open>Strings and their elements between slashes.\<close>

lemma HasPrefix_iff: "HasPrefix s p \<longleftrightarrow> (\<exists>r. s = p @ r)"
proof
  assume "HasPrefix s p"
  then have "s = p @ drop (length p) s"
    by (metis HasPrefix_def append_take_drop_id)
  then show "\<exists>r. s = p @ r" ..
next
  assume "\<exists>r. s = p @ r"
  then show "HasPrefix s p"
    by (auto simp: HasPrefix_def)
qed

lemma splitSlash_nonempty [simp]: "splitSlash s \<noteq> []"
  by (induction s) (auto split: list.splits)

lemma joinSlash_Cons: "es \<noteq> [] \<Longrightarrow> joinSlash (e # es) = e @ CHR ''/'' # joinSlash es"
  by (cases es) auto

lemma joinSlash_splitSlash [simp]: "joinSlash (splitSlash s) = s"
proof (induction s)
  case Nil
  show ?case by simp
next
  case (Cons c s)
  obtain e es where sp: "splitSlash s = e # es"
    by (cases "splitSlash s") auto
  with Cons show ?case
    by (cases es) (auto simp: joinSlash_Cons)
qed

lemma splitSlash_append: "splitSlash (a @ CHR ''/'' # b) = splitSlash a @ splitSlash b"
proof (induction a)
  case Nil
  show ?case by simp
next
  case (Cons c a)
  obtain e es where "splitSlash a = e # es"
    by (cases "splitSlash a") auto
  with Cons show ?case
    by (auto split: list.splits)
qed

lemma joinSlash_append:
  "xs \<noteq> [] \<Longrightarrow> ys \<noteq> [] \<Longrightarrow> joinSlash (xs @ ys) = joinSlash xs @ CHR ''/'' # joinSlash ys"
proof (induction xs)
  case Nil
  then show ?case by simp
next
  case (Cons x xs)
  then show ?case
    by (cases xs) (auto simp: joinSlash_Cons)
qed

lemma set_tl_prefixes: "set (tl (prefixes xs)) = {ys. prefix ys xs \<and> ys \<noteq> []}"
proof (cases xs)
  case Nil
  then show ?thesis by auto
next
  case (Cons x xs')
  then show ?thesis
    by (auto simp: prefix_Cons)
qed

lemma set_pathAncestors: "set (pathAncestors p) = {q. q = p \<or> isAncestorDir q p}"
proof (intro set_eqI iffI)
  fix q
  assume "q \<in> set (pathAncestors p)"
  then obtain es where es: "prefix es (splitSlash p)" "es \<noteq> []" and q: "q = joinSlash es"
    by (auto simp: pathAncestors_def set_tl_prefixes)
  from es(1) obtain rest where sp: "splitSlash p = es @ rest"
    by (auto simp: prefix_def)
  show "q \<in> {q. q = p \<or> isAncestorDir q p}"
  proof (cases "rest = []")
    case True
    with sp q have "q = joinSlash (splitSlash p)"
      by simp
    then show ?thesis by simp
  next
    case False
    have "p = joinSlash (es @ rest)"
      using sp by (metis joinSlash_splitSlash)
    with es(2) False q have "p = (q @ ''/'') @ joinSlash rest"
      by (simp add: joinSlash_append)
    then show ?thesis
      by (auto simp: isAncestorDir_def HasPrefix_iff)
  qed
next
  fix q
  assume "q \<in> {q. q = p \<or> isAncestorDir q p}"
  then consider "q = p" | "isAncestorDir q p"
    by auto
  then show "q \<in> set (pathAncestors p)"
  proof cases
    case 1
    have "splitSlash p \<in> {ys. prefix ys (splitSlash p) \<and> ys \<noteq> []}"
      by simp
    then have "splitSlash p \<in> set (tl (prefixes (splitSlash p)))"
      by (simp only: set_tl_prefixes)
    then have "joinSlash (splitSlash p) \<in> joinSlash ` set (tl (prefixes (splitSlash p)))"
      by (rule imageI)
    with 1 show ?thesis
      by (simp add: pathAncestors_def)
  next
    case 2
    then obtain r where "p = q @ CHR ''/'' # r"
      by (auto simp: isAncestorDir_def HasPrefix_iff)
    then have "splitSlash p = splitSlash q @ splitSlash r"
      by (simp add: splitSlash_append)
    then have "splitSlash q \<in> {ys. prefix ys (splitSlash p) \<and> ys \<noteq> []}"
      by simp
    then have "splitSlash q \<in> set (tl (prefixes (splitSlash p)))"
      by (simp only: set_tl_prefixes)
    then have "joinSlash (splitSlash q) \<in> joinSlash ` set (tl (prefixes (splitSlash p)))"
      by (rule imageI)
    then show ?thesis
      by (simp add: pathAncestors_def)
  qed
qed

text \<open>
  The four cases of \<^verbatim>\<open>TestDirectoryPaths\<close>: the model gives the paths that the test
  wants (the test sorts them).
\<close>

lemma unitPaths_TestDirectoryPaths:
  "set (unitPaths ''github.com/empty/module'' []) = {''github.com/empty/module''}"
  "set (unitPaths ''github.com/russross/blackfriday''
          (map (samplePackage ''github.com/russross/blackfriday'') [[]])) =
     {''github.com/russross/blackfriday''}"
  "set (unitPaths ''github.com/elastic/go-elasticsearch/v7''
          (map (samplePackage ''github.com/elastic/go-elasticsearch/v7'')
             [''esapi'', ''estransport'', ''esutil'', ''internal/version''])) =
     {''github.com/elastic/go-elasticsearch/v7'',
      ''github.com/elastic/go-elasticsearch/v7/esapi'',
      ''github.com/elastic/go-elasticsearch/v7/estransport'',
      ''github.com/elastic/go-elasticsearch/v7/esutil'',
      ''github.com/elastic/go-elasticsearch/v7/internal'',
      ''github.com/elastic/go-elasticsearch/v7/internal/version''}"
  "set (unitPaths stdlib_ModulePath (map (samplePackage stdlib_ModulePath) [''cmd/go''])) =
     {''cmd'', ''cmd/go'', ''std''}"
  by code_simp+

text \<open>
  Claim C5. For every module path and every list of packages, the unit paths are
  exactly the module root, the paths of the packages in the module and the ancestor
  directories of the package paths in the module (beneath the root of the module; for the
  standard library, whose package paths do not start with the module path, every
  ancestor directory and every package path), each once. When every package path is the
  module path or lies in the module, every package path is a unit path. The module root
  is a unit path even without packages. For the standard library the path of a package
  is its suffix, not joined with the module path, and the package \<^verbatim>\<open>cmd/go\<close> gives the
  units \<^verbatim>\<open>cmd\<close>, \<^verbatim>\<open>cmd/go\<close> and \<^verbatim>\<open>std\<close>.
\<close>

theorem unitPaths_exactly:
  "set (unitPaths mp pkgs) =
     insert mp {q. \<exists>p \<in> set pkgs. (q = gp_path p \<or> isAncestorDir q (gp_path p)) \<and> inModule mp q}
   \<and> distinct (unitPaths mp pkgs)
   \<and> ((\<forall>p \<in> set pkgs. gp_path p = mp \<or> inModule mp (gp_path p)) \<longrightarrow>
         gp_path ` set pkgs \<subseteq> set (unitPaths mp pkgs))
   \<and> unitPaths mp [] = [mp]
   \<and> constructFullPath stdlib_ModulePath sfx = sfx
   \<and> set (unitPaths stdlib_ModulePath [samplePackage stdlib_ModulePath ''cmd/go'']) =
       {''cmd'', ''cmd/go'', ''std''}"
proof -
  have s: "set (unitPaths mp pkgs) =
     insert mp {q. \<exists>p \<in> set pkgs. (q = gp_path p \<or> isAncestorDir q (gp_path p)) \<and> inModule mp q}"
    by (auto simp: unitPaths_def set_pathAncestors)
  have d: "distinct (unitPaths mp pkgs)"
    by (simp add: unitPaths_def)
  have p: "gp_path ` set pkgs \<subseteq> set (unitPaths mp pkgs)"
    if "\<forall>p \<in> set pkgs. gp_path p = mp \<or> inModule mp (gp_path p)"
    using that unfolding s by auto
  have e: "unitPaths mp [] = [mp]"
    by (simp add: unitPaths_def)
  have c: "constructFullPath stdlib_ModulePath sfx = sfx"
    by (simp add: constructFullPath_def)
  have x: "set (unitPaths stdlib_ModulePath [samplePackage stdlib_ModulePath ''cmd/go'']) =
             {''cmd'', ''cmd/go'', ''std''}"
    by code_simp
  from s d p e c x show ?thesis
    by blast
qed

text \<open>
  The theorem at the package \<^verbatim>\<open>internal/version\<close> of the third case of the test: its
  path lies in the module and is a unit path.
\<close>

theorem unitPaths_exactly_witness:
  "inModule ''github.com/elastic/go-elasticsearch/v7''
     (gp_path (samplePackage ''github.com/elastic/go-elasticsearch/v7'' ''internal/version''))
   \<and> ''github.com/elastic/go-elasticsearch/v7/internal/version''
       \<in> set (unitPaths ''github.com/elastic/go-elasticsearch/v7''
                [samplePackage ''github.com/elastic/go-elasticsearch/v7'' ''internal/version''])"
proof -
  let ?mp = "''github.com/elastic/go-elasticsearch/v7''"
  let ?pkg = "samplePackage ?mp ''internal/version''"
  have i: "inModule ?mp (gp_path ?pkg)"
    by code_simp
  have g: "gp_path ?pkg = ''github.com/elastic/go-elasticsearch/v7/internal/version''"
    by code_simp
  from i have "\<forall>p \<in> set [?pkg]. gp_path p = ?mp \<or> inModule ?mp (gp_path p)"
    by simp
  with unitPaths_exactly [of ?mp "[?pkg]"]
  have "gp_path ` set [?pkg] \<subseteq> set (unitPaths ?mp [?pkg])"
    by blast
  with i g show ?thesis
    by simp
qed

subsection \<open>A go.mod file that declares another module path\<close>

lemma getGoModPath_mismatch:
  assumes "mp \<noteq> stdlib_ModulePath" "proxy_Mod d mp ver = Inr bytes"
    "modfile_ModulePath d bytes = declared" "declared \<noteq> []" "declared \<noteq> mp"
  shows "getGoModPath d mp ver =
           (declared, Some bytes,
            Some (Errorf ''module path=%s, go.mod path=%s: %w'' [Str mp, Str declared]
                    (Some (Sentinel AlternativeModule))))"
  using assms
  by (simp add: getGoModPath_def Let_def)

text \<open>Rows of the store.\<close>

lemma find_append_case:
  "find P (xs @ ys) = (case find P xs of None \<Rightarrow> find P ys | Some x \<Rightarrow> Some x)"
  by (induction xs) auto

lemma getModuleState_upsertModuleState:
  "getModuleState (upsertModuleState st s) (mvs_ModulePath s) (mvs_Version s) = Some s"
proof -
  have "find (\<lambda>t. mvs_ModulePath t = mvs_ModulePath s \<and> mvs_Version t = mvs_Version s)
          (filter (\<lambda>t. \<not> (mvs_ModulePath t = mvs_ModulePath s \<and> mvs_Version t = mvs_Version s))
             (st_states st)) = None"
    by (simp add: find_None_iff)
  then show ?thesis
    by (simp add: getModuleState_def upsertModuleState_def find_append_case)
qed

lemma st_units_upsertModuleState [simp]: "st_units (upsertModuleState st s) = st_units st"
  by (simp add: upsertModuleState_def)

text \<open>
  Claim C4. For every fetch of a module other than the standard library that gets as
  far as the go.mod file (the version is resolved, the fetch is admitted, the zip is
  obtained, the proxy serves the go.mod file), whose go.mod file declares a module path
  that is not empty and is not the requested one (and a table without the code 0): the
  fetch fails with an \<^verbatim>\<open>AlternativeModule\<close> error whose message has the declared path as
  an operand; the declared path is in \<^verbatim>\<open>GoModPath\<close> of the result; the status is the
  code of \<^verbatim>\<open>AlternativeModule\<close>; the result has no module and no package states, and
  \<^verbatim>\<open>processZipFile\<close> is not called. The caller returns that status, the state of the
  module version in the store holds the status and the declared path, and the units of
  the store are the ones it had before.
\<close>

theorem mismatch_recorded_not_committed:
  assumes gi: "GetInfo d mp rv = Inr info"
    and ad: "admitted d mp (vi_Version info)"
    and zo: "zipObtained d mp rv info zr ver ct"
    and ns: "mp \<noteq> stdlib_ModulePath"
    and pm: "proxy_Mod d mp ver = Inr bytes"
    and dp: "modfile_ModulePath d bytes = declared" "declared \<noteq> []" "declared \<noteq> mp"
    and cz: "codesNonzero (codes d)"
  shows "fr_Error (fst (FetchModule d mp rv)) =
           Some (Errorf ''%s: %w'' [Str ''FetchModule(%q, %q)'', Str mp, Str rv]
                   (Some (Errorf ''module path=%s, go.mod path=%s: %w'' [Str mp, Str declared]
                            (Some (Sentinel AlternativeModule)))))
         \<and> fr_GoModPath (fst (FetchModule d mp rv)) = declared
         \<and> fr_Status (fst (FetchModule d mp rv)) = ToStatus (codes d) (Sentinel AlternativeModule)
         \<and> fr_Module (fst (FetchModule d mp rv)) = None
         \<and> fr_PackageVersionStates (fst (FetchModule d mp rv)) = []
         \<and> Ev_processZipFile \<notin> set (snd (FetchModule d mp rv))
         \<and> fst (FetchAndUpdateState accepts d st mp rv) =
             ToStatus (codes d) (Sentinel AlternativeModule)
         \<and> getModuleState (fst (snd (snd (FetchAndUpdateState accepts d st mp rv)))) mp ver =
             Some \<lparr>mvs_ModulePath = mp, mvs_Version = ver,
                   mvs_Status = ToStatus (codes d) (Sentinel AlternativeModule),
                   mvs_GoModPath = declared\<rparr>
         \<and> st_units (fst (snd (snd (FetchAndUpdateState accepts d st mp rv)))) = st_units st"
proof -
  define fr0 where "fr0 =
    \<lparr>fr_ModulePath = mp, fr_RequestedVersion = rv, fr_ResolvedVersion = [],
     fr_MainVersion = [], fr_MasterVersion = [], fr_HasGoMod = False,
     fr_GoModPath = [], fr_Status = 0, fr_Error = None, fr_Defer = Some NoOp,
     fr_Module = None, fr_PackageVersionStates = []\<rparr>"
  define e where "e = Errorf ''module path=%s, go.mod path=%s: %w'' [Str mp, Str declared]
                        (Some (Sentinel AlternativeModule))"
  from gi ad zo
  have "\<exists>fi g tr1. fetchModule d fr0 =
           (Some fi,
            fst (goModBlock d (fr0\<lparr>fr_ResolvedVersion := ver, fr_Defer := g\<rparr>) ct zr),
            fst (snd (goModBlock d (fr0\<lparr>fr_ResolvedVersion := ver, fr_Defer := g\<rparr>) ct zr)),
            tr1 @ snd (snd (goModBlock d (fr0\<lparr>fr_ResolvedVersion := ver, fr_Defer := g\<rparr>) ct zr)))
           \<and> Ev_processZipFile \<notin> set tr1 \<and> list_all (\<lambda>e. \<not> isCall e) tr1"
    by (intro fetchModule_to_goModBlock) (simp_all add: fr0_def)
  then obtain fi g tr1
    where fm: "fetchModule d fr0 =
           (Some fi,
            fst (goModBlock d (fr0\<lparr>fr_ResolvedVersion := ver, fr_Defer := g\<rparr>) ct zr),
            fst (snd (goModBlock d (fr0\<lparr>fr_ResolvedVersion := ver, fr_Defer := g\<rparr>) ct zr)),
            tr1 @ snd (snd (goModBlock d (fr0\<lparr>fr_ResolvedVersion := ver, fr_Defer := g\<rparr>) ct zr)))"
      and tr1: "Ev_processZipFile \<notin> set tr1"
    by blast
  let ?frA = "fr0\<lparr>fr_ResolvedVersion := ver, fr_Defer := g\<rparr>"
  from getGoModPath_mismatch [OF ns pm dp]
  have "getGoModPath d (fr_ModulePath ?frA) (fr_ResolvedVersion ?frA) = (declared, Some bytes, Some e)"
    by (simp add: fr0_def e_def)
  from goModBlock_error [OF this, of ct zr] obtain h
    where gb: "goModBlock d ?frA ct zr =
                 (Some e, ?frA\<lparr>fr_HasGoMod := h, fr_GoModPath := declared\<rparr>, [Ev_getGoModPath])"
    by blast
  from fm gb have fm': "fetchModule d fr0 =
      (Some fi, Some e, ?frA\<lparr>fr_HasGoMod := h, fr_GoModPath := declared\<rparr>, tr1 @ [Ev_getGoModPath])"
    by simp
  note res = FetchModule_fetchModule [OF fm' [unfolded fr0_def]]
  from cz have nz: "ToStatus (codes d) (Sentinel AlternativeModule) \<noteq> 0"
    by (rule ToStatus_nonzero)
  have code: "fr_Error (fst (FetchModule d mp rv)) =
           Some (Errorf ''%s: %w'' [Str ''FetchModule(%q, %q)'', Str mp, Str rv] (Some e))
         \<and> fr_GoModPath (fst (FetchModule d mp rv)) = declared
         \<and> fr_Status (fst (FetchModule d mp rv)) = ToStatus (codes d) (Sentinel AlternativeModule)
         \<and> fr_Module (fst (FetchModule d mp rv)) = None
         \<and> fr_PackageVersionStates (fst (FetchModule d mp rv)) = []
         \<and> fr_ResolvedVersion (fst (FetchModule d mp rv)) = ver
         \<and> Ev_processZipFile \<notin> set (snd (FetchModule d mp rv))"
    using nz tr1
    by (simp add: res Let_def derrors_Wrap_def e_def)
  then have "fst (FetchAndUpdateState accepts d st mp rv) =
             ToStatus (codes d) (Sentinel AlternativeModule)
         \<and> getModuleState (fst (snd (snd (FetchAndUpdateState accepts d st mp rv)))) mp ver =
             Some \<lparr>mvs_ModulePath = mp, mvs_Version = ver,
                   mvs_Status = ToStatus (codes d) (Sentinel AlternativeModule),
                   mvs_GoModPath = declared\<rparr>
         \<and> st_units (fst (snd (snd (FetchAndUpdateState accepts d st mp rv)))) = st_units st"
    using getModuleState_upsertModuleState
            [of st "\<lparr>mvs_ModulePath = mp, mvs_Version = ver,
                      mvs_Status = ToStatus (codes d) (Sentinel AlternativeModule),
                      mvs_GoModPath = declared\<rparr>"]
    by (simp add: FetchAndUpdateState_def wholeFetch_def split_beta Let_def)
  with code show ?thesis
    by (simp add: e_def)
qed


text \<open>
  The theorem at the sample module whose go.mod file declares the path \<^verbatim>\<open>other\<close>, on
  an empty store: the status is 491, the state records \<^verbatim>\<open>other\<close>, and the store has no
  unit.
\<close>

theorem mismatch_recorded_not_committed_witness:
  "fr_GoModPath (fst (FetchModule mismatchDeps ''m.io/x'' ''v1.0.0'')) = ''other''
   \<and> fr_Status (fst (FetchModule mismatchDeps ''m.io/x'' ''v1.0.0'')) = 491
   \<and> getModuleState
        (fst (snd (snd (FetchAndUpdateState acceptAll mismatchDeps emptyStore ''m.io/x'' ''v1.0.0''))))
        ''m.io/x'' ''v1.0.0'' =
      Some \<lparr>mvs_ModulePath = ''m.io/x'', mvs_Version = ''v1.0.0'', mvs_Status = 491,
            mvs_GoModPath = ''other''\<rparr>
   \<and> st_units
        (fst (snd (snd (FetchAndUpdateState acceptAll mismatchDeps emptyStore ''m.io/x'' ''v1.0.0''))))
      = []"
proof -
  let ?info = "\<lparr>vi_Version = ''v1.0.0'', vi_Time = 1\<rparr>"
  have gi: "GetInfo mismatchDeps ''m.io/x'' ''v1.0.0'' = Inr ?info"
    by code_simp
  have ad: "admitted mismatchDeps ''m.io/x'' (vi_Version ?info)"
    by code_simp
  have zo: "zipObtained mismatchDeps ''m.io/x'' ''v1.0.0'' ?info (sampleZip ''m.io/x'' ''v1.0.0'')
              ''v1.0.0'' 1"
    by code_simp
  have ns: "''m.io/x'' \<noteq> stdlib_ModulePath"
    by code_simp
  have pm: "proxy_Mod mismatchDeps ''m.io/x'' ''v1.0.0'' = Inr ''module other''"
    by code_simp
  have dp: "modfile_ModulePath mismatchDeps ''module other'' = ''other''"
    "''other'' \<noteq> []" "''other'' \<noteq> ''m.io/x''"
    by code_simp+
  have cz: "codesNonzero (codes mismatchDeps)"
    by code_simp
  have t: "ToStatus (codes mismatchDeps) (Sentinel AlternativeModule) = 491"
    by code_simp
  have e: "st_units emptyStore = []"
    by (simp add: emptyStore_def)
  from mismatch_recorded_not_committed [OF gi ad zo ns pm dp cz, of acceptAll emptyStore] t e
  show ?thesis
    by simp
qed

subsection \<open>What a successful fetch leaves in the store\<close>

text \<open>The module of a fetch without error has the module path and the resolved version of the fetch.\<close>

lemma processZipFile_identity:
  assumes "processZipFile d mp ver ct zr = Inr (md, pvs)"
  shows "m_ModulePath md = mp \<and> m_Version md = ver"
  using assms
  by (auto simp: processZipFile_def Let_def split: sum.splits if_splits prod.splits)

lemma moduleBlock_identity:
  assumes "moduleBlock d fr ct zr bytes = (None, fr', tr)"
  shows "\<exists>m. fr_Module fr' = Some m \<and> m_ModulePath m = fr_ModulePath fr
             \<and> m_Version m = fr_ResolvedVersion fr
             \<and> fr_ResolvedVersion fr' = fr_ResolvedVersion fr"
  using assms
  by (auto simp: moduleBlock_def Let_def incomplete_loop processGoModFile_def split_beta
      split: option.splits sum.splits prod.splits if_splits dest!: processZipFile_identity)

lemma goModBlock_identity:
  assumes "goModBlock d fr ct zr = (None, fr', tr)"
  shows "\<exists>m. fr_Module fr' = Some m \<and> m_ModulePath m = fr_ModulePath fr
             \<and> m_Version m = fr_ResolvedVersion fr
             \<and> fr_ResolvedVersion fr' = fr_ResolvedVersion fr"
  using assms
  by (auto simp: goModBlock_def Let_def split: option.splits prod.splits
      dest!: moduleBlock_identity)

lemma proceedBlock_identity:
  assumes "proceedBlock d fr ct z = (fi, None, fr', tr)"
  shows "\<exists>m. fr_Module fr' = Some m \<and> m_ModulePath m = fr_ModulePath fr
             \<and> m_Version m = fr_ResolvedVersion fr'"
  using assms
  by (auto simp: proceedBlock_def Let_def split: option.splits sum.splits prod.splits if_splits
      dest!: goModBlock_identity)

lemma fetchModule_identity:
  assumes "fetchModule d fr = (fi, None, fr', tr)"
  shows "\<exists>m. fr_Module fr' = Some m \<and> m_ModulePath m = fr_ModulePath fr
             \<and> m_Version m = fr_ResolvedVersion fr'"
proof (cases "GetInfo d (fr_ModulePath fr) (fr_RequestedVersion fr)")
  case (Inl e)
  with assms show ?thesis
    by (simp add: fetchModule_def)
next
  case (Inr info)
  obtain returned z fr1 tr1
    where ls: "loadShedBlock d (fr\<lparr>fr_ResolvedVersion := vi_Version info\<rparr>) = (returned, z, fr1, tr1)"
    by (cases "loadShedBlock d (fr\<lparr>fr_ResolvedVersion := vi_Version info\<rparr>)") auto
  from loadShedBlock_inv [OF ls] have mp: "fr_ModulePath fr1 = fr_ModulePath fr"
    by auto
  show ?thesis
  proof (cases returned)
    case (Some e)
    with assms Inr ls show ?thesis
      by (simp add: fetchModule_def Let_def)
  next
    case None
    obtain fi2 err2 fr2 tr2
      where pb: "proceedBlock d fr1 (vi_Time info) z = (fi2, err2, fr2, tr2)"
      by (cases "proceedBlock d fr1 (vi_Time info) z") auto
    from assms Inr ls None pb have "err2 = None" "fr' = fr2"
      by (auto simp: fetchModule_def Let_def)
    with proceedBlock_identity [of d fr1 "vi_Time info" z fi2 fr2 tr2] pb mp show ?thesis
      by simp
  qed
qed

lemma FetchModule_identity:
  assumes "fr_Error (fst (FetchModule d mp rv)) = None"
  shows "\<exists>m. fr_Module (fst (FetchModule d mp rv)) = Some m \<and> m_ModulePath m = mp
             \<and> m_Version m = fr_ResolvedVersion (fst (FetchModule d mp rv))"
proof -
  define fr0 where "fr0 =
    \<lparr>fr_ModulePath = mp, fr_RequestedVersion = rv, fr_ResolvedVersion = [],
     fr_MainVersion = [], fr_MasterVersion = [], fr_HasGoMod = False,
     fr_GoModPath = [], fr_Status = 0, fr_Error = None, fr_Defer = Some NoOp,
     fr_Module = None, fr_PackageVersionStates = []\<rparr>"
  obtain fi err fr tr where fm: "fetchModule d fr0 = (fi, err, fr, tr)"
    by (cases "fetchModule d fr0") auto
  note res = FetchModule_fetchModule [OF fm [unfolded fr0_def]]
  from assms have "err = None"
    by (simp add: res derrors_Wrap_def split: option.splits)
  with fm fetchModule_identity [of d fr0 fi fr tr] show ?thesis
    by (simp add: res fr0_def)
qed

text \<open>The records of a module version after its module is committed.\<close>

lemma filter_ofModule_upsertModule:
  "filter (ofModule (m_ModulePath m) (m_Version m)) (st_units (upsertModule st m)) = moduleRows m"
proof -
  have "filter (ofModule (m_ModulePath m) (m_Version m)) (moduleRows m) = moduleRows m"
    by (simp add: moduleRows_def ofModule_def filter_map o_def)
  then show ?thesis
    by (simp add: upsertModule_def)
qed

lemma find_rows:
  "map_option row_Unit
     (find (\<lambda>r. ofModule a b r \<and> u_Path (row_Unit r) = dir)
        (map (\<lambda>u. \<lparr>row_ModulePath = a, row_Version = b, row_Unit = u\<rparr>) us)) =
   find (\<lambda>u. u_Path u = dir) us"
  by (induction us) (auto simp: ofModule_def)

lemma find_filter_conj:
  "find (\<lambda>x. P x \<and> Q x) xs = find Q (filter P xs)"
  by (induction xs) auto

lemma upsert_records:
  assumes st': "st_units st' = st_units (upsertModule st m)"
    and mp: "m_ModulePath m = mp"
  shows "filter (ofModule mp (m_Version m)) (st_units st') = moduleRows m"
    and "GetDirectory st' dir mp (m_Version m) = find (\<lambda>u. u_Path u = dir) (m_Units m)"
    and "GetPackage st' dir mp (m_Version m) =
           (case find (\<lambda>u. u_Path u = dir) (m_Units m) of
              None \<Rightarrow> None
            | Some u \<Rightarrow> u_Package u)"
    and "GetPackagesInModule st' mp (m_Version m) = unitPackages (m_Units m)"
    and "filter (\<lambda>r. \<not> ofModule mp (m_Version m) r) (st_units st') =
           filter (\<lambda>r. \<not> ofModule mp (m_Version m) r) (st_units st)"
proof -
  show rows: "filter (ofModule mp (m_Version m)) (st_units st') = moduleRows m"
    using filter_ofModule_upsertModule [of m st] mp by (simp add: st')
  have "find (\<lambda>r. ofModule mp (m_Version m) r \<and> u_Path (row_Unit r) = dir) (st_units st') =
        find (\<lambda>r. u_Path (row_Unit r) = dir) (moduleRows m)"
    by (simp add: find_filter_conj rows)
  also have "\<dots> = find (\<lambda>r. ofModule mp (m_Version m) r \<and> u_Path (row_Unit r) = dir)
                     (moduleRows m)"
    using filter_ofModule_upsertModule [of m st] mp
    by (simp add: find_filter_conj rows [symmetric] st')
  finally show dir: "GetDirectory st' dir mp (m_Version m) =
                       find (\<lambda>u. u_Path u = dir) (m_Units m)"
    using find_rows [of mp "m_Version m" dir "m_Units m"] mp
    by (simp add: GetDirectory_def moduleRows_def)
  then show "GetPackage st' dir mp (m_Version m) =
           (case find (\<lambda>u. u_Path u = dir) (m_Units m) of
              None \<Rightarrow> None
            | Some u \<Rightarrow> u_Package u)"
    by (simp add: GetPackage_def)
  show "GetPackagesInModule st' mp (m_Version m) = unitPackages (m_Units m)"
    by (simp add: GetPackagesInModule_def rows) (simp add: moduleRows_def o_def)
  show "filter (\<lambda>r. \<not> ofModule mp (m_Version m) r) (st_units st') =
          filter (\<lambda>r. \<not> ofModule mp (m_Version m) r) (st_units st)"
    using mp by (simp add: st' upsertModule_def moduleRows_def filter_map o_def ofModule_def)
qed

lemma fst_wholeFetch [simp]: "fst (wholeFetch d mp rv) = fst (FetchModule d mp rv)"
  by (simp add: wholeFetch_def split_beta)

lemma FetchAndUpdateState_committed:
  assumes "fr_Error (fst (FetchModule d mp rv)) = None"
    and "fr_Module (fst (FetchModule d mp rv)) = Some m"
    and "accepts st m"
  shows "fst (FetchAndUpdateState accepts d st mp rv) = fr_Status (fst (FetchModule d mp rv))"
    and "fst (snd (FetchAndUpdateState accepts d st mp rv)) = None"
    and "st_units (fst (snd (snd (FetchAndUpdateState accepts d st mp rv)))) =
           st_units (upsertModule st m)"
  using assms
  by (simp_all add: FetchAndUpdateState_def Let_def split_beta)

lemma FetchAndUpdateState_success:
  assumes "fst (snd (FetchAndUpdateState accepts d st mp rv)) = None"
  shows "\<exists>m. fr_Module (fst (FetchModule d mp rv)) = Some m
           \<and> m_ModulePath m = mp
           \<and> m_Version m = fr_ResolvedVersion (fst (FetchModule d mp rv))
           \<and> st_units (fst (snd (snd (FetchAndUpdateState accepts d st mp rv)))) =
               st_units (upsertModule st m)"
proof -
  let ?fr = "fst (FetchModule d mp rv)"
  from assms have ne: "fr_Error ?fr = None"
    by (auto simp: FetchAndUpdateState_def Let_def split_beta split: option.splits if_splits)
  from FetchModule_identity [OF ne] obtain m
    where m: "fr_Module ?fr = Some m" "m_ModulePath m = mp"
      "m_Version m = fr_ResolvedVersion ?fr"
    by blast
  from assms ne m have "st_units (fst (snd (snd (FetchAndUpdateState accepts d st mp rv)))) =
                          st_units (upsertModule st m)"
    by (auto simp: FetchAndUpdateState_def Let_def split_beta split: if_splits)
  with m show ?thesis
    by blast
qed

text \<open>
  Claim C7. For every store, whatever an earlier fetch of the same module version has
  left in it, and every fetch of the module version that succeeds (the caller returns no
  error): the rows of the module version in the store are exactly the rows of the units
  of the new module; every directory and every package that can be read for the module
  version is read from the units of the new module, so a path that only the old run had
  is not found; the packages of the module version are those of the new module; and the
  rows of the other module versions are untouched.
\<close>

theorem refetch_replaces:
  assumes "FetchAndUpdateState accepts d st mp rv = (code, None, st', tr)"
  shows "\<exists>m. fr_Module (fst (FetchModule d mp rv)) = Some m
           \<and> m_ModulePath m = mp
           \<and> m_Version m = fr_ResolvedVersion (fst (FetchModule d mp rv))
           \<and> filter (ofModule mp (m_Version m)) (st_units st') = moduleRows m
           \<and> (\<forall>dir. GetDirectory st' dir mp (m_Version m) =
                       find (\<lambda>u. u_Path u = dir) (m_Units m))
           \<and> (\<forall>pkgPath. GetPackage st' pkgPath mp (m_Version m) =
                       (case find (\<lambda>u. u_Path u = pkgPath) (m_Units m) of
                          None \<Rightarrow> None
                        | Some u \<Rightarrow> u_Package u))
           \<and> GetPackagesInModule st' mp (m_Version m) = unitPackages (m_Units m)
           \<and> filter (\<lambda>r. \<not> ofModule mp (m_Version m) r) (st_units st') =
               filter (\<lambda>r. \<not> ofModule mp (m_Version m) r) (st_units st)"
proof -
  from assms have "fst (snd (FetchAndUpdateState accepts d st mp rv)) = None"
    by simp
  from FetchAndUpdateState_success [OF this] assms obtain m
    where m: "fr_Module (fst (FetchModule d mp rv)) = Some m" "m_ModulePath m = mp"
      "m_Version m = fr_ResolvedVersion (fst (FetchModule d mp rv))"
      and st': "st_units st' = st_units (upsertModule st m)"
    by auto
  from m upsert_records [OF st' m(2)] show ?thesis
    by blast
qed


text \<open>
  The theorem at two fetches of the same version of the sample module: the first
  commits the packages \<^verbatim>\<open>a\<close> and \<^verbatim>\<open>b\<close>, the second finds \<^verbatim>\<open>a\<close> alone. After the first,
  \<^verbatim>\<open>b\<close> can be read; after the second it cannot, and \<^verbatim>\<open>a\<close> is the only package.
\<close>

theorem refetch_replaces_witness:
  "GetPackage storeAfterFirst ''m.io/x/b'' ''m.io/x'' ''v1.0.0'' = Some (samplePkg ''m.io/x/b'')
   \<and> GetPackage storeAfterSecond ''m.io/x/b'' ''m.io/x'' ''v1.0.0'' = None
   \<and> GetPackagesInModule storeAfterSecond ''m.io/x'' ''v1.0.0'' = [samplePkg ''m.io/x/a'']"
proof -
  let ?run = "FetchAndUpdateState acceptAll sampleDeps storeAfterFirst ''m.io/x'' ''v1.0.0''"
  let ?fr = "fst (FetchModule sampleDeps ''m.io/x'' ''v1.0.0'')"
  have first: "GetPackage storeAfterFirst ''m.io/x/b'' ''m.io/x'' ''v1.0.0'' =
                 Some (samplePkg ''m.io/x/b'')"
    by code_simp
  have "fst (snd ?run) = None"
    by code_simp
  then have run: "?run = (fst ?run, None, storeAfterSecond, snd (snd (snd ?run)))"
    by (simp add: storeAfterSecond_def prod_eq_iff)
  from refetch_replaces [OF run] obtain m
    where m: "fr_Module ?fr = Some m"
      and v: "m_Version m = fr_ResolvedVersion ?fr"
      and p: "\<forall>pkgPath. GetPackage storeAfterSecond pkgPath ''m.io/x'' (m_Version m) =
                 (case find (\<lambda>u. u_Path u = pkgPath) (m_Units m) of
                    None \<Rightarrow> None
                  | Some u \<Rightarrow> u_Package u)"
      and a: "GetPackagesInModule storeAfterSecond ''m.io/x'' (m_Version m) =
                unitPackages (m_Units m)"
    by blast
  have ver: "fr_ResolvedVersion ?fr = ''v1.0.0''"
    by code_simp
  have units: "m_Units (the (fr_Module ?fr)) =
                 [\<lparr>u_Path = ''m.io/x/a'', u_Package = Some (samplePkg ''m.io/x/a'')\<rparr>]"
    by code_simp
  from m units have mu: "m_Units m = [\<lparr>u_Path = ''m.io/x/a'', u_Package = Some (samplePkg ''m.io/x/a'')\<rparr>]"
    by simp
  from p [rule_format, of "''m.io/x/b''"] a first show ?thesis
    by (simp add: v ver mu unitPackages_def List.map_filter_simps)
qed



subsection \<open>A module with one package that is too large\<close>

text \<open>
  A directory with a file above the ceiling gives no package and a state with the
  too-large status; any other directory of \<open>oneTooLarge\<close> gives its package and a state
  with the status 200.
\<close>

lemma extractDir_large:
  "hasLargeFile ex (snd dir) \<Longrightarrow>
   extractDir ex mp ver dir =
     (None, \<lparr>pvs_PackagePath = fst dir, pvs_ModulePath = mp, pvs_Version = ver,
             pvs_Status = ex_tooLarge ex\<rparr>)"
  by (simp add: extractDir_def)

lemma extractDir_loaded:
  "\<not> hasLargeFile ex (snd dir) \<Longrightarrow> ex_loadPackage ex (fst dir) (snd dir) = Inr pkg \<Longrightarrow>
   extractDir ex mp ver dir =
     (Some pkg, \<lparr>pvs_PackagePath = fst dir, pvs_ModulePath = mp, pvs_Version = ver,
                 pvs_Status = StatusOK\<rparr>)"
  by (simp add: extractDir_def)

text \<open>
  The packages extracted from the directories, one of which is too large, are those of
  the other directories, in order, and the states include the too-large state.
\<close>

lemma extracted_packages:
  assumes "list_all
           (\<lambda>dir. if fst dir = big then hasLargeFile ex (snd dir)
                   else \<not> hasLargeFile ex (snd dir)
                        \<and> (case ex_loadPackage ex (fst dir) (snd dir) of
                              Inl status \<Rightarrow> False
                            | Inr pkg \<Rightarrow> gp_path pkg = fst dir)
                        \<and> (fst dir = mp \<or> inModule mp (fst dir)))
           dirs"
  shows "map gp_path (List.map_filter fst (map (extractDir ex mp ver) dirs)) =
           filter (\<lambda>p. p \<noteq> big) (map fst dirs)
         \<and> (big \<in> set (map fst dirs) \<longrightarrow>
              \<lparr>pvs_PackagePath = big, pvs_ModulePath = mp, pvs_Version = ver,
               pvs_Status = ex_tooLarge ex\<rparr> \<in> set (map snd (map (extractDir ex mp ver) dirs)))"
  using assms
proof (induction dirs)
  case Nil
  show ?case
    by (simp add: List.map_filter_simps)
next
  case (Cons dir dirs)
  show ?case
  proof (cases "fst dir = big")
    case True
    with Cons.prems have "hasLargeFile ex (snd dir)"
      by simp
    from extractDir_large [OF this, of mp ver] True Cons show ?thesis
      by (simp add: List.map_filter_simps)
  next
    case False
    with Cons.prems obtain pkg
      where "\<not> hasLargeFile ex (snd dir)" "ex_loadPackage ex (fst dir) (snd dir) = Inr pkg"
        "gp_path pkg = fst dir"
      by (auto split: sum.splits)
    with extractDir_loaded [of ex dir pkg mp ver] False Cons show ?thesis
      by (simp add: List.map_filter_simps)
  qed
qed

text \<open>
  The extraction succeeds when there is another directory beside the one that is too
  large.
\<close>

lemma extractPackages_oneTooLarge:
  assumes one: "oneTooLarge ex mp (ex_packageDirs ex mp ver zr) big"
    and n2: "2 \<le> length (ex_packageDirs ex mp ver zr)"
  shows "\<exists>pkgs pvs.
           extractPackages ex mp ver zr si = Inr (pkgs, pvs)
           \<and> map gp_path pkgs = filter (\<lambda>p. p \<noteq> big) (map fst (ex_packageDirs ex mp ver zr))
           \<and> \<lparr>pvs_PackagePath = big, pvs_ModulePath = mp, pvs_Version = ver,
               pvs_Status = ex_tooLarge ex\<rparr> \<in> set pvs"
proof -
  let ?dirs = "ex_packageDirs ex mp ver zr"
  let ?results = "map (extractDir ex mp ver) ?dirs"
  from one have la: "list_all
           (\<lambda>dir. if fst dir = big then hasLargeFile ex (snd dir)
                   else \<not> hasLargeFile ex (snd dir)
                        \<and> (case ex_loadPackage ex (fst dir) (snd dir) of
                              Inl status \<Rightarrow> False
                            | Inr pkg \<Rightarrow> gp_path pkg = fst dir)
                        \<and> (fst dir = mp \<or> inModule mp (fst dir)))
           ?dirs"
    and di: "distinct (map fst ?dirs)" and bg: "big \<in> set (map fst ?dirs)"
    by (simp_all add: oneTooLarge_def)
  note ep = extracted_packages [OF la, of ver]
  have "filter (\<lambda>p. p \<noteq> big) (map fst ?dirs) \<noteq> []"
  proof
    assume "filter (\<lambda>p. p \<noteq> big) (map fst ?dirs) = []"
    then have "set (map fst ?dirs) \<subseteq> {big}"
      by (auto simp: filter_empty_conv)
    with di have "length (map fst ?dirs) \<le> 1"
      by (metis card_mono card_insert_if card.empty distinct_card finite.intros One_nat_def
          empty_iff)
    with n2 show False
      by simp
  qed
  with ep have "List.map_filter fst ?results \<noteq> []"
    by (metis list.simps(8))
  with ep bg show ?thesis
    by (simp add: extractPackages_def Let_def)
qed

text \<open>The packages of the assembled units are the extracted packages.\<close>

lemma packages_of_units:
  "map gp_path (List.map_filter (\<lambda>dir. find (\<lambda>p. gp_path p = dir) pkgs) ds) =
     filter (\<lambda>dir. dir \<in> gp_path ` set pkgs) ds"
proof (induction ds)
  case Nil
  show ?case by (simp add: List.map_filter_simps)
next
  case (Cons dir ds)
  show ?case
  proof (cases "find (\<lambda>p. gp_path p = dir) pkgs")
    case None
    then have "dir \<notin> gp_path ` set pkgs"
      by (auto simp: find_None_iff)
    with None Cons show ?thesis
      by (simp add: List.map_filter_simps)
  next
    case (Some p)
    then have "gp_path p = dir" "p \<in> set pkgs"
      by (auto simp: find_Some_iff)
    with Some Cons show ?thesis
      by (auto simp: List.map_filter_simps)
  qed
qed

lemma map_filter_map: "List.map_filter g (map f xs) = List.map_filter (\<lambda>x. g (f x)) xs"
  by (induction xs) (simp_all add: List.map_filter_simps split: option.splits)

lemma unitPackages_assembleUnits:
  "map gp_path (unitPackages (assembleUnits mp pkgs)) =
     filter (\<lambda>dir. dir \<in> gp_path ` set pkgs) (unitPaths mp pkgs)"
  by (simp add: unitPackages_def assembleUnits_def map_filter_map packages_of_units)

lemma package_paths_in_unitPaths:
  assumes "\<forall>p \<in> set pkgs. gp_path p = mp \<or> inModule mp (gp_path p)"
  shows "gp_path ` set pkgs \<subseteq> set (unitPaths mp pkgs)"
  using assms
  by (auto simp: unitPaths_def set_pathAncestors)

lemma find_assembleUnits:
  "(case find (\<lambda>u. u_Path u = dir) (assembleUnits mp pkgs) of
      None \<Rightarrow> None
    | Some u \<Rightarrow> u_Package u) =
   (if dir \<in> set (unitPaths mp pkgs) then find (\<lambda>p. gp_path p = dir) pkgs else None)"
proof -
  have "(case find (\<lambda>u. u_Path u = dir)
                (map (\<lambda>dir. \<lparr>u_Path = dir, u_Package = find (\<lambda>p. gp_path p = dir) pkgs\<rparr>) ds) of
           None \<Rightarrow> None
         | Some u \<Rightarrow> u_Package u) =
        (if dir \<in> set ds then find (\<lambda>p. gp_path p = dir) pkgs else None)" for ds
    by (induction ds) auto
  then show ?thesis
    by (simp add: assembleUnits_def)
qed

text \<open>
  The result of a fetch whose extraction returns packages and whose go.mod file parses.
\<close>

lemma FetchModule_extracted:
  assumes re: "reachesExtraction d mp rv zr ver ct bytes"
    and ex: "extractPackagesFromZip d mp ver zr (source_ModuleInfo d mp ver) = Inr (pkgs, pvs)"
    and gp: "goModParses d bytes"
  shows "fr_Error (fst (FetchModule d mp rv)) = None"
    and "fr_PackageVersionStates (fst (FetchModule d mp rv)) = pvs"
    and "fr_ResolvedVersion (fst (FetchModule d mp rv)) = ver"
    and "\<exists>m readmes. fr_Module (fst (FetchModule d mp rv)) = Some m
            \<and> m_Units m = moduleUnits d mp ver pkgs readmes zr"
    and "fr_Status (fst (FetchModule d mp rv)) =
           (if (\<exists>s \<in> set pvs. pvs_Status s \<noteq> StatusOK)
               \<and> ToStatus (codes d) (Sentinel HasIncompletePackages) \<noteq> 0
            then ToStatus (codes d) (Sentinel HasIncompletePackages) else StatusOK)"
proof -
  define fr0 where "fr0 =
    \<lparr>fr_ModulePath = mp, fr_RequestedVersion = rv, fr_ResolvedVersion = [],
     fr_MainVersion = [], fr_MasterVersion = [], fr_HasGoMod = False,
     fr_GoModPath = [], fr_Status = 0, fr_Error = None, fr_Defer = Some NoOp,
     fr_Module = None, fr_PackageVersionStates = []\<rparr>"
  from re have "reachesExtraction d (fr_ModulePath fr0) (fr_RequestedVersion fr0) zr ver ct bytes"
    by (simp add: fr0_def)
  from fetchModule_reaches [OF this] obtain frB fi tr1
    where fm: "fetchModule d fr0 =
             (Some fi, fst (moduleBlock d frB ct zr bytes),
              fst (snd (moduleBlock d frB ct zr bytes)),
              tr1 @ snd (snd (moduleBlock d frB ct zr bytes)))"
      and frB: "fr_ModulePath frB = mp" "fr_ResolvedVersion frB = ver" "fr_Status frB = 0"
    by (auto simp: fr0_def)
  note res = FetchModule_fetchModule [OF fm [unfolded fr0_def]]
  from re obtain readmes where rd: "extractReadmesFromZip d mp ver zr = Inr readmes"
    by (auto simp: reachesExtraction_def)
  let ?M = "moduleBlock d frB ct zr bytes"
  have keeps: "restKeeps d frB (fst ?M) (fst (snd ?M)) (snd (snd ?M))"
    by (rule moduleBlock_keeps) simp
  from processZipFile_Inr [OF rd ex, of ct] frB
  have pz: "processZipFile d (fr_ModulePath frB) (fr_ResolvedVersion frB) ct zr =
          Inr (\<lparr>m_ModulePath = mp, m_Version = ver, m_CommitTime = ct,
                m_IsRedistributable = licenses_ModuleIsRedistributable d mp ver zr,
                m_SourceInfo = source_ModuleInfo d mp ver,
                m_HasGoMod = False, m_Deprecated = False, m_DeprecationComment = [],
                m_Licenses = licenses_AllLicenses d mp ver zr,
                m_Units = moduleUnits d mp ver pkgs readmes zr\<rparr>, pvs)"
    by simp
  from moduleBlock_Inr [OF pz gp]
  have m: "fst ?M = None" "fr_PackageVersionStates (fst (snd ?M)) = pvs"
    "\<exists>md'. fr_Module (fst (snd ?M)) = Some md'
        \<and> m_Units md' = moduleUnits d mp ver pkgs readmes zr"
    by auto
  have "?M = (None, fst (snd ?M), snd (snd ?M))"
    using m(1) by (simp add: prod_eq_iff)
  from moduleBlock_identity [OF this] frB
  have rv: "fr_ResolvedVersion (fst (snd ?M)) = ver"
    by auto
  from m(1) show "fr_Error (fst (FetchModule d mp rv)) = None"
    by (simp add: res derrors_Wrap_def)
  from m(2) show "fr_PackageVersionStates (fst (FetchModule d mp rv)) = pvs"
    by (simp add: res)
  from rv show "fr_ResolvedVersion (fst (FetchModule d mp rv)) = ver"
    by (simp add: res)
  from m(3) show "\<exists>m readmes. fr_Module (fst (FetchModule d mp rv)) = Some m
            \<and> m_Units m = moduleUnits d mp ver pkgs readmes zr"
    by (auto simp: res)
  from m(1,2) keeps frB show "fr_Status (fst (FetchModule d mp rv)) =
           (if (\<exists>s \<in> set pvs. pvs_Status s \<noteq> StatusOK)
               \<and> ToStatus (codes d) (Sentinel HasIncompletePackages) \<noteq> 0
            then ToStatus (codes d) (Sentinel HasIncompletePackages) else StatusOK)"
    by (auto simp: res restKeeps_def Let_def)
qed

lemma withExtractor_fields [simp]:
  "codes (withExtractor ex d) = codes d"
  "source_ModuleInfo (withExtractor ex d) = source_ModuleInfo d"
  "extractPackagesFromZip (withExtractor ex d) = extractPackages ex"
  "moduleUnits (withExtractor ex d) mp ver pkgs readmes zr = assembleUnits mp pkgs"
  "goModParses (withExtractor ex d) bytes = goModParses d bytes"
  by (simp_all add: withExtractor_def goModParses_def split: option.splits)

text \<open>
  Claim C6, as amended. For every fetch that reaches the extraction of the packages
  (the version is resolved, the fetch is admitted, the zip is obtained, the go.mod path
  is the path of the module and the readmes are extracted) of a module with at least
  two package directories of which exactly one, \<open>big\<close>, has a file above the per-file
  ceiling \<^verbatim>\<open>MaxFileSize\<close>, each of the others loading into a package of its own path
  inside the module; whose go.mod file, when there is one, parses; with a too-large
  status of the 600 class and no class of the table with the code 0: the states of the
  fetch hold the state of \<open>big\<close> with the too-large status; the fetch has no error and
  its status is the code of \<^verbatim>\<open>HasIncompletePackages\<close>; the packages of the assembled
  module are exactly those of the other directories, so \<open>big\<close> is excluded; and if
  the store accepts the assembled module, the caller returns that status and no error,
  the packages that can be read for the module version afterwards are exactly those of
  the other directories, one fewer than the directories, and \<open>big\<close> is not found.
\<close>

theorem one_large_package_degrades:
  assumes re: "reachesExtraction (withExtractor ex d) mp rv zr ver ct bytes"
    and gp: "goModParses d bytes"
    and cz: "codesNonzero (codes d)"
    and one: "oneTooLarge ex mp (ex_packageDirs ex mp ver zr) big"
    and n2: "2 \<le> length (ex_packageDirs ex mp ver zr)"
    and tl: "600 \<le> ex_tooLarge ex" "ex_tooLarge ex < 700"
  shows "\<lparr>pvs_PackagePath = big, pvs_ModulePath = mp, pvs_Version = ver,
          pvs_Status = ex_tooLarge ex\<rparr>
           \<in> set (fr_PackageVersionStates (fst (FetchModule (withExtractor ex d) mp rv)))
         \<and> fr_Error (fst (FetchModule (withExtractor ex d) mp rv)) = None
         \<and> fr_Status (fst (FetchModule (withExtractor ex d) mp rv)) =
             ToStatus (codes d) (Sentinel HasIncompletePackages)
         \<and> (\<exists>m. fr_Module (fst (FetchModule (withExtractor ex d) mp rv)) = Some m
                \<and> set (map gp_path (unitPackages (m_Units m))) =
                    set (map fst (ex_packageDirs ex mp ver zr)) - {big}
                \<and> (accepts st m \<longrightarrow>
                     fst (FetchAndUpdateState accepts (withExtractor ex d) st mp rv) =
                       ToStatus (codes d) (Sentinel HasIncompletePackages)
                     \<and> fst (snd (FetchAndUpdateState accepts (withExtractor ex d) st mp rv)) = None
                     \<and> set (map gp_path
                              (GetPackagesInModule
                                 (fst (snd (snd (FetchAndUpdateState accepts (withExtractor ex d) st mp rv))))
                                 mp ver)) =
                         set (map fst (ex_packageDirs ex mp ver zr)) - {big}
                     \<and> distinct (map gp_path
                              (GetPackagesInModule
                                 (fst (snd (snd (FetchAndUpdateState accepts (withExtractor ex d) st mp rv))))
                                 mp ver))
                     \<and> length (GetPackagesInModule
                                 (fst (snd (snd (FetchAndUpdateState accepts (withExtractor ex d) st mp rv))))
                                 mp ver) =
                         length (ex_packageDirs ex mp ver zr) - 1
                     \<and> GetPackage
                           (fst (snd (snd (FetchAndUpdateState accepts (withExtractor ex d) st mp rv))))
                           big mp ver = None))"
proof -
  let ?d = "withExtractor ex d"
  let ?dirs = "ex_packageDirs ex mp ver zr"
  let ?fr = "fst (FetchModule ?d mp rv)"
  let ?st = "fst (snd (snd (FetchAndUpdateState accepts ?d st mp rv)))"
  let ?big = "\<lparr>pvs_PackagePath = big, pvs_ModulePath = mp, pvs_Version = ver,
               pvs_Status = ex_tooLarge ex\<rparr>"
  from extractPackages_oneTooLarge [OF one n2, of "source_ModuleInfo d mp ver"]
  obtain pkgs pvs
    where ep: "extractPackages ex mp ver zr (source_ModuleInfo d mp ver) = Inr (pkgs, pvs)"
      and paths: "map gp_path pkgs = filter (\<lambda>p. p \<noteq> big) (map fst ?dirs)"
      and bigst: "?big \<in> set pvs"
    by blast
  from ep have ex': "extractPackagesFromZip ?d mp ver zr (source_ModuleInfo ?d mp ver) =
                       Inr (pkgs, pvs)"
    by simp
  from gp have gp': "goModParses ?d bytes"
    by simp
  note fm = FetchModule_extracted [OF re ex' gp']
  from cz have nz: "ToStatus (codes d) (Sentinel HasIncompletePackages) \<noteq> 0"
    by (rule ToStatus_nonzero)
  from tl have "pvs_Status ?big \<noteq> StatusOK"
    by (simp add: StatusOK_def)
  with bigst have "\<exists>s \<in> set pvs. pvs_Status s \<noteq> StatusOK"
    by blast
  with fm(5) nz have status: "fr_Status ?fr = ToStatus (codes d) (Sentinel HasIncompletePackages)"
    by simp
  from fm(4) obtain m where m: "fr_Module ?fr = Some m" "m_Units m = assembleUnits mp pkgs"
    by auto
  from FetchModule_identity [OF fm(1)] m(1) fm(3)
  have ident: "m_ModulePath m = mp" "m_Version m = ver"
    by auto
  from one have di: "distinct (map fst ?dirs)" and bg: "big \<in> set (map fst ?dirs)"
    and la: "list_all
           (\<lambda>dir. if fst dir = big then hasLargeFile ex (snd dir)
                   else \<not> hasLargeFile ex (snd dir)
                        \<and> (case ex_loadPackage ex (fst dir) (snd dir) of
                              Inl status \<Rightarrow> False
                            | Inr pkg \<Rightarrow> gp_path pkg = fst dir)
                        \<and> (fst dir = mp \<or> inModule mp (fst dir)))
           ?dirs"
    by (simp_all add: oneTooLarge_def)
  have pathset: "gp_path ` set pkgs = set (map fst ?dirs) - {big}"
  proof -
    have "gp_path ` set pkgs = set (map gp_path pkgs)"
      by simp
    also have "\<dots> = set (map fst ?dirs) - {big}"
      unfolding paths by auto
    finally show ?thesis .
  qed
  have inmod: "\<forall>p \<in> set pkgs. gp_path p = mp \<or> inModule mp (gp_path p)"
  proof
    fix p
    assume "p \<in> set pkgs"
    then have "gp_path p \<in> set (map fst ?dirs) - {big}"
      using pathset by blast
    then obtain dir where "dir \<in> set ?dirs" "fst dir = gp_path p" "fst dir \<noteq> big"
      by auto
    with la show "gp_path p = mp \<or> inModule mp (gp_path p)"
      by (auto simp: list_all_iff)
  qed
  have up: "map gp_path (unitPackages (m_Units m)) =
              filter (\<lambda>dir. dir \<in> gp_path ` set pkgs) (unitPaths mp pkgs)"
    by (simp add: m(2) unitPackages_assembleUnits)
  have upset: "set (map gp_path (unitPackages (m_Units m))) = set (map fst ?dirs) - {big}"
    using package_paths_in_unitPaths [OF inmod] pathset
    unfolding up by auto
  have updist: "distinct (map gp_path (unitPackages (m_Units m)))"
    unfolding up by (simp add: unitPaths_def)
  have uplen: "length (unitPackages (m_Units m)) = length ?dirs - 1"
  proof -
    have "length (unitPackages (m_Units m)) = card (set (map gp_path (unitPackages (m_Units m))))"
      using updist by (metis distinct_card length_map)
    also have "\<dots> = card (set (map fst ?dirs) - {big})"
      by (simp only: upset)
    also have "\<dots> = card (set (map fst ?dirs)) - 1"
      using bg by simp
    also have "\<dots> = length ?dirs - 1"
      using di by (metis distinct_card length_map)
    finally show ?thesis .
  qed
  have caller: "fst (FetchAndUpdateState accepts ?d st mp rv) =
                  ToStatus (codes d) (Sentinel HasIncompletePackages)
                \<and> fst (snd (FetchAndUpdateState accepts ?d st mp rv)) = None
                \<and> set (map gp_path (GetPackagesInModule ?st mp ver)) = set (map fst ?dirs) - {big}
                \<and> distinct (map gp_path (GetPackagesInModule ?st mp ver))
                \<and> length (GetPackagesInModule ?st mp ver) = length ?dirs - 1
                \<and> GetPackage ?st big mp ver = None"
    if acc: "accepts st m"
  proof -
    note cm = FetchAndUpdateState_committed [where accepts = accepts and st = st, OF fm(1) m(1) acc]
    note rec = upsert_records [OF cm(3) ident(1), unfolded ident(2)]
    have getbig: "GetPackage ?st big mp ver = None"
    proof -
      have "find (\<lambda>p. gp_path p = big) pkgs = None"
        using pathset by (auto simp: find_None_iff)
      then show ?thesis
        using find_assembleUnits [of big mp pkgs]
        by (simp add: rec(3) m(2))
    qed
    from status cm(1,2) upset updist uplen getbig show ?thesis
      by (simp add: rec(4))
  qed
  have "fr_Module ?fr = Some m
        \<and> set (map gp_path (unitPackages (m_Units m))) = set (map fst ?dirs) - {big}
        \<and> (accepts st m \<longrightarrow>
             fst (FetchAndUpdateState accepts ?d st mp rv) =
               ToStatus (codes d) (Sentinel HasIncompletePackages)
             \<and> fst (snd (FetchAndUpdateState accepts ?d st mp rv)) = None
             \<and> set (map gp_path (GetPackagesInModule ?st mp ver)) = set (map fst ?dirs) - {big}
             \<and> distinct (map gp_path (GetPackagesInModule ?st mp ver))
             \<and> length (GetPackagesInModule ?st mp ver) = length ?dirs - 1
             \<and> GetPackage ?st big mp ver = None)"
    using m(1) upset caller by blast
  then have mod: "\<exists>m. fr_Module ?fr = Some m
        \<and> set (map gp_path (unitPackages (m_Units m))) = set (map fst ?dirs) - {big}
        \<and> (accepts st m \<longrightarrow>
             fst (FetchAndUpdateState accepts ?d st mp rv) =
               ToStatus (codes d) (Sentinel HasIncompletePackages)
             \<and> fst (snd (FetchAndUpdateState accepts ?d st mp rv)) = None
             \<and> set (map gp_path (GetPackagesInModule ?st mp ver)) = set (map fst ?dirs) - {big}
             \<and> distinct (map gp_path (GetPackagesInModule ?st mp ver))
             \<and> length (GetPackagesInModule ?st mp ver) = length ?dirs - 1
             \<and> GetPackage ?st big mp ver = None)"
    by (rule exI)
  from bigst fm(2) have "?big \<in> set (fr_PackageVersionStates ?fr)"
    by simp
  with fm(1) status mod show ?thesis
    by (intro conjI)
qed

text \<open>
  The sample module with the directories \<^verbatim>\<open>a\<close> and \<^verbatim>\<open>b\<close>, where \<^verbatim>\<open>b\<close> has a file of
  5000 bytes above the ceiling of 1000, a go.mod file that parses and a store that
  accepts every module: the status is 290 and the package \<^verbatim>\<open>a\<close> alone is read
  afterwards.
\<close>

theorem one_large_package_degrades_witness:
  "reachesExtraction (withExtractor sampleExtractor sampleDeps) ''m.io/x'' ''v1.0.0''
     (sampleZip ''m.io/x'' ''v1.0.0'') ''v1.0.0'' 1 (Some ''module m.io/x'')
   \<and> goModParses sampleDeps (Some ''module m.io/x'')
   \<and> codesNonzero (codes sampleDeps)
   \<and> oneTooLarge sampleExtractor ''m.io/x''
        (ex_packageDirs sampleExtractor ''m.io/x'' ''v1.0.0'' (sampleZip ''m.io/x'' ''v1.0.0''))
        ''m.io/x/b''
   \<and> length (ex_packageDirs sampleExtractor ''m.io/x'' ''v1.0.0'' (sampleZip ''m.io/x'' ''v1.0.0'')) = 2
   \<and> ex_tooLarge sampleExtractor = 600
   \<and> sampleState ''m.io/x'' ''v1.0.0'' ''m.io/x/b'' 600
        \<in> set (fr_PackageVersionStates
                 (fst (FetchModule (withExtractor sampleExtractor sampleDeps) ''m.io/x'' ''v1.0.0'')))
   \<and> fr_Error (fst (FetchModule (withExtractor sampleExtractor sampleDeps) ''m.io/x'' ''v1.0.0'')) = None
   \<and> fr_Status (fst (FetchModule (withExtractor sampleExtractor sampleDeps) ''m.io/x'' ''v1.0.0'')) = 290
   \<and> fst (FetchAndUpdateState acceptAll (withExtractor sampleExtractor sampleDeps) emptyStore
             ''m.io/x'' ''v1.0.0'') = 290
   \<and> fst (snd (FetchAndUpdateState acceptAll (withExtractor sampleExtractor sampleDeps) emptyStore
             ''m.io/x'' ''v1.0.0'')) = None
   \<and> set (map gp_path (GetPackagesInModule storeAfterLarge ''m.io/x'' ''v1.0.0'')) = {''m.io/x/a''}
   \<and> length (GetPackagesInModule storeAfterLarge ''m.io/x'' ''v1.0.0'') = 1
   \<and> GetPackage storeAfterLarge ''m.io/x/b'' ''m.io/x'' ''v1.0.0'' = None"
proof -
  let ?zr = "sampleZip ''m.io/x'' ''v1.0.0''"
  let ?d = "withExtractor sampleExtractor sampleDeps"
  let ?info = "\<lparr>vi_Version = ''v1.0.0'', vi_Time = 1\<rparr>"
  have re: "reachesExtraction ?d ''m.io/x'' ''v1.0.0'' ?zr ''v1.0.0'' 1 (Some ''module m.io/x'')"
    unfolding reachesExtraction_def
    by (intro exI [of _ ?info] exI [of _ "''m.io/x''"] exI [of _ "[]"]) code_simp
  have gp: "goModParses sampleDeps (Some ''module m.io/x'')"
    by code_simp
  have cz: "codesNonzero (codes sampleDeps)"
    by code_simp
  have one: "oneTooLarge sampleExtractor ''m.io/x''
               (ex_packageDirs sampleExtractor ''m.io/x'' ''v1.0.0'' ?zr) ''m.io/x/b''"
    by code_simp
  have len: "length (ex_packageDirs sampleExtractor ''m.io/x'' ''v1.0.0'' ?zr) = 2"
    by code_simp
  then have n2: "2 \<le> length (ex_packageDirs sampleExtractor ''m.io/x'' ''v1.0.0'' ?zr)"
    by simp
  have tlv: "ex_tooLarge sampleExtractor = 600"
    by (simp add: sampleExtractor_def)
  then have tl: "600 \<le> ex_tooLarge sampleExtractor" "ex_tooLarge sampleExtractor < 700"
    by simp_all
  have t: "ToStatus (codes sampleDeps) (Sentinel HasIncompletePackages) = 290"
    by code_simp
  have dirs: "set (map fst (ex_packageDirs sampleExtractor ''m.io/x'' ''v1.0.0'' ?zr)) - {''m.io/x/b''} =
                {''m.io/x/a''}"
    by (auto simp: sampleExtractor_def)
  from one_large_package_degrades
         [where ex = sampleExtractor and d = sampleDeps and mp = "''m.io/x''"
            and rv = "''v1.0.0''" and zr = ?zr and ver = "''v1.0.0''" and ct = 1
            and bytes = "Some ''module m.io/x''" and big = "''m.io/x/b''"
            and accepts = acceptAll and st = emptyStore,
          OF re gp cz one n2 tl]
  have "\<lparr>pvs_PackagePath = ''m.io/x/b'', pvs_ModulePath = ''m.io/x'', pvs_Version = ''v1.0.0'',
          pvs_Status = 600\<rparr>
           \<in> set (fr_PackageVersionStates (fst (FetchModule ?d ''m.io/x'' ''v1.0.0'')))
         \<and> fr_Error (fst (FetchModule ?d ''m.io/x'' ''v1.0.0'')) = None
         \<and> fr_Status (fst (FetchModule ?d ''m.io/x'' ''v1.0.0'')) = 290
         \<and> fst (FetchAndUpdateState acceptAll ?d emptyStore ''m.io/x'' ''v1.0.0'') = 290
         \<and> fst (snd (FetchAndUpdateState acceptAll ?d emptyStore ''m.io/x'' ''v1.0.0'')) = None
         \<and> set (map gp_path (GetPackagesInModule storeAfterLarge ''m.io/x'' ''v1.0.0'')) = {''m.io/x/a''}
         \<and> length (GetPackagesInModule storeAfterLarge ''m.io/x'' ''v1.0.0'') = 1
         \<and> GetPackage storeAfterLarge ''m.io/x/b'' ''m.io/x'' ''v1.0.0'' = None"
    unfolding t dirs tlv len storeAfterLarge_def [symmetric] acceptAll_def
    by auto
  with re gp cz one len tlv show ?thesis
    by (simp add: sampleState_def)
qed

text \<open>
  Claim C6 as stated fails for a module with one package: when the directory \<^verbatim>\<open>b\<close>
  with its file above the ceiling is the only one, no package is extracted, the
  extraction fails with \<^verbatim>\<open>ErrModuleContainsNoPackages\<close>, and the fetch ends with an
  error and the status 490 of \<^verbatim>\<open>BadModule\<close>, not with the degraded-success status.
\<close>

theorem only_package_too_large_counterexample:
  "oneTooLarge onlyLargeExtractor ''m.io/x''
     (ex_packageDirs onlyLargeExtractor ''m.io/x'' ''v1.0.0'' (sampleZip ''m.io/x'' ''v1.0.0''))
     ''m.io/x/b''
   \<and> length (ex_packageDirs onlyLargeExtractor ''m.io/x'' ''v1.0.0'' (sampleZip ''m.io/x'' ''v1.0.0'')) = 1
   \<and> reachesExtraction (withExtractor onlyLargeExtractor sampleDeps) ''m.io/x'' ''v1.0.0''
        (sampleZip ''m.io/x'' ''v1.0.0'') ''v1.0.0'' 1 (Some ''module m.io/x'')
   \<and> goModParses sampleDeps (Some ''module m.io/x'')
   \<and> codesNonzero (codes sampleDeps)
   \<and> ToStatus (codes sampleDeps) (Sentinel HasIncompletePackages) = 290
   \<and> fr_Status (fst (FetchModule (withExtractor onlyLargeExtractor sampleDeps) ''m.io/x'' ''v1.0.0'')) = 490
   \<and> fr_Error (fst (FetchModule (withExtractor onlyLargeExtractor sampleDeps) ''m.io/x'' ''v1.0.0'')) \<noteq> None
   \<and> fr_PackageVersionStates
        (fst (FetchModule (withExtractor onlyLargeExtractor sampleDeps) ''m.io/x'' ''v1.0.0'')) = []
   \<and> fst (FetchAndUpdateState acceptAll (withExtractor onlyLargeExtractor sampleDeps) emptyStore
             ''m.io/x'' ''v1.0.0'') = 490
   \<and> fst (snd (FetchAndUpdateState acceptAll (withExtractor onlyLargeExtractor sampleDeps) emptyStore
             ''m.io/x'' ''v1.0.0'')) \<noteq> None"
proof -
  let ?zr = "sampleZip ''m.io/x'' ''v1.0.0''"
  let ?d = "withExtractor onlyLargeExtractor sampleDeps"
  let ?info = "\<lparr>vi_Version = ''v1.0.0'', vi_Time = 1\<rparr>"
  have re: "reachesExtraction ?d ''m.io/x'' ''v1.0.0'' ?zr ''v1.0.0'' 1 (Some ''module m.io/x'')"
    unfolding reachesExtraction_def
    by (intro exI [of _ ?info] exI [of _ "''m.io/x''"] exI [of _ "[]"]) code_simp
  have one: "oneTooLarge onlyLargeExtractor ''m.io/x''
               (ex_packageDirs onlyLargeExtractor ''m.io/x'' ''v1.0.0'' ?zr) ''m.io/x/b''"
    by code_simp
  have len: "length (ex_packageDirs onlyLargeExtractor ''m.io/x'' ''v1.0.0'' ?zr) = 1"
    by code_simp
  have gp: "goModParses sampleDeps (Some ''module m.io/x'')"
    by code_simp
  have cz: "codesNonzero (codes sampleDeps)"
    by code_simp
  have t: "ToStatus (codes sampleDeps) (Sentinel HasIncompletePackages) = 290"
    by code_simp
  have s: "fr_Status (fst (FetchModule ?d ''m.io/x'' ''v1.0.0'')) = 490"
    by code_simp
  have e: "fr_Error (fst (FetchModule ?d ''m.io/x'' ''v1.0.0'')) \<noteq> None"
    by code_simp
  have p: "fr_PackageVersionStates (fst (FetchModule ?d ''m.io/x'' ''v1.0.0'')) = []"
    by code_simp
  have c: "fst (FetchAndUpdateState acceptAll ?d emptyStore ''m.io/x'' ''v1.0.0'') = 490"
    by code_simp
  have ce: "fst (snd (FetchAndUpdateState acceptAll ?d emptyStore ''m.io/x'' ''v1.0.0'')) \<noteq> None"
    by code_simp
  from one len re gp cz t s e p c ce show ?thesis
    by (intro conjI)
qed

subsection \<open>The deprecation reported for a module\<close>

text \<open>
  With a go.mod file that parses, the block of the module stores what
  \<^verbatim>\<open>extractDeprecatedComment\<close> returns in the module of the result, and so does the
  fetch that reaches the extraction and extracts packages.
\<close>

lemma moduleBlock_goMod:
  assumes "processZipFile d (fr_ModulePath fr) (fr_ResolvedVersion fr) ct zr = Inr (md, pvs)"
    and "modfile_Parse d b = Inr mf"
  shows "fst (moduleBlock d fr ct zr (Some b)) = None"
    and "fr_Module (fst (snd (moduleBlock d fr ct zr (Some b)))) =
           Some (md\<lparr>m_HasGoMod := fr_HasGoMod fr,
                    m_Deprecated := fst (extractDeprecatedComment mf),
                    m_DeprecationComment := snd (extractDeprecatedComment mf)\<rparr>)"
  using assms
  by (simp_all add: moduleBlock_def Let_def incomplete_loop processGoModFile_def split_beta)

lemma FetchModule_goMod:
  assumes re: "reachesExtraction d mp rv zr ver ct (Some b)"
    and ex: "extractPackagesFromZip d mp ver zr (source_ModuleInfo d mp ver) = Inr (pkgs, pvs)"
    and parse: "modfile_Parse d b = Inr mf"
  shows "fr_Error (fst (FetchModule d mp rv)) = None
         \<and> (\<exists>m. fr_Module (fst (FetchModule d mp rv)) = Some m
                \<and> m_Deprecated m = fst (extractDeprecatedComment mf)
                \<and> m_DeprecationComment m = snd (extractDeprecatedComment mf))"
proof -
  define fr0 where "fr0 =
    \<lparr>fr_ModulePath = mp, fr_RequestedVersion = rv, fr_ResolvedVersion = [],
     fr_MainVersion = [], fr_MasterVersion = [], fr_HasGoMod = False,
     fr_GoModPath = [], fr_Status = 0, fr_Error = None, fr_Defer = Some NoOp,
     fr_Module = None, fr_PackageVersionStates = []\<rparr>"
  from re have "reachesExtraction d (fr_ModulePath fr0) (fr_RequestedVersion fr0) zr ver ct (Some b)"
    by (simp add: fr0_def)
  from fetchModule_reaches [OF this] obtain frB fi tr1
    where fm: "fetchModule d fr0 =
             (Some fi, fst (moduleBlock d frB ct zr (Some b)),
              fst (snd (moduleBlock d frB ct zr (Some b))),
              tr1 @ snd (snd (moduleBlock d frB ct zr (Some b))))"
      and frB: "fr_ModulePath frB = mp" "fr_ResolvedVersion frB = ver"
    by (auto simp: fr0_def)
  note res = FetchModule_fetchModule [OF fm [unfolded fr0_def]]
  from re obtain readmes where rd: "extractReadmesFromZip d mp ver zr = Inr readmes"
    by (auto simp: reachesExtraction_def)
  from processZipFile_Inr [OF rd ex, of ct] frB
  obtain md where pz: "processZipFile d (fr_ModulePath frB) (fr_ResolvedVersion frB) ct zr = Inr (md, pvs)"
    by simp
  note mb = moduleBlock_goMod [OF pz parse]
  from mb show ?thesis
    by (simp add: res derrors_Wrap_def)
qed

text \<open>
  Claim C8. For every go.mod file that \<^verbatim>\<open>modfile.Parse\<close> parses into \<open>mf\<close>:
  \<^verbatim>\<open>extractDeprecatedComment\<close> reports the module as deprecated if and only if some line
  comment attached to the module declaration (before it or at its end), with the
  leading \<^verbatim>\<open>//\<close> and the surrounding white space stripped, starts with \<^verbatim>\<open>Deprecated:\<close>.
  Then the comment it returns is the text after the prefix of the first such comment,
  with the surrounding white space trimmed; otherwise it returns false and the empty
  string. \<^verbatim>\<open>processGoModFile\<close> returns no error and stores exactly these two results in
  the fields \<^verbatim>\<open>Deprecated\<close> and \<^verbatim>\<open>DeprecationComment\<close> of the module, whatever the
  module, and leaves its other fields as they were. A fetch that reaches the extraction
  with this go.mod file and whose extraction returns packages has no error and returns
  a module with these two results in the two fields.
\<close>

theorem processGoModFile_deprecation:
  assumes parse: "modfile_Parse d goModBytes = Inr mf"
  shows "(fst (extractDeprecatedComment mf) \<longleftrightarrow> (\<exists>c \<in> set (moduleComments mf). isDeprecation c))
         \<and> (fst (extractDeprecatedComment mf) \<longrightarrow>
              (\<exists>c. find isDeprecation (moduleComments mf) = Some c
                 \<and> snd (extractDeprecatedComment mf)
                     = TrimSpace (drop (length deprecatedPrefix) (commentText c))))
         \<and> (\<not> fst (extractDeprecatedComment mf) \<longrightarrow> extractDeprecatedComment mf = (False, []))
         \<and> processGoModFile d goModBytes md =
             Inr (md\<lparr>m_Deprecated := fst (extractDeprecatedComment mf),
                      m_DeprecationComment := snd (extractDeprecatedComment mf)\<rparr>)
         \<and> (reachesExtraction d mp rv zr ver ct (Some goModBytes)
              \<and> extractPackagesFromZip d mp ver zr (source_ModuleInfo d mp ver) = Inr (pkgs, pvs)
            \<longrightarrow> fr_Error (fst (FetchModule d mp rv)) = None
                \<and> (\<exists>m. fr_Module (fst (FetchModule d mp rv)) = Some m
                       \<and> m_Deprecated m = fst (extractDeprecatedComment mf)
                       \<and> m_DeprecationComment m = snd (extractDeprecatedComment mf)))"
proof -
  have helper: "(fst (extractDeprecatedComment mf) \<longleftrightarrow> (\<exists>c \<in> set (moduleComments mf). isDeprecation c))
         \<and> (fst (extractDeprecatedComment mf) \<longrightarrow>
              (\<exists>c. find isDeprecation (moduleComments mf) = Some c
                 \<and> snd (extractDeprecatedComment mf)
                     = TrimSpace (drop (length deprecatedPrefix) (commentText c))))
         \<and> (\<not> fst (extractDeprecatedComment mf) \<longrightarrow> extractDeprecatedComment mf = (False, []))"
  proof (cases "find isDeprecation (moduleComments mf)")
    case None
    then have "\<not> (\<exists>c \<in> set (moduleComments mf). isDeprecation c)"
      by (simp add: find_None_iff)
    with None show ?thesis
      by (simp add: extractDeprecatedComment_loop deprecatedLoop_find)
  next
    case (Some c)
    then have "c \<in> set (moduleComments mf) \<and> isDeprecation c"
      by (auto simp: find_Some_iff)
    with Some show ?thesis
      by (auto simp: extractDeprecatedComment_loop deprecatedLoop_find)
  qed
  from parse have stored: "processGoModFile d goModBytes md =
             Inr (md\<lparr>m_Deprecated := fst (extractDeprecatedComment mf),
                      m_DeprecationComment := snd (extractDeprecatedComment mf)\<rparr>)"
    by (simp add: processGoModFile_def split_beta)
  have fetched: "reachesExtraction d mp rv zr ver ct (Some goModBytes)
              \<and> extractPackagesFromZip d mp ver zr (source_ModuleInfo d mp ver) = Inr (pkgs, pvs)
            \<longrightarrow> fr_Error (fst (FetchModule d mp rv)) = None
                \<and> (\<exists>m. fr_Module (fst (FetchModule d mp rv)) = Some m
                       \<and> m_Deprecated m = fst (extractDeprecatedComment mf)
                       \<and> m_DeprecationComment m = snd (extractDeprecatedComment mf))"
    using FetchModule_goMod [OF _ _ parse] by blast
  from helper stored fetched show ?thesis
    by (intro conjI) blast+
qed

text \<open>
  The theorem at a go.mod file whose module declaration has an ordinary comment and a
  deprecation before it, and another deprecation at its end: the first deprecation
  wins, \<^verbatim>\<open>processGoModFile\<close> marks the sample module as deprecated with the comment
  \<^verbatim>\<open>use v2\<close>, and so is the module of the fetch.
\<close>

theorem processGoModFile_deprecation_witness:
  "modfile_Parse deprecatedDeps ''module m.io/x'' = Inr sampleGoMod
   \<and> extractDeprecatedComment sampleGoMod = (True, ''use v2'')
   \<and> processGoModFile deprecatedDeps ''module m.io/x'' sampleModule =
       Inr (sampleModule\<lparr>m_Deprecated := True, m_DeprecationComment := ''use v2''\<rparr>)
   \<and> reachesExtraction deprecatedDeps ''m.io/x'' ''v1.0.0'' (sampleZip ''m.io/x'' ''v1.0.0'')
        ''v1.0.0'' 1 (Some ''module m.io/x'')
   \<and> (\<exists>m. fr_Module (fst (FetchModule deprecatedDeps ''m.io/x'' ''v1.0.0'')) = Some m
          \<and> m_Deprecated m \<and> m_DeprecationComment m = ''use v2'')"
proof -
  let ?zr = "sampleZip ''m.io/x'' ''v1.0.0''"
  let ?info = "\<lparr>vi_Version = ''v1.0.0'', vi_Time = 1\<rparr>"
  have parse: "modfile_Parse deprecatedDeps ''module m.io/x'' = Inr sampleGoMod"
    by (simp add: deprecatedDeps_def)
  have re: "reachesExtraction deprecatedDeps ''m.io/x'' ''v1.0.0'' ?zr ''v1.0.0'' 1
              (Some ''module m.io/x'')"
    unfolding reachesExtraction_def
    by (intro exI [of _ ?info] exI [of _ "''m.io/x''"] exI [of _ "[]"]) code_simp
  have ex: "extractPackagesFromZip deprecatedDeps ''m.io/x'' ''v1.0.0'' ?zr
              (source_ModuleInfo deprecatedDeps ''m.io/x'' ''v1.0.0'') =
            Inr ([samplePkg ''m.io/x/a''], [sampleState ''m.io/x'' ''v1.0.0'' ''m.io/x/a'' 200])"
    by code_simp
  have f: "find isDeprecation (moduleComments sampleGoMod) = Some \<lparr>Token = ''//  Deprecated: use v2 ''\<rparr>"
    by code_simp
  then have some: "\<exists>c \<in> set (moduleComments sampleGoMod). isDeprecation c"
    by (auto simp: find_Some_iff)
  have trimmed: "TrimSpace (drop (length deprecatedPrefix)
                     (commentText \<lparr>Token = ''//  Deprecated: use v2 ''\<rparr>)) = ''use v2''"
    by code_simp
  note inst = processGoModFile_deprecation
               [where d = deprecatedDeps and goModBytes = "''module m.io/x''" and mf = sampleGoMod
                  and md = sampleModule and mp = "''m.io/x''" and rv = "''v1.0.0''" and zr = ?zr
                  and ver = "''v1.0.0''" and ct = 1 and pkgs = "[samplePkg ''m.io/x/a'']"
                  and pvs = "[sampleState ''m.io/x'' ''v1.0.0'' ''m.io/x/a'' 200]",
                OF parse]
  from inst some f trimmed have edc: "extractDeprecatedComment sampleGoMod = (True, ''use v2'')"
    by (auto simp: prod_eq_iff)
  from inst edc have stored: "processGoModFile deprecatedDeps ''module m.io/x'' sampleModule =
       Inr (sampleModule\<lparr>m_Deprecated := True, m_DeprecationComment := ''use v2''\<rparr>)"
    by simp
  from inst re ex edc have fetched:
    "\<exists>m. fr_Module (fst (FetchModule deprecatedDeps ''m.io/x'' ''v1.0.0'')) = Some m
          \<and> m_Deprecated m \<and> m_DeprecationComment m = ''use v2''"
    by simp
  from parse edc stored re fetched show ?thesis
    by (intro conjI)
qed

end
